theory Spec2Isabelle
  imports Main
begin

section \<open>JavaScript strings and Node's path module\<close>

text \<open>
  Strings are byte lists (UTF-8); a file's content is a byte list as well, since
  Isabelle's \<^typ>\<open>char\<close> is a byte.
\<close>

type_synonym path = string
type_synonym bytes = "char list"

text \<open>\<^verbatim>\<open>s.startsWith(p)\<close> and \<^verbatim>\<open>s.includes(p)\<close>.\<close>

fun startsWith :: "string \<Rightarrow> string \<Rightarrow> bool" where
  "startsWith s [] = True"
| "startsWith [] (c # p) = False"
| "startsWith (d # s) (c # p) = (d = c \<and> startsWith s p)"

fun str_includes :: "string \<Rightarrow> string \<Rightarrow> bool" where
  "str_includes [] p = (p = [])"
| "str_includes (d # s) p = (startsWith (d # s) p \<or> str_includes s p)"

text \<open>\<^verbatim>\<open>s.substring(a, b)\<close> for \<open>a \<le> b\<close>: the characters at indices \<open>a\<close> to \<open>b - 1\<close>,
  as far as the string goes.\<close>

definition substring :: "string \<Rightarrow> nat \<Rightarrow> nat \<Rightarrow> string" where
  "substring s a b = take (b - a) (drop a s)"

text \<open>\<^verbatim>\<open>xs.join(sep)\<close> on a list of strings.\<close>

fun join :: "string \<Rightarrow> string list \<Rightarrow> string" where
  "join sep [] = []"
| "join sep [x] = x"
| "join sep (x # y # ys) = x @ sep @ join sep (y # ys)"

text \<open>
  \<^verbatim>\<open>s.toLowerCase()\<close>: the letters A to Z are mapped to a to z. The bytes of a character
  beyond ASCII are left as they are: no such character lower-cases to a letter of the
  extensions that \<open>getMimeType\<close> compares with.
\<close>

definition toLowerCase_char :: "char \<Rightarrow> char" where
  "toLowerCase_char c =
     (case map_of (zip ''ABCDEFGHIJKLMNOPQRSTUVWXYZ'' ''abcdefghijklmnopqrstuvwxyz'') c of
        Some l \<Rightarrow> l
      | None \<Rightarrow> c)"

definition toLowerCase :: "string \<Rightarrow> string" where
  "toLowerCase s = map toLowerCase_char s"

text \<open>
  \<^verbatim>\<open>path.extname(p)\<close> of Node (POSIX): trailing slashes are dropped, the last portion of
  the path is taken, and the extension runs from its last dot to its end; it is empty
  when the portion has no dot, when its only dot is its first character, and when the
  portion is \<^verbatim>\<open>..\<close>.
\<close>

definition last_portion :: "path \<Rightarrow> string" where
  "last_portion p =
     rev (takeWhile (\<lambda>c. c \<noteq> CHR ''/'') (dropWhile (\<lambda>c. c = CHR ''/'') (rev p)))"

definition extname :: "path \<Rightarrow> string" where
  "extname p =
     (let b = last_portion p;
          e = rev (takeWhile (\<lambda>c. c \<noteq> CHR ''.'') (rev b))
      in if CHR ''.'' \<notin> set b then []
         else if Suc (length e) = length b then []
         else if b = ''..'' then []
         else CHR ''.'' # e)"

section \<open>The MIME type of a local image (getMimeType)\<close>

definition getMimeType :: "path \<Rightarrow> string" where
  "getMimeType filePath =
     (let ext = toLowerCase (extname filePath)
      in if ext = ''.jpg'' \<or> ext = ''.jpeg'' then ''image/jpeg''
         else if ext = ''.png'' then ''image/png''
         else if ext = ''.webp'' then ''image/webp''
         else ''image/jpeg'')"

section \<open>Errors\<close>

datatype ErrorCode = MethodNotFound | InvalidParams | InvalidRequest | InternalError

text \<open>
  A value thrown by the platform (the file system, the upstream client): an \<^verbatim>\<open>Error\<close>
  object with its message, or any other value \<open>v\<close> with the text \<^verbatim>\<open>String(v)\<close>.
\<close>

datatype js_thrown = JsError string | JsValue string

text \<open>\<^verbatim>\<open>error instanceof Error ? error.message : String(error)\<close>\<close>

definition error_text :: "js_thrown \<Rightarrow> string" where
  "error_text error = (case error of JsError message \<Rightarrow> message | JsValue v \<Rightarrow> v)"

text \<open>What a handler throws: \<^verbatim>\<open>new McpError(code, message)\<close> with the two arguments of
  the constructor, or a platform value passing through.\<close>

datatype exn = McpError ErrorCode string | Thrown js_thrown

section \<open>Requests, results and the upstream API\<close>

datatype ContentPart = TextContent string | ImageContent string string

type_synonym CallToolResult = "ContentPart list"

text \<open>
  The argument bag of a call, read through the handlers' casts: a required field is a
  string, an optional one may be absent, and each handler reads the fields of its own
  cast only.
\<close>

record ToolArguments =
  apiKey :: string
  imagePath :: path
  prompt :: string
  referenceImages :: "path list option"
  aspectRatio :: "string option"
  imageSize :: "string option"

record CallToolRequest =
  name :: string
  arguments :: ToolArguments

record InlineData =
  data :: "string option"
  mimeType :: "string option"

record Part =
  part_text :: "string option"
  inlineData :: "InlineData option"

record Content =
  parts :: "Part list option"

record Candidate =
  content :: "Content option"

record GenerateContentResponse =
  candidates :: "Candidate list option"

datatype RequestPart = InlineDataPart string string | TextPart string

datatype Contents = PromptString string | PartsList "RequestPart list"

record ImageConfig =
  cfg_aspectRatio :: string
  cfg_imageSize :: "string option"

record GenerateContentParameters =
  model :: string
  contents :: Contents
  imageConfig :: ImageConfig

text \<open>A JavaScript string used as a condition: defined and not empty.\<close>

definition truthy :: "string option \<Rightarrow> bool" where
  "truthy v = (case v of None \<Rightarrow> False | Some s \<Rightarrow> s \<noteq> [])"

text \<open>\<^verbatim>\<open>v || d\<close> on an optional string.\<close>

definition or_else :: "string option \<Rightarrow> string \<Rightarrow> string" where
  "or_else v d = (case v of None \<Rightarrow> d | Some s \<Rightarrow> if s = [] then d else s)"

text \<open>A destructuring default \<^verbatim>\<open>{ x = d }\<close>: it applies to an absent field only.\<close>

definition default_to :: "string option \<Rightarrow> string \<Rightarrow> string" where
  "default_to v d = (case v of None \<Rightarrow> d | Some s \<Rightarrow> s)"

text \<open>\<^verbatim>\<open>response.candidates && response.candidates[0]?.content?.parts\<close>\<close>

definition response_parts :: "GenerateContentResponse \<Rightarrow> Part list option" where
  "response_parts response =
     (case candidates response of
        None \<Rightarrow> None
      | Some [] \<Rightarrow> None
      | Some (c # _) \<Rightarrow> (case content c of None \<Rightarrow> None | Some ct \<Rightarrow> parts ct))"

section \<open>Session state, the file system and the platform\<close>

record Config =
  geminiApiKey :: string

text \<open>The client handle, with the key it was constructed from.\<close>

datatype GoogleGenAI = GoogleGenAI string

datatype ConfigSource = environment | config_file | not_configured

record Session =
  genAI :: "GoogleGenAI option"
  config :: "Config option"
  lastImagePath :: "path option"
  configSource :: ConfigSource

text \<open>
  A node of the file system: a file with its bytes, or a directory with the size
  \<^verbatim>\<open>stat\<close> reports; each with its modification time as \<^verbatim>\<open>toLocaleString\<close> prints it.
\<close>

datatype Node = File bytes string | Directory nat string

text \<open>The effects a call has had on the world outside the session, oldest first.\<close>

datatype Effect =
    Wrote path bytes
  | MadeDir path
  | Called GoogleGenAI GenerateContentParameters
  | Logged string

record World =
  session :: Session
  nodes :: "path \<Rightarrow> Node option"
  effects :: "Effect list"
  ticks :: nat

datatype Json = JString string | JObject "(string \<times> Json) list" | JOther

text \<open>
  What the code takes from its platform. The process environment and the host; Node's
  \<^verbatim>\<open>path.join\<close>; the upstream \<^verbatim>\<open>models.generateContent\<close>; the clock and the random
  generator; the refusals of the file system; base64 and \<^verbatim>\<open>JSON.parse\<close>. The sources
  that change from one reading to the next are functions of \<open>ticks\<close>, the number of
  readings taken so far.
\<close>

record Platform =
  env_GEMINI_IMAGE_MODEL :: "string option"
  env_NANO_BANANA_OUTPUT_DIR :: "string option"
  env_GEMINI_API_KEY :: "string option"
  os_platform :: string
  os_homedir :: path
  process_cwd :: path
  path_join :: "string list \<Rightarrow> path"
  generateContent :: "nat \<Rightarrow> GoogleGenAI \<Rightarrow> GenerateContentParameters
                        \<Rightarrow> js_thrown + GenerateContentResponse"
  toISOString :: "nat \<Rightarrow> string"
  random_toString36 :: "nat \<Rightarrow> string"
  mtime_toLocaleString :: "nat \<Rightarrow> string"
  directory_size :: nat
  writeFile_refused :: "path \<Rightarrow> js_thrown option"
  mkdir_refused :: "path \<Rightarrow> js_thrown option"
  base64_decode :: "string \<Rightarrow> bytes"
  base64_encode :: "bytes \<Rightarrow> string"
  JSON_parse :: "string \<Rightarrow> js_thrown + Json"

text \<open>\<^verbatim>\<open>process.env.GEMINI_IMAGE_MODEL || "gemini-2.5-flash-image"\<close>\<close>

definition DEFAULT_IMAGE_MODEL :: "Platform \<Rightarrow> string" where
  "DEFAULT_IMAGE_MODEL pf = or_else (env_GEMINI_IMAGE_MODEL pf) ''gemini-2.5-flash-image''"

subsection \<open>fs/promises\<close>

definition fs_readFile :: "World \<Rightarrow> path \<Rightarrow> js_thrown + bytes" where
  "fs_readFile w p =
     (case nodes w p of
        Some (File b _) \<Rightarrow> Inr b
      | Some (Directory _ _) \<Rightarrow> Inl (JsError ''EISDIR: illegal operation on a directory, read'')
      | None \<Rightarrow>
          Inl (JsError (''ENOENT: no such file or directory, open '' @ [CHR 0x27] @ p @ [CHR 0x27])))"

definition fs_access :: "World \<Rightarrow> path \<Rightarrow> bool" where
  "fs_access w p = (nodes w p \<noteq> None)"

text \<open>\<^verbatim>\<open>fs.stat\<close>: size and modification time, for a path that exists.\<close>

definition fs_stat :: "World \<Rightarrow> path \<Rightarrow> (nat \<times> string) option" where
  "fs_stat w p =
     (case nodes w p of
        None \<Rightarrow> None
      | Some (File b m) \<Rightarrow> Some (length b, m)
      | Some (Directory n m) \<Rightarrow> Some (n, m))"

definition fs_writeFile :: "Platform \<Rightarrow> World \<Rightarrow> path \<Rightarrow> bytes \<Rightarrow> (js_thrown + unit) \<times> World" where
  "fs_writeFile pf w p b =
     (case writeFile_refused pf p of
        Some e \<Rightarrow> (Inl e, w)
      | None \<Rightarrow>
          (case nodes w p of
             Some (Directory _ _) \<Rightarrow>
               (Inl (JsError (''EISDIR: illegal operation on a directory, open ''
                              @ [CHR 0x27] @ p @ [CHR 0x27])), w)
           | _ \<Rightarrow>
               (Inr (), w\<lparr>nodes := (nodes w)(p \<mapsto> File b (mtime_toLocaleString pf (ticks w))),
                          effects := effects w @ [Wrote p b]\<rparr>)))"

text \<open>\<^verbatim>\<open>fs.mkdir(p, { recursive: true, mode: 0o755 })\<close>: nothing happens when the directory
  is there; the directories above it are not tracked.\<close>

definition fs_mkdir :: "Platform \<Rightarrow> World \<Rightarrow> path \<Rightarrow> (js_thrown + unit) \<times> World" where
  "fs_mkdir pf w p =
     (case mkdir_refused pf p of
        Some e \<Rightarrow> (Inl e, w)
      | None \<Rightarrow>
          (case nodes w p of
             Some (File _ _) \<Rightarrow>
               (Inl (JsError (''EEXIST: file already exists, mkdir ''
                              @ [CHR 0x27] @ p @ [CHR 0x27])), w)
           | Some (Directory _ _) \<Rightarrow> (Inr (), w)
           | None \<Rightarrow>
               (Inr (), w\<lparr>nodes := (nodes w)(p \<mapsto> Directory (directory_size pf)
                                                      (mtime_toLocaleString pf (ticks w))),
                          effects := effects w @ [MadeDir p]\<rparr>)))"

subsection \<open>Text fragments\<close>

text \<open>The pictographs of the messages, as their UTF-8 bytes, and the double quote.\<close>

definition emoji_check :: string where "emoji_check = [CHR 0xE2, CHR 0x9C, CHR 0x85]"
definition emoji_cross :: string where "emoji_cross = [CHR 0xE2, CHR 0x9D, CHR 0x8C]"
definition emoji_palette :: string where "emoji_palette = [CHR 0xF0, CHR 0x9F, CHR 0x8E, CHR 0xA8]"
definition emoji_folder :: string where "emoji_folder = [CHR 0xF0, CHR 0x9F, CHR 0x93, CHR 0x81]"
definition emoji_bulb :: string where "emoji_bulb = [CHR 0xF0, CHR 0x9F, CHR 0x92, CHR 0xA1]"
definition emoji_arrows :: string where "emoji_arrows = [CHR 0xF0, CHR 0x9F, CHR 0x94, CHR 0x84]"
definition emoji_clipboard :: string where "emoji_clipboard = [CHR 0xF0, CHR 0x9F, CHR 0x93, CHR 0x8B]"
definition emoji_pin :: string where "emoji_pin = [CHR 0xF0, CHR 0x9F, CHR 0x93, CHR 0x8D]"
definition emoji_memo :: string where "emoji_memo = [CHR 0xF0, CHR 0x9F, CHR 0x93, CHR 0x9D]"
definition emoji_first :: string where "emoji_first = [CHR 0xF0, CHR 0x9F, CHR 0xA5, CHR 0x87]"
definition emoji_second :: string where "emoji_second = [CHR 0xF0, CHR 0x9F, CHR 0xA5, CHR 0x88]"
definition emoji_third :: string where "emoji_third = [CHR 0xF0, CHR 0x9F, CHR 0xA5, CHR 0x89]"
definition emoji_camera :: string where "emoji_camera = [CHR 0xF0, CHR 0x9F, CHR 0x93, CHR 0xB7]"
definition dq :: string where "dq = [CHR 0x22]"

text \<open>A natural number as JavaScript prints it.\<close>

fun decimal :: "nat \<Rightarrow> string" where
  "decimal n =
     (if n < 10 then [''0123456789'' ! n]
      else decimal (n div 10) @ [''0123456789'' ! (n mod 10)])"

declare decimal.simps [simp del]

subsection \<open>Configuration: ConfigSchema, saveConfig, loadConfig\<close>

text \<open>
  \<^verbatim>\<open>ConfigSchema.parse(v)\<close>: the configuration, or the messages of the issues. The key
  must be a string of at least one character; the message of an issue of type is zod's
  own, and no caller shows it.
\<close>

definition zod_invalid_type :: string where
  "zod_invalid_type = ''Invalid input''"

definition ConfigSchema_parse :: "Json \<Rightarrow> string list + Config" where
  "ConfigSchema_parse v =
     (case v of
        JObject kvs \<Rightarrow>
          (case map_of kvs ''geminiApiKey'' of
             Some (JString s) \<Rightarrow>
               if length s < 1 then Inl [''Gemini API key is required'']
               else Inr \<lparr>geminiApiKey = s\<rparr>
           | _ \<Rightarrow> Inl [zod_invalid_type])
      | _ \<Rightarrow> Inl [zod_invalid_type])"

text \<open>\<^verbatim>\<open>JSON.stringify(this.config, null, 2)\<close>\<close>

definition json_escape_char :: "char \<Rightarrow> string" where
  "json_escape_char c =
     (let n = (of_char c :: nat)
      in if c = CHR 0x22 then [CHR 0x5C, CHR 0x22]
         else if c = CHR 0x5C then [CHR 0x5C, CHR 0x5C]
         else if c = CHR 0x08 then [CHR 0x5C, CHR ''b'']
         else if c = CHR 0x0C then [CHR 0x5C, CHR ''f'']
         else if c = CHR 0x0A then [CHR 0x5C, CHR ''n'']
         else if c = CHR 0x0D then [CHR 0x5C, CHR ''r'']
         else if c = CHR 0x09 then [CHR 0x5C, CHR ''t'']
         else if n < 32 then
           [CHR 0x5C, CHR ''u'', CHR ''0'', CHR ''0'',
            ''0123456789abcdef'' ! (n div 16), ''0123456789abcdef'' ! (n mod 16)]
         else [c])"

definition JSON_stringify_config :: "Config \<Rightarrow> string" where
  "JSON_stringify_config c =
     ''{\<newline>  '' @ dq @ ''geminiApiKey'' @ dq @ '': ''
     @ dq @ concat (map json_escape_char (geminiApiKey c)) @ dq @ ''\<newline>}''"

definition configPath :: "Platform \<Rightarrow> path" where
  "configPath pf = path_join pf [process_cwd pf, ''.nano-banana-config.json'']"

definition saveConfig :: "Platform \<Rightarrow> World \<Rightarrow> (js_thrown + unit) \<times> World" where
  "saveConfig pf w =
     (case config (session w) of
        None \<Rightarrow> (Inr (), w)
      | Some c \<Rightarrow> fs_writeFile pf w (configPath pf) (JSON_stringify_config c))"

text \<open>The state of a fresh \<^verbatim>\<open>NanoBananaMCP\<close> object.\<close>

definition new_session :: Session where
  "new_session =
     \<lparr>genAI = None, config = None, lastImagePath = None, configSource = not_configured\<rparr>"

definition loadConfig :: "Platform \<Rightarrow> World \<Rightarrow> World" where
  "loadConfig pf w =
     (let failed = w\<lparr>session := (session w)\<lparr>configSource := not_configured\<rparr>\<rparr>;
          fromFile =
            (case fs_readFile w (configPath pf) of
               Inl _ \<Rightarrow> failed
             | Inr configData \<Rightarrow>
                 (case JSON_parse pf configData of
                    Inl _ \<Rightarrow> failed
                  | Inr parsedConfig \<Rightarrow>
                      (case ConfigSchema_parse parsedConfig of
                         Inl _ \<Rightarrow> failed
                       | Inr c \<Rightarrow>
                           w\<lparr>session := (session w)
                                \<lparr>config := Some c,
                                 genAI := Some (GoogleGenAI (geminiApiKey c)),
                                 configSource := config_file\<rparr>\<rparr>)))
      in case env_GEMINI_API_KEY pf of
           None \<Rightarrow> fromFile
         | Some envApiKey \<Rightarrow>
             if envApiKey = [] then fromFile
             else (case ConfigSchema_parse (JObject [(''geminiApiKey'', JString envApiKey)]) of
                     Inl _ \<Rightarrow> fromFile
                   | Inr c \<Rightarrow>
                       w\<lparr>session := (session w)
                            \<lparr>config := Some c,
                             genAI := Some (GoogleGenAI (geminiApiKey c)),
                             configSource := environment\<rparr>\<rparr>))"

subsection \<open>Helpers of the handlers\<close>

definition ensureConfigured :: "Session \<Rightarrow> bool" where
  "ensureConfigured s = (config s \<noteq> None \<and> genAI s \<noteq> None)"

definition getImagesDirectory :: "Platform \<Rightarrow> path" where
  "getImagesDirectory pf =
     (let homeDir = os_homedir pf;
          cwd = process_cwd pf;
          isSystemPath = (startsWith cwd ''/usr/'' \<or> startsWith cwd ''/opt/''
                          \<or> startsWith cwd ''/var/'');
          isRootPath = (cwd = ''/'');
          isTempOrCache = (str_includes cwd ''/tmp/'' \<or> str_includes cwd ''/cache/''
                           \<or> str_includes cwd ''/.npm/'')
      in if truthy (env_NANO_BANANA_OUTPUT_DIR pf)
         then default_to (env_NANO_BANANA_OUTPUT_DIR pf) []
         else if os_platform pf = ''win32''
         then path_join pf [homeDir, ''Documents'', ''nano-banana-images'']
         else if isSystemPath \<or> isRootPath \<or> isTempOrCache
         then path_join pf [homeDir, ''nano-banana-images'']
         else path_join pf [cwd, ''generated_imgs''])"

text \<open>\<^verbatim>\<open>this.genAI!.models.generateContent(params)\<close>: the call is recorded and takes one
  reading of the upstream service.\<close>

definition models_generateContent ::
  "Platform \<Rightarrow> World \<Rightarrow> GenerateContentParameters
     \<Rightarrow> (js_thrown + GenerateContentResponse) \<times> World" where
  "models_generateContent pf w params =
     (case genAI (session w) of
        None \<Rightarrow>
          (Inl (JsError (''Cannot read properties of null (reading '' @ [CHR 0x27] @ ''models''
                         @ [CHR 0x27] @ '')'')), w)
      | Some client \<Rightarrow>
          (generateContent pf (ticks w) client params,
           w\<lparr>effects := effects w @ [Called client params], ticks := Suc (ticks w)\<rparr>))"

text \<open>The image configuration both handlers build: the size goes upstream for one model
  only.\<close>

definition build_imageConfig :: "Platform \<Rightarrow> string \<Rightarrow> string \<Rightarrow> ImageConfig" where
  "build_imageConfig pf aspectRatio' imageSize' =
     \<lparr>cfg_aspectRatio = aspectRatio',
      cfg_imageSize = (if DEFAULT_IMAGE_MODEL pf = ''gemini-3-pro-image-preview''
                       then Some imageSize' else None)\<rparr>"

definition modelInfo :: "Platform \<Rightarrow> string" where
  "modelInfo pf =
     (if DEFAULT_IMAGE_MODEL pf = ''gemini-3-pro-image-preview''
      then ''Gemini 3 Pro Image'' else ''Gemini 2.5 Flash Image'')"

text \<open>\<^verbatim>\<open>new Date().toISOString().replace(/[:.]/g, '-')\<close> and
  \<^verbatim>\<open>Math.random().toString(36).substring(2, 8)\<close>, at the reading \<open>t\<close>.\<close>

definition new_timestamp :: "Platform \<Rightarrow> nat \<Rightarrow> string" where
  "new_timestamp pf t =
     map (\<lambda>c. if c = CHR '':'' \<or> c = CHR ''.'' then CHR ''-'' else c) (toISOString pf t)"

definition new_randomId :: "Platform \<Rightarrow> nat \<Rightarrow> string" where
  "new_randomId pf t = substring (random_toString36 pf t) 2 8"

text \<open>The three accumulators of the loop over the parts of a response.\<close>

record Acc =
  acc_content :: "ContentPart list"
  savedFiles :: "path list"
  textContent :: string

definition empty_acc :: Acc where
  "empty_acc = \<lparr>acc_content = [], savedFiles = [], textContent = []\<rparr>"

text \<open>\<^verbatim>\<open>savedFiles.map(f => `- ${f}`).join('\n')\<close>\<close>

definition bullet_list :: "string list \<Rightarrow> string" where
  "bullet_list fs = join ''\<newline>'' (map (\<lambda>f. ''- '' @ f) fs)"

text \<open>\<^verbatim>\<open>for (const part of parts) { ... }\<close> with a body that may throw: the loop stops at
  the first throw, and what the earlier rounds did to the world stays done.\<close>

fun for_each ::
  "(Part \<Rightarrow> Acc \<Rightarrow> World \<Rightarrow> (js_thrown + Acc) \<times> World)
     \<Rightarrow> Part list \<Rightarrow> Acc \<Rightarrow> World \<Rightarrow> (js_thrown + Acc) \<times> World" where
  "for_each body [] acc w = (Inr acc, w)"
| "for_each body (part # rest) acc w =
     (case body part acc w of
        (Inl e, w') \<Rightarrow> (Inl e, w')
      | (Inr acc', w') \<Rightarrow> for_each body rest acc' w')"

section \<open>The tool handlers\<close>

definition not_configured_message :: string where
  "not_configured_message =
     ''Gemini API token not configured. Use configure_gemini_token first.''"

subsection \<open>configure_gemini_token\<close>

definition configureGeminiToken ::
  "Platform \<Rightarrow> World \<Rightarrow> CallToolRequest \<Rightarrow> (exn + CallToolResult) \<times> World" where
  "configureGeminiToken pf w request =
     (let apiKey' = apiKey (arguments request)
      in case ConfigSchema_parse (JObject [(''geminiApiKey'', JString apiKey')]) of
           Inl issues \<Rightarrow>
             (Inl (McpError InvalidParams
                     (''Invalid API key: ''
                      @ (case issues of [] \<Rightarrow> ''undefined'' | message # _ \<Rightarrow> message))), w)
         | Inr _ \<Rightarrow>
             (let w1 = w\<lparr>session := (session w)
                          \<lparr>config := Some \<lparr>geminiApiKey = apiKey'\<rparr>,
                           genAI := Some (GoogleGenAI apiKey'),
                           configSource := config_file\<rparr>\<rparr>
              in case saveConfig pf w1 of
                   (Inl e, w2) \<Rightarrow> (Inl (Thrown e), w2)
                 | (Inr _, w2) \<Rightarrow>
                     (Inr [TextContent
                             (emoji_check @ '' Gemini API token configured successfully! ''
                              @ ''You can now use nano-banana image generation features.'')],
                      w2)))"

subsection \<open>generate_image\<close>

text \<open>One round of the loop of \<open>generateImage\<close> over the parts of the response.\<close>

definition generate_part ::
  "Platform \<Rightarrow> path \<Rightarrow> Part \<Rightarrow> Acc \<Rightarrow> World \<Rightarrow> (js_thrown + Acc) \<times> World" where
  "generate_part pf imagesDir part acc w =
     (let acc1 = (if truthy (part_text part)
                  then acc\<lparr>textContent := textContent acc @ default_to (part_text part) []\<rparr>
                  else acc);
          part_data = (case inlineData part of None \<Rightarrow> None | Some idata \<Rightarrow> data idata)
      in if truthy part_data then
           (let timestamp = new_timestamp pf (ticks w);
                randomId = new_randomId pf (ticks w);
                fileName = ''generated-'' @ timestamp @ ''-'' @ randomId @ ''.png'';
                filePath = path_join pf [imagesDir, fileName];
                imageBuffer = base64_decode pf (default_to part_data []);
                w1 = w\<lparr>ticks := Suc (ticks w)\<rparr>
            in case fs_writeFile pf w1 filePath imageBuffer of
                 (Inl e, w2) \<Rightarrow> (Inl e, w2)
               | (Inr _, w2) \<Rightarrow>
                   (Inr (acc1\<lparr>savedFiles := savedFiles acc1 @ [filePath],
                              acc_content := acc_content acc1 @
                                [ImageContent (default_to part_data [])
                                   (or_else (case inlineData part of None \<Rightarrow> None
                                             | Some idata \<Rightarrow> mimeType idata) ''image/png'')]\<rparr>),
                    w2\<lparr>session := (session w2)\<lparr>lastImagePath := Some filePath\<rparr>\<rparr>))
         else (Inr acc1, w))"

definition generate_statusText :: "Platform \<Rightarrow> string \<Rightarrow> string \<Rightarrow> string \<Rightarrow> Acc \<Rightarrow> string" where
  "generate_statusText pf prompt' aspectRatio' imageSize' acc =
     emoji_palette @ '' Image generated with nano-banana ('' @ modelInfo pf @ '')!''
     @ ''\<newline>\<newline>Prompt: '' @ dq @ prompt' @ dq
     @ ''\<newline>Aspect Ratio: '' @ aspectRatio'
     @ (if DEFAULT_IMAGE_MODEL pf = ''gemini-3-pro-image-preview''
        then ''\<newline>Resolution: '' @ imageSize' else [])
     @ (if textContent acc \<noteq> [] then ''\<newline>\<newline>Description: '' @ textContent acc else [])
     @ (if length (savedFiles acc) > 0 then
          ''\<newline>\<newline>'' @ emoji_folder @ '' Image saved to:\<newline>'' @ bullet_list (savedFiles acc)
          @ ''\<newline>\<newline>'' @ emoji_bulb @ '' View the image by:''
          @ ''\<newline>1. Opening the file at the path above''
          @ ''\<newline>2. Clicking on '' @ dq @ ''Called generate_image'' @ dq
          @ '' in Cursor to expand the MCP call details''
          @ ''\<newline>\<newline>'' @ emoji_arrows @ '' To modify this image, use: continue_editing''
          @ ''\<newline>'' @ emoji_clipboard @ '' To check current image info, use: get_last_image_info''
        else
          ''\<newline>\<newline>Note: No image was generated. The model may have returned only text.''
          @ ''\<newline>\<newline>'' @ emoji_bulb
          @ '' Tip: Try running the command again - sometimes the first call needs to warm up the model.'')"

text \<open>The body of the \<^verbatim>\<open>try\<close> block of \<open>generateImage\<close>.\<close>

definition generateImage_try ::
  "Platform \<Rightarrow> World \<Rightarrow> string \<Rightarrow> string \<Rightarrow> string \<Rightarrow> (js_thrown + CallToolResult) \<times> World" where
  "generateImage_try pf w prompt' aspectRatio' imageSize' =
     (case models_generateContent pf w
             \<lparr>model = DEFAULT_IMAGE_MODEL pf, contents = PromptString prompt',
              imageConfig = build_imageConfig pf aspectRatio' imageSize'\<rparr> of
        (Inl e, w1) \<Rightarrow> (Inl e, w1)
      | (Inr response, w1) \<Rightarrow>
          (let imagesDir = getImagesDirectory pf
           in case fs_mkdir pf w1 imagesDir of
                (Inl e, w2) \<Rightarrow> (Inl e, w2)
              | (Inr _, w2) \<Rightarrow>
                  (case for_each (generate_part pf imagesDir)
                          (case response_parts response of None \<Rightarrow> [] | Some ps \<Rightarrow> ps)
                          empty_acc w2 of
                     (Inl e, w3) \<Rightarrow> (Inl e, w3)
                   | (Inr acc, w3) \<Rightarrow>
                       (Inr (TextContent (generate_statusText pf prompt' aspectRatio' imageSize' acc)
                             # acc_content acc), w3))))"

definition generateImage ::
  "Platform \<Rightarrow> World \<Rightarrow> CallToolRequest \<Rightarrow> (exn + CallToolResult) \<times> World" where
  "generateImage pf w request =
     (if \<not> ensureConfigured (session w)
      then (Inl (McpError InvalidRequest not_configured_message), w)
      else
        (let prompt' = prompt (arguments request);
             aspectRatio' = default_to (aspectRatio (arguments request)) ''4:3'';
             imageSize' = default_to (imageSize (arguments request)) ''1K''
         in case generateImage_try pf w prompt' aspectRatio' imageSize' of
              (Inl e, w') \<Rightarrow>
                (Inl (McpError InternalError (''Failed to generate image: '' @ error_text e)),
                 w'\<lparr>effects := effects w' @ [Logged (''Error generating image: '' @ error_text e)]\<rparr>)
            | (Inr result, w') \<Rightarrow> (Inr result, w')))"

subsection \<open>edit_image\<close>

text \<open>The loop over the reference images: a path that cannot be read is passed over.\<close>

fun read_references :: "Platform \<Rightarrow> World \<Rightarrow> path list \<Rightarrow> RequestPart list \<Rightarrow> RequestPart list" where
  "read_references pf w [] imageParts = imageParts"
| "read_references pf w (refPath # rest) imageParts =
     (case fs_readFile w refPath of
        Inl _ \<Rightarrow> read_references pf w rest imageParts
      | Inr refBuffer \<Rightarrow>
          read_references pf w rest
            (imageParts @ [InlineDataPart (base64_encode pf refBuffer) (getMimeType refPath)]))"

text \<open>One round of the loop of \<open>editImage\<close> over the parts of the response.\<close>

definition edit_part ::
  "Platform \<Rightarrow> path \<Rightarrow> Part \<Rightarrow> Acc \<Rightarrow> World \<Rightarrow> (js_thrown + Acc) \<times> World" where
  "edit_part pf imagesDir part acc w =
     (let acc1 = (if truthy (part_text part)
                  then acc\<lparr>textContent := textContent acc @ default_to (part_text part) []\<rparr>
                  else acc)
      in case inlineData part of
           None \<Rightarrow> (Inr acc1, w)
         | Some idata \<Rightarrow>
             (let timestamp = new_timestamp pf (ticks w);
                  randomId = new_randomId pf (ticks w);
                  fileName = ''edited-'' @ timestamp @ ''-'' @ randomId @ ''.png'';
                  filePath = path_join pf [imagesDir, fileName];
                  w1 = w\<lparr>ticks := Suc (ticks w)\<rparr>
              in if truthy (data idata) then
                   (case fs_writeFile pf w1 filePath
                           (base64_decode pf (default_to (data idata) [])) of
                      (Inl e, w2) \<Rightarrow> (Inl e, w2)
                    | (Inr _, w2) \<Rightarrow>
                        (Inr (acc1\<lparr>savedFiles := savedFiles acc1 @ [filePath],
                                   acc_content := acc_content acc1 @
                                     [ImageContent (default_to (data idata) [])
                                        (or_else (mimeType idata) ''image/png'')]\<rparr>),
                         w2\<lparr>session := (session w2)\<lparr>lastImagePath := Some filePath\<rparr>\<rparr>))
                 else (Inr acc1, w1)))"

definition edit_statusText ::
  "Platform \<Rightarrow> path \<Rightarrow> string \<Rightarrow> path list option \<Rightarrow> string \<Rightarrow> string \<Rightarrow> Acc \<Rightarrow> string" where
  "edit_statusText pf imagePath' prompt' referenceImages' aspectRatio' imageSize' acc =
     emoji_palette @ '' Image edited with nano-banana ('' @ modelInfo pf @ '')!''
     @ ''\<newline>\<newline>Original: '' @ imagePath'
     @ ''\<newline>Edit prompt: '' @ dq @ prompt' @ dq
     @ ''\<newline>Aspect Ratio: '' @ aspectRatio'
     @ (if DEFAULT_IMAGE_MODEL pf = ''gemini-3-pro-image-preview''
        then ''\<newline>Resolution: '' @ imageSize' else [])
     @ (case referenceImages' of
          None \<Rightarrow> []
        | Some refs \<Rightarrow>
            if length refs > 0
            then ''\<newline>\<newline>Reference images used:\<newline>'' @ bullet_list refs else [])
     @ (if textContent acc \<noteq> [] then ''\<newline>\<newline>Description: '' @ textContent acc else [])
     @ (if length (savedFiles acc) > 0 then
          ''\<newline>\<newline>'' @ emoji_folder @ '' Edited image saved to:\<newline>''
          @ bullet_list (savedFiles acc)
          @ ''\<newline>\<newline>'' @ emoji_bulb @ '' View the edited image by:''
          @ ''\<newline>1. Opening the file at the path above''
          @ ''\<newline>2. Clicking on '' @ dq @ ''Called edit_image'' @ dq
          @ '' in Cursor to expand the MCP call details''
          @ ''\<newline>\<newline>'' @ emoji_arrows @ '' To continue editing, use: continue_editing''
          @ ''\<newline>'' @ emoji_clipboard @ '' To check current image info, use: get_last_image_info''
        else
          ''\<newline>\<newline>Note: No edited image was generated.''
          @ ''\<newline>\<newline>'' @ emoji_bulb
          @ '' Tip: Try running the command again - sometimes the first call needs to warm up the model.'')"

text \<open>The parts sent upstream: the main image, the reference images that could be read,
  the prompt.\<close>

definition edit_imageParts ::
  "Platform \<Rightarrow> World \<Rightarrow> path \<Rightarrow> bytes \<Rightarrow> path list option \<Rightarrow> string \<Rightarrow> RequestPart list" where
  "edit_imageParts pf w imagePath' imageBuffer referenceImages' prompt' =
     (let mimeType' = getMimeType imagePath';
          imageBase64 = base64_encode pf imageBuffer;
          imageParts = [InlineDataPart imageBase64 mimeType'];
          imageParts' =
            (case referenceImages' of
               None \<Rightarrow> imageParts
             | Some refs \<Rightarrow>
                 if length refs > 0 then read_references pf w refs imageParts else imageParts)
      in imageParts' @ [TextPart prompt'])"

text \<open>The body of the \<^verbatim>\<open>try\<close> block of \<open>editImage\<close>.\<close>

definition editImage_try ::
  "Platform \<Rightarrow> World \<Rightarrow> path \<Rightarrow> string \<Rightarrow> path list option \<Rightarrow> string \<Rightarrow> string
     \<Rightarrow> (js_thrown + CallToolResult) \<times> World" where
  "editImage_try pf w imagePath' prompt' referenceImages' aspectRatio' imageSize' =
     (case fs_readFile w imagePath' of
        Inl e \<Rightarrow> (Inl e, w)
      | Inr imageBuffer \<Rightarrow>
          (case models_generateContent pf w
                  \<lparr>model = DEFAULT_IMAGE_MODEL pf,
                   contents = PartsList (edit_imageParts pf w imagePath' imageBuffer
                                           referenceImages' prompt'),
                   imageConfig = build_imageConfig pf aspectRatio' imageSize'\<rparr> of
             (Inl e, w1) \<Rightarrow> (Inl e, w1)
           | (Inr response, w1) \<Rightarrow>
               (let imagesDir = getImagesDirectory pf
                in case fs_mkdir pf w1 imagesDir of
                     (Inl e, w2) \<Rightarrow> (Inl e, w2)
                   | (Inr _, w2) \<Rightarrow>
                       (case for_each (edit_part pf imagesDir)
                               (case response_parts response of None \<Rightarrow> [] | Some ps \<Rightarrow> ps)
                               empty_acc w2 of
                          (Inl e, w3) \<Rightarrow> (Inl e, w3)
                        | (Inr acc, w3) \<Rightarrow>
                            (Inr (TextContent
                                    (edit_statusText pf imagePath' prompt' referenceImages'
                                       aspectRatio' imageSize' acc)
                                  # acc_content acc), w3)))))"

definition editImage ::
  "Platform \<Rightarrow> World \<Rightarrow> CallToolRequest \<Rightarrow> (exn + CallToolResult) \<times> World" where
  "editImage pf w request =
     (if \<not> ensureConfigured (session w)
      then (Inl (McpError InvalidRequest not_configured_message), w)
      else
        (let imagePath' = imagePath (arguments request);
             prompt' = prompt (arguments request);
             referenceImages' = referenceImages (arguments request);
             aspectRatio' = default_to (aspectRatio (arguments request)) ''4:3'';
             imageSize' = default_to (imageSize (arguments request)) ''1K''
         in case editImage_try pf w imagePath' prompt' referenceImages' aspectRatio' imageSize' of
              (Inl e, w') \<Rightarrow>
                (Inl (McpError InternalError (''Failed to edit image: '' @ error_text e)), w')
            | (Inr result, w') \<Rightarrow> (Inr result, w')))"

subsection \<open>get_configuration_status\<close>

definition getConfigurationStatus :: "World \<Rightarrow> (exn + CallToolResult) \<times> World" where
  "getConfigurationStatus w =
     (let isConfigured = (config (session w) \<noteq> None \<and> genAI (session w) \<noteq> None);
          statusText =
            (if isConfigured then emoji_check @ '' Gemini API token is configured and ready to use''
             else emoji_cross @ '' Gemini API token is not configured'');
          sourceInfo =
            (if isConfigured then
               (case configSource (session w) of
                  environment \<Rightarrow>
                    ''\<newline>'' @ emoji_pin @ '' Source: Environment variable (GEMINI_API_KEY)''
                    @ ''\<newline>'' @ emoji_bulb @ '' This is the most secure configuration method.''
                | config_file \<Rightarrow>
                    ''\<newline>'' @ emoji_pin
                    @ '' Source: Local configuration file (.nano-banana-config.json)''
                    @ ''\<newline>'' @ emoji_bulb
                    @ '' Consider using environment variables for better security.''
                | not_configured \<Rightarrow> [])
             else
               ''\<newline>\<newline>'' @ emoji_memo @ '' Configuration options (in priority order):''
               @ ''\<newline>1. '' @ emoji_first @ '' MCP client environment variables (Recommended)''
               @ ''\<newline>2. '' @ emoji_second @ '' System environment variable: GEMINI_API_KEY  ''
               @ ''\<newline>3. '' @ emoji_third @ '' Use configure_gemini_token tool''
               @ ''\<newline>\<newline>'' @ emoji_bulb
               @ '' For the most secure setup, add this to your MCP configuration:''
               @ ''\<newline>'' @ dq @ ''env'' @ dq @ '': { '' @ dq @ ''GEMINI_API_KEY'' @ dq @ '': ''
               @ dq @ ''your-api-key-here'' @ dq @ '' }'')
      in (Inr [TextContent (statusText @ sourceInfo)], w))"

subsection \<open>continue_editing\<close>

definition no_previous_image_message :: string where
  "no_previous_image_message =
     ''No previous image found. Please generate or edit an image first, ''
     @ ''then use continue_editing for subsequent edits.''"

text \<open>The request handed to \<open>editImage\<close> is a new object of five arguments; it has no
  \<^verbatim>\<open>apiKey\<close>, which \<open>editImage\<close> does not read.\<close>

definition continueEditing ::
  "Platform \<Rightarrow> World \<Rightarrow> CallToolRequest \<Rightarrow> (exn + CallToolResult) \<times> World" where
  "continueEditing pf w request =
     (if \<not> ensureConfigured (session w)
      then (Inl (McpError InvalidRequest not_configured_message), w)
      else if \<not> truthy (lastImagePath (session w))
      then (Inl (McpError InvalidRequest no_previous_image_message), w)
      else
        (let lastImagePath' = default_to (lastImagePath (session w)) [];
             prompt' = prompt (arguments request);
             referenceImages' = referenceImages (arguments request);
             aspectRatio' = aspectRatio (arguments request);
             imageSize' = imageSize (arguments request)
         in if \<not> fs_access w lastImagePath'
            then (Inl (McpError InvalidRequest
                         (''Last image file not found at: '' @ lastImagePath'
                          @ ''. Please generate a new image first.'')), w)
            else editImage pf w
                   \<lparr>name = ''edit_image'',
                    arguments = \<lparr>apiKey = [], imagePath = lastImagePath', prompt = prompt',
                                 referenceImages = referenceImages',
                                 aspectRatio = aspectRatio', imageSize = imageSize'\<rparr>\<rparr>))"

subsection \<open>get_last_image_info\<close>

text \<open>\<^verbatim>\<open>Math.round(size / 1024)\<close> on a file size: halves round up.\<close>

definition round_KB :: "nat \<Rightarrow> nat" where
  "round_KB size' = (size' + 512) div 1024"

definition getLastImageInfo :: "World \<Rightarrow> (exn + CallToolResult) \<times> World" where
  "getLastImageInfo w =
     (if \<not> truthy (lastImagePath (session w)) then
        (Inr [TextContent
                (emoji_camera @ '' No previous image found.''
                 @ ''\<newline>\<newline>Please generate or edit an image first, ''
                 @ ''then this command will show information about your last image.'')], w)
      else
        (let lastImagePath' = default_to (lastImagePath (session w)) []
         in case (if fs_access w lastImagePath' then fs_stat w lastImagePath' else None) of
              Some (stats_size, stats_mtime) \<Rightarrow>
                (Inr [TextContent
                        (emoji_camera @ '' Last Image Information:''
                         @ ''\<newline>\<newline>Path: '' @ lastImagePath'
                         @ ''\<newline>File Size: '' @ decimal (round_KB stats_size) @ '' KB''
                         @ ''\<newline>Last Modified: '' @ stats_mtime
                         @ ''\<newline>\<newline>'' @ emoji_bulb
                         @ '' Use continue_editing to make further changes to this image.'')], w)
            | None \<Rightarrow>
                (Inr [TextContent
                        (emoji_camera @ '' Last Image Information:''
                         @ ''\<newline>\<newline>Path: '' @ lastImagePath'
                         @ ''\<newline>Status: '' @ emoji_cross @ '' File not found''
                         @ ''\<newline>\<newline>'' @ emoji_bulb
                         @ '' The image file may have been moved or deleted. ''
                         @ ''Please generate a new image.'')], w)))"

section \<open>The dispatcher\<close>

text \<open>The \<^verbatim>\<open>switch\<close> of the handler of \<^verbatim>\<open>CallToolRequestSchema\<close>.\<close>

definition call_tool_switch ::
  "Platform \<Rightarrow> World \<Rightarrow> CallToolRequest \<Rightarrow> (exn + CallToolResult) \<times> World" where
  "call_tool_switch pf w request =
     (if name request = ''configure_gemini_token'' then configureGeminiToken pf w request
      else if name request = ''generate_image'' then generateImage pf w request
      else if name request = ''edit_image'' then editImage pf w request
      else if name request = ''get_configuration_status'' then getConfigurationStatus w
      else if name request = ''continue_editing'' then continueEditing pf w request
      else if name request = ''get_last_image_info'' then getLastImageInfo w
      else (Inl (McpError MethodNotFound (''Unknown tool: '' @ name request)), w))"

text \<open>The handler itself: the \<^verbatim>\<open>switch\<close> inside \<^verbatim>\<open>try\<close>, and the \<^verbatim>\<open>catch\<close>.\<close>

definition call_tool ::
  "Platform \<Rightarrow> World \<Rightarrow> CallToolRequest \<Rightarrow> (exn + CallToolResult) \<times> World" where
  "call_tool pf w request =
     (case call_tool_switch pf w request of
        (Inl (McpError code message), w') \<Rightarrow> (Inl (McpError code message), w')
      | (Inl (Thrown error), w') \<Rightarrow>
          (Inl (McpError InternalError (''Tool execution failed: '' @ error_text error)), w')
      | (Inr result, w') \<Rightarrow> (Inr result, w'))"

text \<open>The six names the \<^verbatim>\<open>switch\<close> knows.\<close>

definition tool_names :: "string list" where
  "tool_names =
     [''configure_gemini_token'', ''generate_image'', ''edit_image'',
      ''get_configuration_status'', ''continue_editing'', ''get_last_image_info'']"

text \<open>A session: the calls are served one after the other, each on the world the one
  before left.\<close>

fun serve :: "Platform \<Rightarrow> World \<Rightarrow> CallToolRequest list \<Rightarrow> World" where
  "serve pf w [] = w"
| "serve pf w (request # rest) = serve pf (snd (call_tool pf w request)) rest"

text \<open>\<open>run\<close>: a fresh object loads its configuration and then serves.\<close>

definition run :: "Platform \<Rightarrow> (path \<Rightarrow> Node option) \<Rightarrow> World" where
  "run pf disk = loadConfig pf \<lparr>session = new_session, nodes = disk, effects = [], ticks = 0\<rparr>"

section \<open>A concrete platform and concrete calls\<close>

text \<open>
  A host on which the theorems below are instantiated: Linux, the output directory
  \<^verbatim>\<open>/out\<close>, a clock that stands still, a random generator, a file system that refuses
  nothing, and an upstream service that answers every call with a text and two images,
  the second of which declares no MIME type.
\<close>

definition demo_response :: GenerateContentResponse where
  "demo_response =
     \<lparr>candidates = Some [\<lparr>content = Some \<lparr>parts = Some
        [\<lparr>part_text = Some ''A cat.'', inlineData = None\<rparr>,
         \<lparr>part_text = None,
          inlineData = Some \<lparr>data = Some ''UE5H'', mimeType = Some ''image/webp''\<rparr>\<rparr>,
         \<lparr>part_text = None,
          inlineData = Some \<lparr>data = Some ''UE5H'', mimeType = None\<rparr>\<rparr>]\<rparr>\<rparr>]\<rparr>"

definition demo_platform :: Platform where
  "demo_platform =
     \<lparr>env_GEMINI_IMAGE_MODEL = None,
      env_NANO_BANANA_OUTPUT_DIR = Some ''/out'',
      env_GEMINI_API_KEY = None,
      os_platform = ''linux'',
      os_homedir = ''/home/u'',
      process_cwd = ''/work'',
      path_join = join ''/'',
      generateContent = (\<lambda>t client params. Inr demo_response),
      toISOString = (\<lambda>t. ''2025-01-02T03:04:05.678Z''),
      random_toString36 = (\<lambda>t. if t = 1 then ''0.4fzyo82mvyr'' else ''0.k3x9a1bq72''),
      mtime_toLocaleString = (\<lambda>t. ''1/2/2025, 3:04:05 AM''),
      directory_size = 4096,
      writeFile_refused = (\<lambda>p. None),
      mkdir_refused = (\<lambda>p. None),
      base64_decode = (\<lambda>s. if s = ''UE5H'' then ''PNG'' else []),
      base64_encode = (\<lambda>b. if b = ''PNG'' then ''UE5H'' else []),
      JSON_parse = (\<lambda>s. Inl (JsError ''Unexpected token''))\<rparr>"

text \<open>The same host with a file system that refuses every write.\<close>

definition readonly_platform :: Platform where
  "readonly_platform =
     demo_platform\<lparr>writeFile_refused := (\<lambda>p. Some (JsError ''EACCES: permission denied''))\<rparr>"

text \<open>A world before any configuration, and a configured one with one image on disk.\<close>

definition fresh_world :: World where
  "fresh_world = \<lparr>session = new_session, nodes = Map.empty, effects = [], ticks = 0\<rparr>"

definition ready_world :: World where
  "ready_world =
     \<lparr>session = \<lparr>genAI = Some (GoogleGenAI ''k''), config = Some \<lparr>geminiApiKey = ''k''\<rparr>,
                 lastImagePath = None, configSource = environment\<rparr>,
      nodes = [''/in/a.png'' \<mapsto> File ''PNG'' ''1/1/2025, 9:00:00 AM''],
      effects = [], ticks = 0\<rparr>"

definition demo_request :: "string \<Rightarrow> CallToolRequest" where
  "demo_request n =
     \<lparr>name = n,
      arguments = \<lparr>apiKey = ''k'', imagePath = ''/in/a.png'', prompt = ''a cat'',
                   referenceImages = Some [''/in/missing.jpg''],
                   aspectRatio = None, imageSize = None\<rparr>\<rparr>"

text \<open>The configured world with a last image recorded.\<close>

definition ready_world_after :: "path \<Rightarrow> World" where
  "ready_world_after p = ready_world\<lparr>session := (session ready_world)\<lparr>lastImagePath := Some p\<rparr>\<rparr>"

text \<open>A call of the configuration tool with a key of three spaces, and one with an empty
  key.\<close>

definition blank_key_request :: CallToolRequest where
  "blank_key_request =
     \<lparr>name = ''configure_gemini_token'',
      arguments = \<lparr>apiKey = ''   '', imagePath = [], prompt = [], referenceImages = None,
                   aspectRatio = None, imageSize = None\<rparr>\<rparr>"

definition empty_key_request :: CallToolRequest where
  "empty_key_request =
     \<lparr>name = ''configure_gemini_token'',
      arguments = \<lparr>apiKey = [], imagePath = [], prompt = [], referenceImages = None,
                   aspectRatio = None, imageSize = None\<rparr>\<rparr>"

section \<open>What a call is seen to do\<close>

text \<open>
  The vocabulary of the theorems below. Of an upstream part: whether it carries image
  data, the data, the MIME type it declares, the image part a result shows for it, and
  the text it adds to the description. Of a response: its parts. Of a call that led from
  \<open>w\<close> to \<open>w'\<close>: the effects it added, and the files among them.
\<close>

definition has_image :: "Part \<Rightarrow> bool" where
  "has_image part = truthy (case inlineData part of None \<Rightarrow> None | Some idata \<Rightarrow> data idata)"

definition image_data :: "Part \<Rightarrow> string" where
  "image_data part =
     default_to (case inlineData part of None \<Rightarrow> None | Some idata \<Rightarrow> data idata) []"

definition declared_mimeType :: "Part \<Rightarrow> string option" where
  "declared_mimeType part = (case inlineData part of None \<Rightarrow> None | Some idata \<Rightarrow> mimeType idata)"

definition upstream_image :: "Part \<Rightarrow> ContentPart" where
  "upstream_image part =
     ImageContent (image_data part) (or_else (declared_mimeType part) ''image/png'')"

definition description_of :: "Part list \<Rightarrow> string" where
  "description_of ps =
     concat (map (\<lambda>part. if truthy (part_text part) then default_to (part_text part) [] else [])
               ps)"

definition parts_of :: "GenerateContentResponse \<Rightarrow> Part list" where
  "parts_of response = (case response_parts response of None \<Rightarrow> [] | Some ps \<Rightarrow> ps)"

definition new_effects :: "World \<Rightarrow> World \<Rightarrow> Effect list" where
  "new_effects w w' = drop (length (effects w)) (effects w')"

fun writes_of :: "Effect list \<Rightarrow> (path \<times> bytes) list" where
  "writes_of [] = []"
| "writes_of (Wrote p b # es) = (p, b) # writes_of es"
| "writes_of (MadeDir p # es) = writes_of es"
| "writes_of (Called c ps # es) = writes_of es"
| "writes_of (Logged l # es) = writes_of es"

text \<open>One round of a loop that saves images, when it returns and when it throws.\<close>

definition round_done :: "Platform \<Rightarrow> Part \<Rightarrow> Acc \<Rightarrow> World \<Rightarrow> Acc \<Rightarrow> World \<Rightarrow> bool" where
  "round_done pf part acc w acc' w' =
     (textContent acc' = textContent acc @ description_of [part]
      \<and> (if has_image part
          then \<exists>f m. savedFiles acc' = savedFiles acc @ [f]
                 \<and> acc_content acc' = acc_content acc @ [upstream_image part]
                 \<and> effects w' = effects w @ [Wrote f (base64_decode pf (image_data part))]
                 \<and> session w' = (session w)\<lparr>lastImagePath := Some f\<rparr>
                 \<and> nodes w' = (nodes w)(f \<mapsto> File (base64_decode pf (image_data part)) m)
          else savedFiles acc' = savedFiles acc \<and> acc_content acc' = acc_content acc
                 \<and> effects w' = effects w \<and> session w' = session w \<and> nodes w' = nodes w))"

definition round_thrown :: "World \<Rightarrow> World \<Rightarrow> bool" where
  "round_thrown w w' = (effects w' = effects w \<and> session w' = session w \<and> nodes w' = nodes w)"

definition saving_round ::
  "Platform \<Rightarrow> (Part \<Rightarrow> Acc \<Rightarrow> World \<Rightarrow> (js_thrown + Acc) \<times> World) \<Rightarrow> bool" where
  "saving_round pf body =
     (\<forall>part acc w. case body part acc w of
                     (Inl e, w') \<Rightarrow> round_thrown w w'
                   | (Inr acc', w') \<Rightarrow> round_done pf part acc w acc' w')"

text \<open>
  What a call may do to the last image path: it leaves the path as it was, or sets it
  to a path it wrote; and it adds to the effects, never removes.
\<close>

definition keeps_or_sets :: "World \<Rightarrow> World \<Rightarrow> bool" where
  "keeps_or_sets w w' =
     (\<exists>es. effects w' = effects w @ es
        \<and> (lastImagePath (session w') = lastImagePath (session w)
            \<or> (\<exists>f b. lastImagePath (session w') = Some f \<and> Wrote f b \<in> set es)))"

text \<open>The parameters the two handlers send upstream, for a request; those of \<open>editImage\<close>
  with the bytes of the main image.\<close>

definition generate_parameters :: "Platform \<Rightarrow> CallToolRequest \<Rightarrow> GenerateContentParameters" where
  "generate_parameters pf request =
     \<lparr>model = DEFAULT_IMAGE_MODEL pf,
      contents = PromptString (prompt (arguments request)),
      imageConfig = build_imageConfig pf (default_to (aspectRatio (arguments request)) ''4:3'')
                      (default_to (imageSize (arguments request)) ''1K'')\<rparr>"

definition edit_parameters ::
  "Platform \<Rightarrow> World \<Rightarrow> CallToolRequest \<Rightarrow> bytes \<Rightarrow> GenerateContentParameters" where
  "edit_parameters pf w request imageBuffer =
     \<lparr>model = DEFAULT_IMAGE_MODEL pf,
      contents = PartsList (edit_imageParts pf w (imagePath (arguments request)) imageBuffer
                              (referenceImages (arguments request)) (prompt (arguments request))),
      imageConfig = build_imageConfig pf (default_to (aspectRatio (arguments request)) ''4:3'')
                      (default_to (imageSize (arguments request)) ''1K'')\<rparr>"

text \<open>
  A call that went upstream with \<open>params\<close>, was answered with the parts \<open>ps\<close> and ended
  with the accumulators \<open>acc\<close>: the description is the text of the parts; one file was
  saved for each part with image data, in their order, after the upstream call and the
  making of the directory; and the last of them, if there is one, is the last image of
  the session and is on disk with the bytes decoded from its part.
\<close>

definition image_call_done ::
  "Platform \<Rightarrow> World \<Rightarrow> World \<Rightarrow> GoogleGenAI \<Rightarrow> GenerateContentParameters \<Rightarrow> Part list \<Rightarrow> Acc
     \<Rightarrow> bool" where
  "image_call_done pf w w' client params ps acc =
     (textContent acc = description_of ps
      \<and> length (savedFiles acc) = length (filter has_image ps)
      \<and> (\<exists>mk. effects w' = effects w @ [Called client params] @ mk
                  @ map (\<lambda>(f, part). Wrote f (base64_decode pf (image_data part)))
                      (zip (savedFiles acc) (filter has_image ps))
               \<and> writes_of mk = [])
      \<and> (if savedFiles acc = [] then session w' = session w
          else session w' = (session w)\<lparr>lastImagePath := Some (last (savedFiles acc))\<rparr>
               \<and> (\<exists>m. nodes w' (last (savedFiles acc))
                      = Some (File (base64_decode pf
                                      (image_data (last (filter has_image ps)))) m))))"

text \<open>The two image calls in the configured world, on the arguments of \<open>demo_request\<close>.\<close>

definition demo_generate :: "(exn + CallToolResult) \<times> World" where
  "demo_generate = generateImage demo_platform ready_world (demo_request ''generate_image'')"

definition demo_edit :: "(exn + CallToolResult) \<times> World" where
  "demo_edit = editImage demo_platform ready_world (demo_request ''edit_image'')"

text \<open>An upstream service that answers with one part that has neither text nor image.\<close>

definition bare_response :: GenerateContentResponse where
  "bare_response =
     \<lparr>candidates = Some [\<lparr>content = Some \<lparr>parts = Some
        [\<lparr>part_text = None, inlineData = None\<rparr>]\<rparr>\<rparr>]\<rparr>"

definition bare_platform :: Platform where
  "bare_platform = demo_platform\<lparr>generateContent := (\<lambda>t client params. Inr bare_response)\<rparr>"

definition bare_generate :: "(exn + CallToolResult) \<times> World" where
  "bare_generate = generateImage bare_platform ready_world (demo_request ''generate_image'')"

text \<open>A reference path as the loop of \<open>editImage\<close> treats it: the part it adds to the
  request, or nothing when the file cannot be read.\<close>

definition readable :: "World \<Rightarrow> path \<Rightarrow> bool" where
  "readable w p = (case fs_readFile w p of Inl _ \<Rightarrow> False | Inr _ \<Rightarrow> True)"

definition reference_part :: "Platform \<Rightarrow> World \<Rightarrow> path \<Rightarrow> RequestPart option" where
  "reference_part pf w refPath =
     (case fs_readFile w refPath of
        Inl _ \<Rightarrow> None
      | Inr refBuffer \<Rightarrow> Some (InlineDataPart (base64_encode pf refBuffer) (getMimeType refPath)))"

text \<open>The images of a result: what follows the status text; an error stays as it is.\<close>

definition images_of :: "exn + CallToolResult \<Rightarrow> exn + ContentPart list" where
  "images_of r = (case r of Inl e \<Rightarrow> Inl e | Inr result \<Rightarrow> Inr (tl result))"

text \<open>Calls of \<open>editImage\<close> with two reference images, the first of which does not exist,
  and with a main image that does not exist.\<close>

definition mixed_request :: CallToolRequest where
  "mixed_request =
     \<lparr>name = ''edit_image'',
      arguments = \<lparr>apiKey = [], imagePath = ''/in/a.png'', prompt = ''a cat'',
                   referenceImages = Some [''/in/missing.jpg'', ''/in/a.png''],
                   aspectRatio = None, imageSize = None\<rparr>\<rparr>"

definition lost_request :: CallToolRequest where
  "lost_request =
     \<lparr>name = ''edit_image'',
      arguments = \<lparr>apiKey = [], imagePath = ''/in/none.png'', prompt = ''a cat'',
                   referenceImages = Some [''/in/a.png''],
                   aspectRatio = None, imageSize = None\<rparr>\<rparr>"

text \<open>The path a round of the loops saves to, at the reading \<open>t\<close>: the directory joined
  with prefix, time stamp, random suffix and \<^verbatim>\<open>.png\<close>.\<close>

definition saved_path :: "Platform \<Rightarrow> string \<Rightarrow> path \<Rightarrow> nat \<Rightarrow> path" where
  "saved_path pf prefix imagesDir t =
     path_join pf [imagesDir,
                   prefix @ ''-'' @ new_timestamp pf t @ ''-'' @ new_randomId pf t @ ''.png'']"

text \<open>The host when \<^verbatim>\<open>Math.random()\<close> returns one half, which base 36 prints as
  \<^verbatim>\<open>0.i\<close>.\<close>

definition half_platform :: Platform where
  "half_platform = demo_platform\<lparr>random_toString36 := (\<lambda>t. ''0.i'')\<rparr>"

text \<open>A part with an image, and the configured world after one reading.\<close>

definition image_part :: Part where
  "image_part =
     \<lparr>part_text = None,
      inlineData = Some \<lparr>data = Some ''UE5H'', mimeType = Some ''image/webp''\<rparr>\<rparr>"

definition ticking_world :: World where
  "ticking_world = ready_world\<lparr>ticks := 1\<rparr>"

text \<open>The host when every image decodes to 1536 bytes, and a call of \<open>generateImage\<close>
  on it.\<close>

definition big_platform :: Platform where
  "big_platform = demo_platform\<lparr>base64_decode := (\<lambda>s. replicate 1536 (CHR 0x00))\<rparr>"

definition big_generate :: "(exn + CallToolResult) \<times> World" where
  "big_generate = generateImage big_platform ready_world (demo_request ''generate_image'')"

text \<open>The configured world whose last image has been deleted from disk.\<close>

definition deleted_world :: World where
  "deleted_world =
     (ready_world_after ''/in/a.png'')
       \<lparr>nodes := (nodes (ready_world_after ''/in/a.png''))(''/in/a.png'' := None)\<rparr>"

text \<open>
  What a call of an image tool does to the last image path: when it wrote no file the
  path is as it was, and when it wrote files the path is that of the last one.
\<close>

definition follows_writes :: "World \<Rightarrow> World \<Rightarrow> bool" where
  "follows_writes w w' =
     (\<exists>es. effects w' = effects w @ es
        \<and> (if writes_of es = []
            then lastImagePath (session w') = lastImagePath (session w)
            else lastImagePath (session w') = Some (fst (last (writes_of es)))))"

text \<open>The host when the file system refuses the second image of a response.\<close>

definition second_refused_platform :: Platform where
  "second_refused_platform =
     demo_platform
       \<lparr>writeFile_refused :=
          (\<lambda>p. if p = ''/out/generated-2025-01-02T03-04-05-678Z-k3x9a1.png''
               then Some (JsError ''EACCES: permission denied'') else None)\<rparr>"

lemmas text_defs =
  emoji_check_def emoji_cross_def emoji_palette_def emoji_folder_def emoji_bulb_def
  emoji_arrows_def emoji_clipboard_def emoji_pin_def emoji_memo_def emoji_first_def
  emoji_second_def emoji_third_def emoji_camera_def dq_def

lemmas demo_defs =
  demo_response_def demo_platform_def readonly_platform_def fresh_world_def ready_world_def
  ready_world_after_def demo_request_def blank_key_request_def empty_key_request_def
  bare_response_def bare_platform_def mixed_request_def lost_request_def half_platform_def
  image_part_def ticking_world_def big_platform_def deleted_world_def
  second_refused_platform_def new_session_def

section \<open>The MIME mapping\<close>

lemmas getMimeType_defs =
  getMimeType_def extname_def last_portion_def toLowerCase_def toLowerCase_char_def

text \<open>Lower-casing a path lower-cases its extension and changes nothing else of it.\<close>

lemma toLowerCase_char_cases:
  "toLowerCase_char c = c \<or> (c \<in> set ''ABCDEFGHIJKLMNOPQRSTUVWXYZ''
     \<and> toLowerCase_char c \<in> set ''abcdefghijklmnopqrstuvwxyz'')"
  by (simp add: toLowerCase_char_def)

lemma toLowerCase_char_slash: "(toLowerCase_char c = CHR ''/'') = (c = CHR ''/'')"
  using toLowerCase_char_cases [of c] by (auto simp add: toLowerCase_char_def)

lemma toLowerCase_char_dot: "(toLowerCase_char c = CHR ''.'') = (c = CHR ''.'')"
  using toLowerCase_char_cases [of c] by (auto simp add: toLowerCase_char_def)

lemma toLowerCase_char_idem: "toLowerCase_char (toLowerCase_char c) = toLowerCase_char c"
  using toLowerCase_char_cases [of c] by (auto simp add: toLowerCase_char_def)

lemma takeWhile_map_same:
  assumes "\<And>c. P (f c) = P c"
  shows "takeWhile P (map f xs) = map f (takeWhile P xs)"
  by (induction xs) (simp_all add: assms)

lemma dropWhile_map_same:
  assumes "\<And>c. P (f c) = P c"
  shows "dropWhile P (map f xs) = map f (dropWhile P xs)"
  by (induction xs) (simp_all add: assms)

lemma last_portion_toLowerCase: "last_portion (toLowerCase p) = toLowerCase (last_portion p)"
  by (simp add: last_portion_def toLowerCase_def rev_map toLowerCase_char_slash
      takeWhile_map_same [where P = "\<lambda>c. c \<noteq> CHR ''/''" and f = toLowerCase_char]
      dropWhile_map_same [where P = "\<lambda>c. c = CHR ''/''" and f = toLowerCase_char])

lemma extname_toLowerCase: "extname (toLowerCase p) = toLowerCase (extname p)"
proof -
  have d: "(CHR ''.'' \<in> set (toLowerCase b)) = (CHR ''.'' \<in> set b)" for b
    by (induction b)
      (simp_all add: toLowerCase_def toLowerCase_char_dot eq_commute [of "CHR ''.''"])
  have e: "rev (takeWhile (\<lambda>c. c \<noteq> CHR ''.'') (rev (toLowerCase b)))
           = toLowerCase (rev (takeWhile (\<lambda>c. c \<noteq> CHR ''.'') (rev b)))" for b
    by (simp add: toLowerCase_def rev_map toLowerCase_char_dot
        takeWhile_map_same [where P = "\<lambda>c. c \<noteq> CHR ''.''" and f = toLowerCase_char])
  have dd: "(toLowerCase b = ''..'') = (b = ''..'')" for b
    by (auto simp add: toLowerCase_def toLowerCase_char_dot)
  have l: "length (toLowerCase b) = length b" for b
    by (simp add: toLowerCase_def)
  show ?thesis
    unfolding extname_def last_portion_toLowerCase Let_def e d dd l
    by (simp add: toLowerCase_def toLowerCase_char_def)
qed

lemma toLowerCase_idem: "toLowerCase (toLowerCase s) = toLowerCase s"
  by (simp add: toLowerCase_def toLowerCase_char_idem)

lemma getMimeType_toLowerCase: "getMimeType (toLowerCase p) = getMimeType p"
  by (simp add: getMimeType_def extname_toLowerCase toLowerCase_idem)

text \<open>
  Claim C8. \<open>getMimeType\<close> is a total function of the lower-cased extension of the path:
  \<^verbatim>\<open>.jpg\<close> and \<^verbatim>\<open>.jpeg\<close> give \<^verbatim>\<open>image/jpeg\<close>, \<^verbatim>\<open>.png\<close> gives \<^verbatim>\<open>image/png\<close>, \<^verbatim>\<open>.webp\<close> gives
  \<^verbatim>\<open>image/webp\<close>, and every other extension, the empty one included, gives \<^verbatim>\<open>image/jpeg\<close>.
  Two paths whose extensions differ in case only have the same type, and so have a path
  and the same path in lower case. The four paths the specification names map as it says.
\<close>

theorem getMimeType_by_extension:
  "getMimeType p \<in> {''image/jpeg'', ''image/png'', ''image/webp''}
   \<and> (toLowerCase (extname p) = ''.jpg'' \<or> toLowerCase (extname p) = ''.jpeg''
        \<longrightarrow> getMimeType p = ''image/jpeg'')
   \<and> (toLowerCase (extname p) = ''.png'' \<longrightarrow> getMimeType p = ''image/png'')
   \<and> (toLowerCase (extname p) = ''.webp'' \<longrightarrow> getMimeType p = ''image/webp'')
   \<and> (toLowerCase (extname p) \<notin> {''.jpg'', ''.jpeg'', ''.png'', ''.webp''}
        \<longrightarrow> getMimeType p = ''image/jpeg'')
   \<and> (toLowerCase (extname p) = toLowerCase (extname q) \<longrightarrow> getMimeType p = getMimeType q)
   \<and> getMimeType (toLowerCase p) = getMimeType p
   \<and> getMimeType ''a.JPG'' = ''image/jpeg''
   \<and> getMimeType ''photo.png'' = ''image/png''
   \<and> getMimeType ''x.webp'' = ''image/webp''
   \<and> getMimeType ''file.gif'' = ''image/jpeg''"
proof -
  have general:
    "getMimeType p \<in> {''image/jpeg'', ''image/png'', ''image/webp''}
     \<and> (toLowerCase (extname p) = ''.jpg'' \<or> toLowerCase (extname p) = ''.jpeg''
          \<longrightarrow> getMimeType p = ''image/jpeg'')
     \<and> (toLowerCase (extname p) = ''.png'' \<longrightarrow> getMimeType p = ''image/png'')
     \<and> (toLowerCase (extname p) = ''.webp'' \<longrightarrow> getMimeType p = ''image/webp'')
     \<and> (toLowerCase (extname p) \<notin> {''.jpg'', ''.jpeg'', ''.png'', ''.webp''}
          \<longrightarrow> getMimeType p = ''image/jpeg'')
     \<and> (toLowerCase (extname p) = toLowerCase (extname q) \<longrightarrow> getMimeType p = getMimeType q)"
    by (simp add: getMimeType_def Let_def)
  have examples:
    "getMimeType ''a.JPG'' = ''image/jpeg''" "getMimeType ''photo.png'' = ''image/png''"
    "getMimeType ''x.webp'' = ''image/webp''" "getMimeType ''file.gif'' = ''image/jpeg''"
    by (simp_all add: getMimeType_defs)
  from general examples getMimeType_toLowerCase [of p] show ?thesis by blast
qed

theorem getMimeType_by_extension_witness:
  "toLowerCase (extname ''/in/Photo.PNG'') = ''.png''
   \<and> getMimeType ''/in/Photo.PNG'' = ''image/png''
   \<and> toLowerCase (extname ''/in/Photo.PNG'') = toLowerCase (extname ''b.png'')
   \<and> getMimeType ''/in/Photo.PNG'' = getMimeType ''b.png''
   \<and> toLowerCase (extname ''scan.JpEg'') = ''.jpeg''
   \<and> getMimeType ''scan.JpEg'' = ''image/jpeg''
   \<and> toLowerCase (extname ''archive.tar/noext'') \<notin> {''.jpg'', ''.jpeg'', ''.png'', ''.webp''}
   \<and> getMimeType ''archive.tar/noext'' = ''image/jpeg''
   \<and> getMimeType (toLowerCase ''/in/Photo.PNG'') = getMimeType ''/in/Photo.PNG''"
proof -
  have e1: "toLowerCase (extname ''/in/Photo.PNG'') = ''.png''"
    and e2: "toLowerCase (extname ''b.png'') = ''.png''"
    and e3: "toLowerCase (extname ''scan.JpEg'') = ''.jpeg''"
    and e4: "toLowerCase (extname ''archive.tar/noext'') = []"
    by (simp_all add: getMimeType_defs)
  show ?thesis
    using getMimeType_by_extension [of "''/in/Photo.PNG''" "''b.png''"]
      getMimeType_by_extension [of "''scan.JpEg''" "''b.png''"]
      getMimeType_by_extension [of "''archive.tar/noext''" "''b.png''"]
    by (auto simp add: e1 e2 e3 e4)
qed

section \<open>Calls without credentials\<close>

text \<open>
  Claim C3. When the configuration or the client of the session is absent, \<open>generateImage\<close>
  and \<open>editImage\<close> throw an invalid-request error at once: the world they leave is the
  world they found, so no upstream call was made, no directory created, no file written,
  and the session (credentials, client, last image path) is as before.
\<close>

theorem unconfigured_calls_have_no_effect:
  assumes "config (session w) = None \<or> genAI (session w) = None"
  shows "generateImage pf w request
           = (Inl (McpError InvalidRequest
                     ''Gemini API token not configured. Use configure_gemini_token first.''), w)
         \<and> editImage pf w request
           = (Inl (McpError InvalidRequest
                     ''Gemini API token not configured. Use configure_gemini_token first.''), w)"
  using assms
  by (auto simp add: generateImage_def editImage_def ensureConfigured_def
      not_configured_message_def)

theorem unconfigured_calls_have_no_effect_witness:
  "(config (session fresh_world) = None \<or> genAI (session fresh_world) = None)
   \<and> generateImage demo_platform fresh_world (demo_request ''generate_image'')
       = (Inl (McpError InvalidRequest
                 ''Gemini API token not configured. Use configure_gemini_token first.''),
          fresh_world)
   \<and> editImage demo_platform fresh_world (demo_request ''edit_image'')
       = (Inl (McpError InvalidRequest
                 ''Gemini API token not configured. Use configure_gemini_token first.''),
          fresh_world)
   \<and> effects (snd (generateImage demo_platform fresh_world (demo_request ''generate_image''))) = []
   \<and> nodes (snd (editImage demo_platform fresh_world (demo_request ''edit_image''))) = Map.empty
   \<and> session (snd (editImage demo_platform fresh_world (demo_request ''edit_image'')))
       = new_session"
proof -
  have h: "config (session fresh_world) = None \<or> genAI (session fresh_world) = None"
    by (simp add: fresh_world_def new_session_def)
  show ?thesis
    using h
      unconfigured_calls_have_no_effect [OF h, of demo_platform "demo_request ''generate_image''"]
      unconfigured_calls_have_no_effect [OF h, of demo_platform "demo_request ''edit_image''"]
    by (simp add: fresh_world_def)
qed

section \<open>The configuration tool and its key\<close>

text \<open>
  Claim C4, as the code has it. A call of \<open>configureGeminiToken\<close> with the empty string as
  key throws an invalid-parameters error and leaves the world as it was: credentials,
  client, provenance and the configuration file are untouched. Every other key, a key of
  white space included, passes the schema: the session takes it as its credentials.
\<close>

theorem empty_key_rejected:
  "(apiKey (arguments request) = [] \<longrightarrow>
      configureGeminiToken pf w request
        = (Inl (McpError InvalidParams ''Invalid API key: Gemini API key is required''), w))
   \<and> (apiKey (arguments request) \<noteq> [] \<longrightarrow>
        session (snd (configureGeminiToken pf w request))
          = (session w)\<lparr>config := Some \<lparr>geminiApiKey = apiKey (arguments request)\<rparr>,
                         genAI := Some (GoogleGenAI (apiKey (arguments request))),
                         configSource := config_file\<rparr>)"
  by (auto simp add: configureGeminiToken_def ConfigSchema_parse_def saveConfig_def
      fs_writeFile_def Let_def split: option.splits Node.splits)

theorem empty_key_rejected_witness:
  "apiKey (arguments empty_key_request) = []
   \<and> configureGeminiToken demo_platform ready_world empty_key_request
       = (Inl (McpError InvalidParams ''Invalid API key: Gemini API key is required''),
          ready_world)
   \<and> apiKey (arguments (demo_request ''configure_gemini_token'')) \<noteq> []
   \<and> session (snd (configureGeminiToken demo_platform fresh_world
                      (demo_request ''configure_gemini_token'')))
       = \<lparr>genAI = Some (GoogleGenAI ''k''), config = Some \<lparr>geminiApiKey = ''k''\<rparr>,
          lastImagePath = None, configSource = config_file\<rparr>"
proof -
  have a: "apiKey (arguments empty_key_request) = []"
    by (simp add: empty_key_request_def)
  have b: "apiKey (arguments (demo_request ''configure_gemini_token'')) \<noteq> []"
    by (simp add: demo_request_def)
  show ?thesis
    using a b empty_key_rejected [of empty_key_request demo_platform ready_world]
      empty_key_rejected [of "demo_request ''configure_gemini_token''" demo_platform fresh_world]
    by (simp add: demo_request_def fresh_world_def new_session_def)
qed

text \<open>
  Claim C4 as the specification words it asks for the same rejection of a key of white
  space. A key of three spaces is accepted: the call succeeds, the session holds the key,
  and the configuration file is written.
\<close>

theorem blank_key_accepted:
  "apiKey (arguments blank_key_request) = [CHR '' '', CHR '' '', CHR '' '']
   \<and> fst (configureGeminiToken demo_platform fresh_world blank_key_request)
       = Inr [TextContent (emoji_check @ '' Gemini API token configured successfully! ''
                @ ''You can now use nano-banana image generation features.'')]
   \<and> session (snd (configureGeminiToken demo_platform fresh_world blank_key_request))
       = \<lparr>genAI = Some (GoogleGenAI ''   ''), config = Some \<lparr>geminiApiKey = ''   ''\<rparr>,
          lastImagePath = None, configSource = config_file\<rparr>
   \<and> effects (snd (configureGeminiToken demo_platform fresh_world blank_key_request))
       = [Wrote ''/work/.nano-banana-config.json''
            (''{\<newline>  '' @ dq @ ''geminiApiKey'' @ dq @ '': '' @ dq @ ''   '' @ dq @ ''\<newline>}'')]"
  by (simp add: configureGeminiToken_def ConfigSchema_parse_def saveConfig_def
      fs_writeFile_def configPath_def Let_def JSON_stringify_config_def json_escape_char_def
      demo_defs text_defs)

section \<open>Error translation in the dispatcher\<close>

text \<open>
  Claim C1. A call whose name is none of the six tools fails with a method-not-found
  error that carries the name, and nothing else happens. For each of the six names the
  \<^verbatim>\<open>switch\<close> runs the handler of that name; when the handler throws a protocol error
  (\<open>McpError\<close>) the call throws the same error, code and message; when it throws anything
  else the call throws an internal error whose message ends with the text of what was
  thrown; when it returns, the call returns the same result.
\<close>

theorem call_tool_error_translation:
  "(name request \<notin> set tool_names \<longrightarrow>
      call_tool pf w request
        = (Inl (McpError MethodNotFound (''Unknown tool: '' @ name request)), w))
   \<and> (name request = ''configure_gemini_token'' \<longrightarrow>
        call_tool_switch pf w request = configureGeminiToken pf w request)
   \<and> (name request = ''generate_image'' \<longrightarrow>
        call_tool_switch pf w request = generateImage pf w request)
   \<and> (name request = ''edit_image'' \<longrightarrow>
        call_tool_switch pf w request = editImage pf w request)
   \<and> (name request = ''get_configuration_status'' \<longrightarrow>
        call_tool_switch pf w request = getConfigurationStatus w)
   \<and> (name request = ''continue_editing'' \<longrightarrow>
        call_tool_switch pf w request = continueEditing pf w request)
   \<and> (name request = ''get_last_image_info'' \<longrightarrow>
        call_tool_switch pf w request = getLastImageInfo w)
   \<and> (call_tool_switch pf w request = (Inl (McpError code message), w') \<longrightarrow>
        call_tool pf w request = (Inl (McpError code message), w'))
   \<and> (call_tool_switch pf w request = (Inl (Thrown error), w') \<longrightarrow>
        call_tool pf w request
          = (Inl (McpError InternalError (''Tool execution failed: '' @ error_text error)), w'))
   \<and> (call_tool_switch pf w request = (Inr result, w') \<longrightarrow>
        call_tool pf w request = (Inr result, w'))"
  by (simp add: call_tool_def call_tool_switch_def tool_names_def)

theorem call_tool_error_translation_witness:
  "name (demo_request ''frobnicate'') \<notin> set tool_names
   \<and> call_tool demo_platform fresh_world (demo_request ''frobnicate'')
       = (Inl (McpError MethodNotFound ''Unknown tool: frobnicate''), fresh_world)
   \<and> call_tool_switch demo_platform fresh_world (demo_request ''generate_image'')
       = (Inl (McpError InvalidRequest
                 ''Gemini API token not configured. Use configure_gemini_token first.''),
          fresh_world)
   \<and> call_tool demo_platform fresh_world (demo_request ''generate_image'')
       = (Inl (McpError InvalidRequest
                 ''Gemini API token not configured. Use configure_gemini_token first.''),
          fresh_world)
   \<and> fst (call_tool_switch readonly_platform fresh_world (demo_request ''configure_gemini_token''))
       = Inl (Thrown (JsError ''EACCES: permission denied''))
   \<and> fst (call_tool readonly_platform fresh_world (demo_request ''configure_gemini_token''))
       = Inl (McpError InternalError ''Tool execution failed: EACCES: permission denied'')"
proof -
  have n: "name (demo_request ''frobnicate'') \<notin> set tool_names"
    by (simp add: demo_request_def tool_names_def)
  have g: "call_tool_switch demo_platform fresh_world (demo_request ''generate_image'')
       = (Inl (McpError InvalidRequest
                 ''Gemini API token not configured. Use configure_gemini_token first.''),
          fresh_world)"
    by (simp add: call_tool_switch_def generateImage_def ensureConfigured_def
        not_configured_message_def demo_defs)
  obtain w' where c:
    "call_tool_switch readonly_platform fresh_world (demo_request ''configure_gemini_token'')
       = (Inl (Thrown (JsError ''EACCES: permission denied'')), w')"
    by (simp add: call_tool_switch_def configureGeminiToken_def ConfigSchema_parse_def
        saveConfig_def fs_writeFile_def Let_def demo_defs)
  have A: "call_tool demo_platform fresh_world (demo_request ''frobnicate'')
       = (Inl (McpError MethodNotFound (''Unknown tool: '' @ name (demo_request ''frobnicate''))),
          fresh_world)"
    using n call_tool_error_translation
      [where request = "demo_request ''frobnicate''" and pf = demo_platform and w = fresh_world]
    by blast
  have B: "call_tool demo_platform fresh_world (demo_request ''generate_image'')
       = (Inl (McpError InvalidRequest
                 ''Gemini API token not configured. Use configure_gemini_token first.''),
          fresh_world)"
    using g call_tool_error_translation
      [where request = "demo_request ''generate_image''" and pf = demo_platform
         and w = fresh_world and w' = fresh_world and code = InvalidRequest
         and message = "''Gemini API token not configured. Use configure_gemini_token first.''"]
    by blast
  have C: "call_tool readonly_platform fresh_world (demo_request ''configure_gemini_token'')
       = (Inl (McpError InternalError
                 (''Tool execution failed: '' @ error_text (JsError ''EACCES: permission denied''))),
          w')"
    using c call_tool_error_translation
      [where request = "demo_request ''configure_gemini_token''" and pf = readonly_platform
         and w = fresh_world and w' = w' and error = "JsError ''EACCES: permission denied''"]
    by blast
  show ?thesis
    using n g c A B C by (simp add: demo_request_def error_text_def)
qed

section \<open>The guards of continue_editing\<close>

lemma editImage_reads_five_arguments:
  assumes "imagePath (arguments r) = imagePath (arguments r')"
    and "prompt (arguments r) = prompt (arguments r')"
    and "referenceImages (arguments r) = referenceImages (arguments r')"
    and "aspectRatio (arguments r) = aspectRatio (arguments r')"
    and "imageSize (arguments r) = imageSize (arguments r')"
  shows "editImage pf w r = editImage pf w r'"
  using assms by (simp add: editImage_def)

text \<open>
  Claim C2. \<open>continueEditing\<close> tests its guards in this order. Without credentials it
  throws an invalid-request error and the world, the session in it, is unchanged. With
  credentials and no last image path (none, or the empty string, which JavaScript takes
  for none) it throws the invalid-request error that starts ``No previous image found''. With a path \<open>p\<close> recorded and nothing at \<open>p\<close> on disk it
  throws the invalid-request error that names \<open>p\<close>. Otherwise the call is the call of
  \<open>editImage\<close> on the same arguments with \<open>imagePath\<close> set to \<open>p\<close>; prompt, reference
  images, aspect ratio and image size are the caller's.
\<close>

theorem continueEditing_guards:
  "(\<not> ensureConfigured (session w) \<longrightarrow>
      continueEditing pf w request
        = (Inl (McpError InvalidRequest
                  ''Gemini API token not configured. Use configure_gemini_token first.''), w))
   \<and> (ensureConfigured (session w)
        \<and> (lastImagePath (session w) = None \<or> lastImagePath (session w) = Some []) \<longrightarrow>
        continueEditing pf w request
          = (Inl (McpError InvalidRequest
                    (''No previous image found. Please generate or edit an image first, ''
                     @ ''then use continue_editing for subsequent edits.'')), w))
   \<and> (ensureConfigured (session w) \<and> lastImagePath (session w) = Some p \<and> p \<noteq> []
        \<and> nodes w p = None \<longrightarrow>
        continueEditing pf w request
          = (Inl (McpError InvalidRequest
                    (''Last image file not found at: '' @ p
                     @ ''. Please generate a new image first.'')), w))
   \<and> (ensureConfigured (session w) \<and> lastImagePath (session w) = Some p \<and> p \<noteq> []
        \<and> nodes w p \<noteq> None \<longrightarrow>
        continueEditing pf w request
          = editImage pf w (request\<lparr>arguments := (arguments request)\<lparr>imagePath := p\<rparr>\<rparr>))"
proof -
  have "editImage pf w
          \<lparr>name = ''edit_image'',
           arguments = \<lparr>apiKey = [], imagePath = p, prompt = prompt (arguments request),
                        referenceImages = referenceImages (arguments request),
                        aspectRatio = aspectRatio (arguments request),
                        imageSize = imageSize (arguments request)\<rparr>\<rparr>
        = editImage pf w (request\<lparr>arguments := (arguments request)\<lparr>imagePath := p\<rparr>\<rparr>)"
    by (rule editImage_reads_five_arguments) simp_all
  then show ?thesis
    by (cases "lastImagePath (session w)")
      (simp_all add: continueEditing_def truthy_def default_to_def fs_access_def
        not_configured_message_def no_previous_image_message_def Let_def)
qed

theorem continueEditing_guards_witness:
  "\<not> ensureConfigured (session fresh_world)
   \<and> continueEditing demo_platform fresh_world (demo_request ''continue_editing'')
       = (Inl (McpError InvalidRequest
                 ''Gemini API token not configured. Use configure_gemini_token first.''),
          fresh_world)
   \<and> ensureConfigured (session ready_world) \<and> lastImagePath (session ready_world) = None
   \<and> continueEditing demo_platform ready_world (demo_request ''continue_editing'')
       = (Inl (McpError InvalidRequest
                 (''No previous image found. Please generate or edit an image first, ''
                  @ ''then use continue_editing for subsequent edits.'')), ready_world)
   \<and> lastImagePath (session (ready_world_after ''/out/gone.png'')) = Some ''/out/gone.png''
   \<and> nodes (ready_world_after ''/out/gone.png'') ''/out/gone.png'' = None
   \<and> continueEditing demo_platform (ready_world_after ''/out/gone.png'')
         (demo_request ''continue_editing'')
       = (Inl (McpError InvalidRequest
                 ''Last image file not found at: /out/gone.png. Please generate a new image first.''),
          ready_world_after ''/out/gone.png'')
   \<and> lastImagePath (session (ready_world_after ''/in/a.png'')) = Some ''/in/a.png''
   \<and> nodes (ready_world_after ''/in/a.png'') ''/in/a.png'' \<noteq> None
   \<and> continueEditing demo_platform (ready_world_after ''/in/a.png'')
         (demo_request ''continue_editing'')
       = editImage demo_platform (ready_world_after ''/in/a.png'')
           \<lparr>name = ''continue_editing'',
            arguments = \<lparr>apiKey = ''k'', imagePath = ''/in/a.png'', prompt = ''a cat'',
                         referenceImages = Some [''/in/missing.jpg''],
                         aspectRatio = None, imageSize = None\<rparr>\<rparr>"
proof -
  have f: "\<not> ensureConfigured (session fresh_world)"
    by (simp add: ensureConfigured_def demo_defs)
  have r: "ensureConfigured (session ready_world)" "lastImagePath (session ready_world) = None"
    by (simp_all add: ensureConfigured_def demo_defs)
  have g: "ensureConfigured (session (ready_world_after ''/out/gone.png''))"
    "lastImagePath (session (ready_world_after ''/out/gone.png'')) = Some ''/out/gone.png''"
    "nodes (ready_world_after ''/out/gone.png'') ''/out/gone.png'' = None"
    by (simp_all add: ensureConfigured_def demo_defs)
  have a: "ensureConfigured (session (ready_world_after ''/in/a.png''))"
    "lastImagePath (session (ready_world_after ''/in/a.png'')) = Some ''/in/a.png''"
    "nodes (ready_world_after ''/in/a.png'') ''/in/a.png'' \<noteq> None"
    by (simp_all add: ensureConfigured_def demo_defs)
  show ?thesis
    using f r g a
      continueEditing_guards [where w = fresh_world and pf = demo_platform
        and request = "demo_request ''continue_editing''"]
      continueEditing_guards [where w = ready_world and pf = demo_platform
        and request = "demo_request ''continue_editing''"]
      continueEditing_guards [where w = "ready_world_after ''/out/gone.png''"
        and p = "''/out/gone.png''" and pf = demo_platform
        and request = "demo_request ''continue_editing''"]
      continueEditing_guards [where w = "ready_world_after ''/in/a.png''"
        and p = "''/in/a.png''" and pf = demo_platform
        and request = "demo_request ''continue_editing''"]
    by (simp add: demo_request_def)
qed

section \<open>The loops that save images\<close>

text \<open>Both loop bodies are saving rounds; what follows holds for any loop over such a
  body.\<close>

lemma generate_part_saving: "saving_round pf (generate_part pf imagesDir)"
  unfolding saving_round_def
proof (intro allI)
  fix part acc w
  show "case generate_part pf imagesDir part acc w of
          (Inl e, w') \<Rightarrow> round_thrown w w'
        | (Inr acc', w') \<Rightarrow> round_done pf part acc w acc' w'"
    by (auto simp add: generate_part_def fs_writeFile_def round_done_def round_thrown_def
        has_image_def image_data_def upstream_image_def declared_mimeType_def description_of_def
        truthy_def default_to_def Let_def split: option.splits Node.splits)
qed

lemma edit_part_saving: "saving_round pf (edit_part pf imagesDir)"
  unfolding saving_round_def
proof (intro allI)
  fix part acc w
  show "case edit_part pf imagesDir part acc w of
          (Inl e, w') \<Rightarrow> round_thrown w w'
        | (Inr acc', w') \<Rightarrow> round_done pf part acc w acc' w'"
    by (auto simp add: edit_part_def fs_writeFile_def round_done_def round_thrown_def
        has_image_def image_data_def upstream_image_def declared_mimeType_def description_of_def
        truthy_def default_to_def Let_def split: option.splits Node.splits)
qed
lemma keeps_or_sets_refl: "keeps_or_sets w w"
  by (simp add: keeps_or_sets_def)

lemma keeps_or_sets_trans:
  assumes "keeps_or_sets w w1" and "keeps_or_sets w1 w2"
  shows "keeps_or_sets w w2"
proof -
  from assms(1) obtain es1 where e1: "effects w1 = effects w @ es1"
    and l1: "lastImagePath (session w1) = lastImagePath (session w)
             \<or> (\<exists>f b. lastImagePath (session w1) = Some f \<and> Wrote f b \<in> set es1)"
    by (auto simp add: keeps_or_sets_def)
  from assms(2) obtain es2 where e2: "effects w2 = effects w1 @ es2"
    and l2: "lastImagePath (session w2) = lastImagePath (session w1)
             \<or> (\<exists>f b. lastImagePath (session w2) = Some f \<and> Wrote f b \<in> set es2)"
    by (auto simp add: keeps_or_sets_def)
  have e: "effects w2 = effects w @ (es1 @ es2)"
    using e1 e2 by simp
  have "lastImagePath (session w2) = lastImagePath (session w)
        \<or> (\<exists>f b. lastImagePath (session w2) = Some f \<and> Wrote f b \<in> set (es1 @ es2))"
    using l1 l2 by auto
  with e show ?thesis
    unfolding keeps_or_sets_def by blast
qed

lemma keeps_or_sets_same_session:
  assumes "effects w' = effects w @ es" and "lastImagePath (session w') = lastImagePath (session w)"
  shows "keeps_or_sets w w'"
  using assms unfolding keeps_or_sets_def by blast

lemma round_done_keeps_or_sets:
  assumes "round_done pf part acc w acc' w'"
  shows "keeps_or_sets w w'"
  using assms unfolding round_done_def keeps_or_sets_def
  by (cases "has_image part") auto

lemma round_thrown_keeps_or_sets:
  assumes "round_thrown w w'"
  shows "keeps_or_sets w w'"
  using assms unfolding round_thrown_def keeps_or_sets_def by simp

lemma for_each_keeps_or_sets:
  assumes "saving_round pf body"
  shows "keeps_or_sets w (snd (for_each body ps acc w))"
proof (induction ps arbitrary: acc w)
  case Nil
  show ?case by (simp add: keeps_or_sets_refl)
next
  case (Cons part rest)
  obtain r w1 where b: "body part acc w = (r, w1)"
    by (cases "body part acc w")
  show ?case
  proof (cases r)
    case (Inl e)
    with b assms have "round_thrown w w1"
      unfolding saving_round_def by (metis (mono_tags, lifting) old.prod.case sum.case(1))
    with b Inl show ?thesis
      by (simp add: round_thrown_keeps_or_sets)
  next
    case (Inr acc1)
    with b assms have "round_done pf part acc w acc1 w1"
      unfolding saving_round_def by (metis (mono_tags, lifting) old.prod.case sum.case(2))
    then have "keeps_or_sets w w1"
      by (rule round_done_keeps_or_sets)
    moreover have "keeps_or_sets w1 (snd (for_each body rest acc1 w1))"
      by (rule Cons.IH)
    ultimately show ?thesis
      using b Inr by (simp add: keeps_or_sets_trans)
  qed
qed
lemma saving_round_Inr:
  assumes "saving_round pf body" and "body part acc w = (Inr acc1, w1)"
  shows "round_done pf part acc w acc1 w1"
  using assms unfolding saving_round_def
  by (metis (mono_tags, lifting) old.prod.case sum.case(2))

lemma description_of_Cons:
  "description_of (part # rest) = description_of [part] @ description_of rest"
  by (simp add: description_of_def)

text \<open>The loop, when it comes to its end: the three accumulators, the files written, the
  last image path and the file it names.\<close>

lemma for_each_done:
  assumes "saving_round pf body" and "for_each body ps acc w = (Inr acc', w')"
  shows "textContent acc' = textContent acc @ description_of ps
         \<and> acc_content acc' = acc_content acc @ map upstream_image (filter has_image ps)
         \<and> (\<exists>fs. savedFiles acc' = savedFiles acc @ fs
                \<and> length fs = length (filter has_image ps)
                \<and> effects w' = effects w
                     @ map (\<lambda>(f, part). Wrote f (base64_decode pf (image_data part)))
                         (zip fs (filter has_image ps))
                \<and> (if fs = [] then session w' = session w \<and> nodes w' = nodes w
                    else session w' = (session w)\<lparr>lastImagePath := Some (last fs)\<rparr>
                         \<and> (\<exists>m. nodes w' (last fs)
                                = Some (File (base64_decode pf
                                                (image_data (last (filter has_image ps)))) m))))"
  using assms(2)
proof (induction ps arbitrary: acc w)
  case Nil
  then show ?case by (simp add: description_of_def)
next
  case (Cons part rest)
  obtain r w1 where b: "body part acc w = (r, w1)"
    by (cases "body part acc w")
  from Cons.prems b obtain acc1 where r: "r = Inr acc1"
    by (cases r) auto
  from Cons.prems b r have rest: "for_each body rest acc1 w1 = (Inr acc', w')"
    by simp
  from assms(1) b r have step: "round_done pf part acc w acc1 w1"
    by (simp add: saving_round_Inr)
  from Cons.IH [OF rest] obtain fs where
    t: "textContent acc' = textContent acc1 @ description_of rest"
    and c: "acc_content acc' = acc_content acc1 @ map upstream_image (filter has_image rest)"
    and s: "savedFiles acc' = savedFiles acc1 @ fs"
    and n: "length fs = length (filter has_image rest)"
    and e: "effects w' = effects w1
              @ map (\<lambda>(f, part). Wrote f (base64_decode pf (image_data part)))
                  (zip fs (filter has_image rest))"
    and l: "if fs = [] then session w' = session w1 \<and> nodes w' = nodes w1
            else session w' = (session w1)\<lparr>lastImagePath := Some (last fs)\<rparr>
                 \<and> (\<exists>m. nodes w' (last fs)
                        = Some (File (base64_decode pf
                                        (image_data (last (filter has_image rest)))) m))"
    by blast
  have descr: "textContent acc' = textContent acc @ description_of (part # rest)"
    using t step by (simp add: round_done_def description_of_Cons [of part rest])
  show ?case
  proof (cases "has_image part")
    case False
    with step have same: "savedFiles acc1 = savedFiles acc" "acc_content acc1 = acc_content acc"
      "effects w1 = effects w" "session w1 = session w" "nodes w1 = nodes w"
      by (simp_all add: round_done_def)
    have "savedFiles acc' = savedFiles acc @ fs
          \<and> length fs = length (filter has_image (part # rest))
          \<and> effects w' = effects w
               @ map (\<lambda>(f, part). Wrote f (base64_decode pf (image_data part)))
                   (zip fs (filter has_image (part # rest)))
          \<and> (if fs = [] then session w' = session w \<and> nodes w' = nodes w
              else session w' = (session w)\<lparr>lastImagePath := Some (last fs)\<rparr>
                   \<and> (\<exists>m. nodes w' (last fs)
                          = Some (File (base64_decode pf
                                          (image_data (last (filter has_image (part # rest))))) m)))"
      using s n e l same False by simp
    moreover have "acc_content acc' = acc_content acc
                     @ map upstream_image (filter has_image (part # rest))"
      using c same False by simp
    ultimately show ?thesis
      using descr by blast
  next
    case True
    with step obtain f m where
      sf: "savedFiles acc1 = savedFiles acc @ [f]"
      and cf: "acc_content acc1 = acc_content acc @ [upstream_image part]"
      and ef: "effects w1 = effects w @ [Wrote f (base64_decode pf (image_data part))]"
      and lf: "session w1 = (session w)\<lparr>lastImagePath := Some f\<rparr>"
      and nf: "nodes w1 = (nodes w)(f \<mapsto> File (base64_decode pf (image_data part)) m)"
      by (auto simp add: round_done_def)
    have last_part: "fs = [] \<Longrightarrow> filter has_image rest = []"
      using n by simp
    have last_rest: "fs \<noteq> [] \<Longrightarrow> filter has_image rest \<noteq> []"
      using n by auto
    have "savedFiles acc' = savedFiles acc @ (f # fs)
          \<and> length (f # fs) = length (filter has_image (part # rest))
          \<and> effects w' = effects w
               @ map (\<lambda>(f, part). Wrote f (base64_decode pf (image_data part)))
                   (zip (f # fs) (filter has_image (part # rest)))
          \<and> (if f # fs = [] then session w' = session w \<and> nodes w' = nodes w
              else session w' = (session w)\<lparr>lastImagePath := Some (last (f # fs))\<rparr>
                   \<and> (\<exists>m. nodes w' (last (f # fs))
                          = Some (File (base64_decode pf
                                          (image_data (last (filter has_image (part # rest))))) m)))"
    proof (cases "fs = []")
      case True
      with l have "session w' = session w1" "nodes w' = nodes w1"
        by simp_all
      then show ?thesis
        using s n e sf ef lf nf \<open>has_image part\<close> True last_part by auto
    next
      case False
      with l have "session w' = (session w1)\<lparr>lastImagePath := Some (last fs)\<rparr>"
        and "\<exists>m. nodes w' (last fs)
               = Some (File (base64_decode pf (image_data (last (filter has_image rest)))) m)"
        by simp_all
      then show ?thesis
        using s n e sf ef lf \<open>has_image part\<close> False last_rest by auto
    qed
    moreover have "acc_content acc' = acc_content acc
                     @ map upstream_image (filter has_image (part # rest))"
      using c cf True by simp
    ultimately show ?thesis
      using descr by blast
  qed
qed

section \<open>A call of generate_image or edit_image that returns\<close>

lemma writes_of_append: "writes_of (es @ es') = writes_of es @ writes_of es'"
  by (induction es rule: writes_of.induct) simp_all

lemma writes_of_Wrote_map:
  "writes_of (map (\<lambda>(f, part). Wrote f (g part)) zs) = map (\<lambda>(f, part). (f, g part)) zs"
  by (induction zs) auto

lemma fs_mkdir_done:
  assumes "fs_mkdir pf w p = (r, w')"
  shows "session w' = session w \<and> ticks w' = ticks w
         \<and> (\<exists>mk. effects w' = effects w @ mk \<and> writes_of mk = [])
         \<and> (\<forall>q. q \<noteq> p \<longrightarrow> nodes w' q = nodes w q)"
  using assms
  by (auto simp add: fs_mkdir_def split: option.splits Node.splits)

text \<open>What both handlers do with a response: the directory, the loop, the status text in
  front of the images.\<close>

lemma saved_response_done:
  assumes body: "saving_round pf body"
    and run: "(case fs_mkdir pf w1 imagesDir of
                 (Inl e, w2) \<Rightarrow> (Inl e, w2)
               | (Inr u, w2) \<Rightarrow>
                   (case for_each body ps empty_acc w2 of
                      (Inl e, w3) \<Rightarrow> (Inl e, w3)
                    | (Inr acc, w3) \<Rightarrow> (Inr (TextContent (status acc) # acc_content acc), w3)))
              = (Inr result, w')"
  shows "\<exists>acc mk.
           result = TextContent (status acc) # map upstream_image (filter has_image ps)
           \<and> textContent acc = description_of ps
           \<and> length (savedFiles acc) = length (filter has_image ps)
           \<and> effects w' = effects w1 @ mk
                @ map (\<lambda>(f, part). Wrote f (base64_decode pf (image_data part)))
                    (zip (savedFiles acc) (filter has_image ps))
           \<and> writes_of mk = []
           \<and> (if savedFiles acc = [] then session w' = session w1
               else session w' = (session w1)\<lparr>lastImagePath := Some (last (savedFiles acc))\<rparr>
                    \<and> (\<exists>m. nodes w' (last (savedFiles acc))
                           = Some (File (base64_decode pf
                                           (image_data (last (filter has_image ps)))) m)))"
proof -
  obtain r2 w2 where m: "fs_mkdir pf w1 imagesDir = (r2, w2)"
    by (cases "fs_mkdir pf w1 imagesDir")
  from run m obtain u where r2: "r2 = Inr u"
    by (cases r2) auto
  obtain r3 w3 where l: "for_each body ps empty_acc w2 = (r3, w3)"
    by (cases "for_each body ps empty_acc w2")
  from run m r2 l obtain acc where r3: "r3 = Inr acc"
    by (cases r3) auto
  from run m r2 l r3 have res: "result = TextContent (status acc) # acc_content acc"
    and w': "w' = w3"
    by simp_all
  from fs_mkdir_done [OF m] obtain mk where s2: "session w2 = session w1"
    and e2: "effects w2 = effects w1 @ mk" and mk: "writes_of mk = []"
    by blast
  from for_each_done [OF body, of ps empty_acc w2 acc w3] l r3 obtain fs where
    t: "textContent acc = textContent empty_acc @ description_of ps"
    and c: "acc_content acc = acc_content empty_acc @ map upstream_image (filter has_image ps)"
    and s: "savedFiles acc = savedFiles empty_acc @ fs"
    and n: "length fs = length (filter has_image ps)"
    and e: "effects w3 = effects w2
              @ map (\<lambda>(f, part). Wrote f (base64_decode pf (image_data part)))
                  (zip fs (filter has_image ps))"
    and p: "if fs = [] then session w3 = session w2 \<and> nodes w3 = nodes w2
            else session w3 = (session w2)\<lparr>lastImagePath := Some (last fs)\<rparr>
                 \<and> (\<exists>m. nodes w3 (last fs)
                        = Some (File (base64_decode pf
                                        (image_data (last (filter has_image ps)))) m))"
    by blast
  have fs: "savedFiles acc = fs"
    using s by (simp add: empty_acc_def)
  have "result = TextContent (status acc) # map upstream_image (filter has_image ps)"
    using res c by (simp add: empty_acc_def)
  moreover have "textContent acc = description_of ps"
    using t by (simp add: empty_acc_def)
  moreover have "length (savedFiles acc) = length (filter has_image ps)"
    using n fs by simp
  moreover have "effects w' = effects w1 @ mk
                   @ map (\<lambda>(f, part). Wrote f (base64_decode pf (image_data part)))
                       (zip (savedFiles acc) (filter has_image ps))"
    using e e2 fs w' by simp
  moreover have "if savedFiles acc = [] then session w' = session w1
                 else session w' = (session w1)\<lparr>lastImagePath := Some (last (savedFiles acc))\<rparr>
                      \<and> (\<exists>m. nodes w' (last (savedFiles acc))
                             = Some (File (base64_decode pf
                                             (image_data (last (filter has_image ps)))) m))"
    using p fs s2 w' by auto
  ultimately show ?thesis
    using mk by blast
qed

lemma saved_response_keeps_or_sets:
  assumes body: "saving_round pf body"
  shows "keeps_or_sets w1
           (snd (case fs_mkdir pf w1 imagesDir of
                   (Inl e, w2) \<Rightarrow> (Inl e :: js_thrown + CallToolResult, w2)
                 | (Inr u, w2) \<Rightarrow>
                     (case for_each body ps empty_acc w2 of
                        (Inl e, w3) \<Rightarrow> (Inl e, w3)
                      | (Inr acc, w3) \<Rightarrow> (Inr (TextContent (status acc) # acc_content acc), w3))))"
proof -
  obtain r2 w2 where m: "fs_mkdir pf w1 imagesDir = (r2, w2)"
    by (cases "fs_mkdir pf w1 imagesDir")
  from fs_mkdir_done [OF m] have k1: "keeps_or_sets w1 w2"
    by (auto intro: keeps_or_sets_same_session)
  show ?thesis
  proof (cases r2)
    case (Inl e)
    with m k1 show ?thesis by simp
  next
    case (Inr u)
    obtain r3 w3 where l: "for_each body ps empty_acc w2 = (r3, w3)"
      by (cases "for_each body ps empty_acc w2")
    from for_each_keeps_or_sets [OF body, of w2 ps empty_acc] l have "keeps_or_sets w2 w3"
      by simp
    with k1 have "keeps_or_sets w1 w3"
      by (rule keeps_or_sets_trans)
    with m Inr l show ?thesis
      by (cases r3) simp_all
  qed
qed

lemma models_generateContent_done:
  assumes "models_generateContent pf w params = (Inr response, w1)"
  shows "\<exists>client. genAI (session w) = Some client
           \<and> generateContent pf (ticks w) client params = Inr response
           \<and> w1 = w\<lparr>effects := effects w @ [Called client params], ticks := Suc (ticks w)\<rparr>"
  using assms by (auto simp add: models_generateContent_def split: option.splits)

lemma generateImage_try_done:
  assumes "generateImage_try pf w prompt' aspectRatio' imageSize' = (Inr result, w')"
  shows "\<exists>client response acc.
           genAI (session w) = Some client
           \<and> generateContent pf (ticks w) client
                 \<lparr>model = DEFAULT_IMAGE_MODEL pf, contents = PromptString prompt',
                  imageConfig = build_imageConfig pf aspectRatio' imageSize'\<rparr> = Inr response
           \<and> result = TextContent (generate_statusText pf prompt' aspectRatio' imageSize' acc)
                        # map upstream_image (filter has_image (parts_of response))
           \<and> image_call_done pf w w' client
                 \<lparr>model = DEFAULT_IMAGE_MODEL pf, contents = PromptString prompt',
                  imageConfig = build_imageConfig pf aspectRatio' imageSize'\<rparr>
                 (parts_of response) acc"
proof -
  let ?params = "\<lparr>model = DEFAULT_IMAGE_MODEL pf, contents = PromptString prompt',
                   imageConfig = build_imageConfig pf aspectRatio' imageSize'\<rparr>"
  obtain r1 w1 where g: "models_generateContent pf w ?params = (r1, w1)"
    by (cases "models_generateContent pf w ?params")
  from assms g obtain response where r1: "r1 = Inr response"
    by (cases r1) (auto simp add: generateImage_try_def)
  from models_generateContent_done [of pf w ?params response w1] g r1 obtain client where
    c: "genAI (session w) = Some client"
    and a: "generateContent pf (ticks w) client ?params = Inr response"
    and w1: "w1 = w\<lparr>effects := effects w @ [Called client ?params], ticks := Suc (ticks w)\<rparr>"
    by blast
  from assms g r1 have
    "(case fs_mkdir pf w1 (getImagesDirectory pf) of
        (Inl e, w2) \<Rightarrow> (Inl e, w2)
      | (Inr u, w2) \<Rightarrow>
          (case for_each (generate_part pf (getImagesDirectory pf)) (parts_of response)
                  empty_acc w2 of
             (Inl e, w3) \<Rightarrow> (Inl e, w3)
           | (Inr acc, w3) \<Rightarrow>
               (Inr (TextContent (generate_statusText pf prompt' aspectRatio' imageSize' acc)
                     # acc_content acc), w3)))
     = (Inr result, w')"
    unfolding generateImage_try_def parts_of_def Let_def by simp
  from saved_response_done [OF generate_part_saving this] obtain acc mk where
    "result = TextContent (generate_statusText pf prompt' aspectRatio' imageSize' acc)
               # map upstream_image (filter has_image (parts_of response))"
    and "textContent acc = description_of (parts_of response)"
    and "length (savedFiles acc) = length (filter has_image (parts_of response))"
    and "effects w' = effects w1 @ mk
           @ map (\<lambda>(f, part). Wrote f (base64_decode pf (image_data part)))
               (zip (savedFiles acc) (filter has_image (parts_of response)))"
    and "writes_of mk = []"
    and "if savedFiles acc = [] then session w' = session w1
         else session w' = (session w1)\<lparr>lastImagePath := Some (last (savedFiles acc))\<rparr>
              \<and> (\<exists>m. nodes w' (last (savedFiles acc))
                     = Some (File (base64_decode pf
                                     (image_data (last (filter has_image (parts_of response))))) m))"
    by blast
  with w1 have "result = TextContent (generate_statusText pf prompt' aspectRatio' imageSize' acc)
                          # map upstream_image (filter has_image (parts_of response))
                \<and> image_call_done pf w w' client ?params (parts_of response) acc"
    unfolding image_call_done_def by auto
  with c a show ?thesis by blast
qed

lemma generateImage_done:
  assumes "generateImage pf w request = (Inr result, w')"
  shows "\<exists>client response acc.
           genAI (session w) = Some client
           \<and> generateContent pf (ticks w) client (generate_parameters pf request) = Inr response
           \<and> result = TextContent (generate_statusText pf (prompt (arguments request))
                                      (default_to (aspectRatio (arguments request)) ''4:3'')
                                      (default_to (imageSize (arguments request)) ''1K'') acc)
                        # map upstream_image (filter has_image (parts_of response))
           \<and> image_call_done pf w w' client (generate_parameters pf request)
                 (parts_of response) acc"
proof -
  let ?attempt = "generateImage_try pf w (prompt (arguments request))
                (default_to (aspectRatio (arguments request)) ''4:3'')
                (default_to (imageSize (arguments request)) ''1K'')"
  from assms have conf: "ensureConfigured (session w)"
    by (auto simp add: generateImage_def split: if_splits)
  obtain r w1 where t: "?attempt = (r, w1)"
    by (cases ?attempt)
  from assms conf t have "?attempt = (Inr result, w')"
    by (cases r) (simp_all add: generateImage_def Let_def)
  from generateImage_try_done [OF this] show ?thesis
    by (simp add: generate_parameters_def)
qed

lemma editImage_try_done:
  assumes "editImage_try pf w imagePath' prompt' referenceImages' aspectRatio' imageSize'
             = (Inr result, w')"
  shows "\<exists>client imageBuffer response acc.
           genAI (session w) = Some client
           \<and> fs_readFile w imagePath' = Inr imageBuffer
           \<and> generateContent pf (ticks w) client
                 \<lparr>model = DEFAULT_IMAGE_MODEL pf,
                  contents = PartsList (edit_imageParts pf w imagePath' imageBuffer
                                          referenceImages' prompt'),
                  imageConfig = build_imageConfig pf aspectRatio' imageSize'\<rparr> = Inr response
           \<and> result = TextContent (edit_statusText pf imagePath' prompt' referenceImages'
                                      aspectRatio' imageSize' acc)
                        # map upstream_image (filter has_image (parts_of response))
           \<and> image_call_done pf w w' client
                 \<lparr>model = DEFAULT_IMAGE_MODEL pf,
                  contents = PartsList (edit_imageParts pf w imagePath' imageBuffer
                                          referenceImages' prompt'),
                  imageConfig = build_imageConfig pf aspectRatio' imageSize'\<rparr>
                 (parts_of response) acc"
proof -
  from assms obtain imageBuffer where rd: "fs_readFile w imagePath' = Inr imageBuffer"
    by (cases "fs_readFile w imagePath'") (auto simp add: editImage_try_def)
  let ?params = "\<lparr>model = DEFAULT_IMAGE_MODEL pf,
                   contents = PartsList (edit_imageParts pf w imagePath' imageBuffer
                                           referenceImages' prompt'),
                   imageConfig = build_imageConfig pf aspectRatio' imageSize'\<rparr>"
  obtain r1 w1 where g: "models_generateContent pf w ?params = (r1, w1)"
    by (cases "models_generateContent pf w ?params")
  from assms rd g obtain response where r1: "r1 = Inr response"
    by (cases r1) (auto simp add: editImage_try_def)
  from models_generateContent_done [of pf w ?params response w1] g r1 obtain client where
    c: "genAI (session w) = Some client"
    and a: "generateContent pf (ticks w) client ?params = Inr response"
    and w1: "w1 = w\<lparr>effects := effects w @ [Called client ?params], ticks := Suc (ticks w)\<rparr>"
    by blast
  from assms rd g r1 have
    "(case fs_mkdir pf w1 (getImagesDirectory pf) of
        (Inl e, w2) \<Rightarrow> (Inl e, w2)
      | (Inr u, w2) \<Rightarrow>
          (case for_each (edit_part pf (getImagesDirectory pf)) (parts_of response)
                  empty_acc w2 of
             (Inl e, w3) \<Rightarrow> (Inl e, w3)
           | (Inr acc, w3) \<Rightarrow>
               (Inr (TextContent (edit_statusText pf imagePath' prompt' referenceImages'
                                    aspectRatio' imageSize' acc)
                     # acc_content acc), w3)))
     = (Inr result, w')"
    unfolding editImage_try_def parts_of_def Let_def by simp
  from saved_response_done [OF edit_part_saving this] obtain acc mk where
    "result = TextContent (edit_statusText pf imagePath' prompt' referenceImages'
                             aspectRatio' imageSize' acc)
               # map upstream_image (filter has_image (parts_of response))"
    and "textContent acc = description_of (parts_of response)"
    and "length (savedFiles acc) = length (filter has_image (parts_of response))"
    and "effects w' = effects w1 @ mk
           @ map (\<lambda>(f, part). Wrote f (base64_decode pf (image_data part)))
               (zip (savedFiles acc) (filter has_image (parts_of response)))"
    and "writes_of mk = []"
    and "if savedFiles acc = [] then session w' = session w1
         else session w' = (session w1)\<lparr>lastImagePath := Some (last (savedFiles acc))\<rparr>
              \<and> (\<exists>m. nodes w' (last (savedFiles acc))
                     = Some (File (base64_decode pf
                                     (image_data (last (filter has_image (parts_of response))))) m))"
    by blast
  with w1 have "result = TextContent (edit_statusText pf imagePath' prompt' referenceImages'
                                        aspectRatio' imageSize' acc)
                          # map upstream_image (filter has_image (parts_of response))
                \<and> image_call_done pf w w' client ?params (parts_of response) acc"
    unfolding image_call_done_def by auto
  with c a rd show ?thesis by blast
qed

lemma editImage_done:
  assumes "editImage pf w request = (Inr result, w')"
  shows "\<exists>client imageBuffer response acc.
           genAI (session w) = Some client
           \<and> fs_readFile w (imagePath (arguments request)) = Inr imageBuffer
           \<and> generateContent pf (ticks w) client (edit_parameters pf w request imageBuffer)
               = Inr response
           \<and> result = TextContent (edit_statusText pf (imagePath (arguments request))
                                      (prompt (arguments request))
                                      (referenceImages (arguments request))
                                      (default_to (aspectRatio (arguments request)) ''4:3'')
                                      (default_to (imageSize (arguments request)) ''1K'') acc)
                        # map upstream_image (filter has_image (parts_of response))
           \<and> image_call_done pf w w' client (edit_parameters pf w request imageBuffer)
                 (parts_of response) acc"
proof -
  let ?attempt = "editImage_try pf w (imagePath (arguments request)) (prompt (arguments request))
                (referenceImages (arguments request))
                (default_to (aspectRatio (arguments request)) ''4:3'')
                (default_to (imageSize (arguments request)) ''1K'')"
  from assms have conf: "ensureConfigured (session w)"
    by (auto simp add: editImage_def split: if_splits)
  obtain r w1 where t: "?attempt = (r, w1)"
    by (cases ?attempt)
  from assms conf t have "?attempt = (Inr result, w')"
    by (cases r) (simp_all add: editImage_def Let_def)
  from editImage_try_done [OF this] show ?thesis
    by (simp add: edit_parameters_def)
qed

section \<open>Calls on the concrete platform\<close>

text \<open>The definitions that running a handler on concrete arguments unfolds, and the two
  calls of the concrete session, run to their end.\<close>

lemmas handler_defs =
  generateImage_def generateImage_try_def editImage_def editImage_try_def edit_imageParts_def
  models_generateContent_def fs_mkdir_def fs_writeFile_def fs_readFile_def fs_access_def
  fs_stat_def generate_part_def edit_part_def getImagesDirectory_def build_imageConfig_def
  DEFAULT_IMAGE_MODEL_def ensureConfigured_def new_timestamp_def new_randomId_def
  substring_def response_parts_def truthy_def or_else_def default_to_def empty_acc_def
  Let_def

lemma demo_generate_value:
  "\<exists>status. demo_generate
     = (Inr [TextContent status, ImageContent ''UE5H'' ''image/webp'',
             ImageContent ''UE5H'' ''image/png''],
        \<lparr>session = \<lparr>genAI = Some (GoogleGenAI ''k''), config = Some \<lparr>geminiApiKey = ''k''\<rparr>,
                    lastImagePath = Some ''/out/generated-2025-01-02T03-04-05-678Z-k3x9a1.png'',
                    configSource = environment\<rparr>,
         nodes = [''/in/a.png'' \<mapsto> File ''PNG'' ''1/1/2025, 9:00:00 AM'',
                  ''/out'' \<mapsto> Directory 4096 ''1/2/2025, 3:04:05 AM'',
                  ''/out/generated-2025-01-02T03-04-05-678Z-4fzyo8.png''
                    \<mapsto> File ''PNG'' ''1/2/2025, 3:04:05 AM'',
                  ''/out/generated-2025-01-02T03-04-05-678Z-k3x9a1.png''
                    \<mapsto> File ''PNG'' ''1/2/2025, 3:04:05 AM''],
         effects = [Called (GoogleGenAI ''k'')
                      \<lparr>model = ''gemini-2.5-flash-image'', contents = PromptString ''a cat'',
                       imageConfig = \<lparr>cfg_aspectRatio = ''4:3'', cfg_imageSize = None\<rparr>\<rparr>,
                    MadeDir ''/out'',
                    Wrote ''/out/generated-2025-01-02T03-04-05-678Z-4fzyo8.png'' ''PNG'',
                    Wrote ''/out/generated-2025-01-02T03-04-05-678Z-k3x9a1.png'' ''PNG''],
         ticks = 3\<rparr>)"
  by (simp add: demo_generate_def handler_defs demo_defs)

lemma demo_edit_value:
  "\<exists>status. demo_edit
     = (Inr [TextContent status, ImageContent ''UE5H'' ''image/webp'',
             ImageContent ''UE5H'' ''image/png''],
        \<lparr>session = \<lparr>genAI = Some (GoogleGenAI ''k''), config = Some \<lparr>geminiApiKey = ''k''\<rparr>,
                    lastImagePath = Some ''/out/edited-2025-01-02T03-04-05-678Z-k3x9a1.png'',
                    configSource = environment\<rparr>,
         nodes = [''/in/a.png'' \<mapsto> File ''PNG'' ''1/1/2025, 9:00:00 AM'',
                  ''/out'' \<mapsto> Directory 4096 ''1/2/2025, 3:04:05 AM'',
                  ''/out/edited-2025-01-02T03-04-05-678Z-4fzyo8.png''
                    \<mapsto> File ''PNG'' ''1/2/2025, 3:04:05 AM'',
                  ''/out/edited-2025-01-02T03-04-05-678Z-k3x9a1.png''
                    \<mapsto> File ''PNG'' ''1/2/2025, 3:04:05 AM''],
         effects = [Called (GoogleGenAI ''k'')
                      \<lparr>model = ''gemini-2.5-flash-image'',
                       contents = PartsList [InlineDataPart ''UE5H'' ''image/png'',
                                             TextPart ''a cat''],
                       imageConfig = \<lparr>cfg_aspectRatio = ''4:3'', cfg_imageSize = None\<rparr>\<rparr>,
                    MadeDir ''/out'',
                    Wrote ''/out/edited-2025-01-02T03-04-05-678Z-4fzyo8.png'' ''PNG'',
                    Wrote ''/out/edited-2025-01-02T03-04-05-678Z-k3x9a1.png'' ''PNG''],
         ticks = 3\<rparr>)"
  by (simp add: demo_edit_def handler_defs demo_defs getMimeType_defs)
section \<open>The shape of a successful result\<close>

lemma new_effects_append:
  assumes "effects w' = effects w @ es"
  shows "new_effects w w' = es"
  using assms by (simp add: new_effects_def)

lemma image_call_done_effects:
  assumes "image_call_done pf w w' client params ps acc"
  shows "(\<exists>es. new_effects w w' = Called client params # es)
         \<and> writes_of (new_effects w w')
             = map (\<lambda>(f, part). (f, base64_decode pf (image_data part)))
                 (zip (savedFiles acc) (filter has_image ps))"
proof -
  from assms obtain mk where
    e: "effects w' = effects w @ [Called client params] @ mk
          @ map (\<lambda>(f, part). Wrote f (base64_decode pf (image_data part)))
              (zip (savedFiles acc) (filter has_image ps))"
    and mk: "writes_of mk = []"
    unfolding image_call_done_def by blast
  from e have n: "new_effects w w' = [Called client params] @ mk
          @ map (\<lambda>(f, part). Wrote f (base64_decode pf (image_data part)))
              (zip (savedFiles acc) (filter has_image ps))"
    by (rule new_effects_append)
  then have "\<exists>es. new_effects w w' = Called client params # es"
    by simp
  moreover have "writes_of (new_effects w w')
             = map (\<lambda>(f, part). (f, base64_decode pf (image_data part)))
                 (zip (savedFiles acc) (filter has_image ps))"
    using n mk by (simp add: writes_of_append writes_of_Wrote_map)
  ultimately show ?thesis by blast
qed

lemma generate_statusText_no_image:
  assumes "savedFiles acc = []"
  shows "\<exists>pre post. generate_statusText pf prompt' aspectRatio' imageSize' acc
           = pre @ ''Note: No image was generated.'' @ post"
proof -
  let ?pre = "emoji_palette @ '' Image generated with nano-banana ('' @ modelInfo pf @ '')!''
     @ ''\<newline>\<newline>Prompt: '' @ dq @ prompt' @ dq
     @ ''\<newline>Aspect Ratio: '' @ aspectRatio'
     @ (if DEFAULT_IMAGE_MODEL pf = ''gemini-3-pro-image-preview''
        then ''\<newline>Resolution: '' @ imageSize' else [])
     @ (if textContent acc \<noteq> [] then ''\<newline>\<newline>Description: '' @ textContent acc else [])
     @ ''\<newline>\<newline>''"
  let ?post = "'' The model may have returned only text.''
     @ ''\<newline>\<newline>'' @ emoji_bulb
     @ '' Tip: Try running the command again - sometimes the first call needs to warm up the model.''"
  have "generate_statusText pf prompt' aspectRatio' imageSize' acc
          = ?pre @ ''Note: No image was generated.'' @ ?post"
    using assms by (simp add: generate_statusText_def)
  then show ?thesis by blast
qed

lemma edit_statusText_no_image:
  assumes "savedFiles acc = []"
  shows "\<exists>pre post. edit_statusText pf imagePath' prompt' referenceImages' aspectRatio'
                        imageSize' acc
           = pre @ ''Note: No edited image was generated.'' @ post"
proof -
  let ?pre = "emoji_palette @ '' Image edited with nano-banana ('' @ modelInfo pf @ '')!''
     @ ''\<newline>\<newline>Original: '' @ imagePath'
     @ ''\<newline>Edit prompt: '' @ dq @ prompt' @ dq
     @ ''\<newline>Aspect Ratio: '' @ aspectRatio'
     @ (if DEFAULT_IMAGE_MODEL pf = ''gemini-3-pro-image-preview''
        then ''\<newline>Resolution: '' @ imageSize' else [])
     @ (case referenceImages' of
          None \<Rightarrow> []
        | Some refs \<Rightarrow>
            if length refs > 0
            then ''\<newline>\<newline>Reference images used:\<newline>'' @ bullet_list refs else [])
     @ (if textContent acc \<noteq> [] then ''\<newline>\<newline>Description: '' @ textContent acc else [])
     @ ''\<newline>\<newline>''"
  let ?post = "''\<newline>\<newline>'' @ emoji_bulb
     @ '' Tip: Try running the command again - sometimes the first call needs to warm up the model.''"
  have "edit_statusText pf imagePath' prompt' referenceImages' aspectRatio' imageSize' acc
          = ?pre @ ''Note: No edited image was generated.'' @ ?post"
    using assms by (simp add: edit_statusText_def)
  then show ?thesis by blast
qed

lemma generate_part_no_image:
  assumes "\<not> has_image part"
  shows "\<exists>acc'. generate_part pf imagesDir part acc w = (Inr acc', w)"
  using assms by (simp add: generate_part_def has_image_def Let_def)

lemma edit_part_no_image:
  assumes "\<not> has_image part"
  shows "\<exists>acc' w'. edit_part pf imagesDir part acc w = (Inr acc', w')
           \<and> nodes w' = nodes w"
  using assms
  by (auto simp add: edit_part_def has_image_def Let_def split: option.splits)

lemma for_each_no_image:
  assumes "\<And>part acc w. \<not> has_image part
             \<Longrightarrow> \<exists>acc' w'. body part acc w = (Inr acc', w') \<and> nodes w' = nodes w"
    and "filter has_image ps = []"
  shows "\<exists>acc' w'. for_each body ps acc w = (Inr acc', w')"
  using assms(2)
proof (induction ps arbitrary: acc w)
  case Nil
  show ?case by simp
next
  case (Cons part rest)
  from Cons.prems have n: "\<not> has_image part" and r: "filter has_image rest = []"
    by (auto split: if_splits)
  from assms(1) [OF n] obtain acc1 w1 where "body part acc w = (Inr acc1, w1)"
    by blast
  with Cons.IH [OF r, of acc1 w1] show ?case
    by simp
qed

text \<open>A response without image data, in a directory that can be made: the loop ends, and
  the result is the status text alone, with no file saved.\<close>

lemma saved_response_no_image:
  assumes body: "saving_round pf body"
    and quiet: "\<And>part acc w. \<not> has_image part
                 \<Longrightarrow> \<exists>acc' w'. body part acc w = (Inr acc', w') \<and> nodes w' = nodes w"
    and none: "filter has_image ps = []"
    and free: "mkdir_refused pf imagesDir = None"
    and nofile: "\<forall>b m. nodes w1 imagesDir \<noteq> Some (File b m)"
  shows "\<exists>acc w'.
           (case fs_mkdir pf w1 imagesDir of
              (Inl e, w2) \<Rightarrow> (Inl e :: js_thrown + CallToolResult, w2)
            | (Inr u, w2) \<Rightarrow>
                (case for_each body ps empty_acc w2 of
                   (Inl e, w3) \<Rightarrow> (Inl e, w3)
                 | (Inr acc, w3) \<Rightarrow> (Inr (TextContent (status acc) # acc_content acc), w3)))
           = (Inr [TextContent (status acc)], w')
           \<and> savedFiles acc = []"
proof -
  have "\<exists>w2. fs_mkdir pf w1 imagesDir = (Inr (), w2)"
  proof (cases "nodes w1 imagesDir")
    case None
    with free show ?thesis by (simp add: fs_mkdir_def)
  next
    case (Some node)
    with free nofile show ?thesis by (cases node) (simp_all add: fs_mkdir_def)
  qed
  then obtain w2 where m: "fs_mkdir pf w1 imagesDir = (Inr (), w2)"
    by blast
  from for_each_no_image [of body ps empty_acc w2, OF quiet none] obtain acc w3 where
    l: "for_each body ps empty_acc w2 = (Inr acc, w3)"
    by blast
  from for_each_done [OF body l] none have "acc_content acc = []" "savedFiles acc = []"
    by (auto simp add: empty_acc_def)
  with m l show ?thesis
    by (intro exI [of _ acc] exI [of _ w3]) simp
qed

lemma generateImage_no_image:
  assumes conf: "ensureConfigured (session w)"
    and client: "genAI (session w) = Some client"
    and answer: "generateContent pf (ticks w) client (generate_parameters pf request)
                   = Inr response"
    and none: "filter has_image (parts_of response) = []"
    and free: "mkdir_refused pf (getImagesDirectory pf) = None"
    and nofile: "\<forall>b m. nodes w (getImagesDirectory pf) \<noteq> Some (File b m)"
  shows "\<exists>status pre post w'.
           generateImage pf w request = (Inr [TextContent status], w')
           \<and> status = pre @ ''Note: No image was generated.'' @ post"
proof -
  let ?params = "generate_parameters pf request"
  let ?w1 = "w\<lparr>effects := effects w @ [Called client ?params], ticks := Suc (ticks w)\<rparr>"
  let ?status = "generate_statusText pf (prompt (arguments request))
                   (default_to (aspectRatio (arguments request)) ''4:3'')
                   (default_to (imageSize (arguments request)) ''1K'')"
  have nofile1: "\<forall>b m. nodes ?w1 (getImagesDirectory pf) \<noteq> Some (File b m)"
    using nofile by simp
  have quiet: "\<And>part acc w. \<not> has_image part
       \<Longrightarrow> \<exists>acc' w'. generate_part pf (getImagesDirectory pf) part acc w = (Inr acc', w')
                      \<and> nodes w' = nodes w"
    using generate_part_no_image by blast
  from saved_response_no_image [OF generate_part_saving quiet none free nofile1, of ?status]
  obtain acc w' where
    t: "(case fs_mkdir pf ?w1 (getImagesDirectory pf) of
           (Inl e, w2) \<Rightarrow> (Inl e :: js_thrown + CallToolResult, w2)
         | (Inr u, w2) \<Rightarrow>
             (case for_each (generate_part pf (getImagesDirectory pf)) (parts_of response)
                     empty_acc w2 of
                (Inl e, w3) \<Rightarrow> (Inl e, w3)
              | (Inr acc, w3) \<Rightarrow> (Inr (TextContent (?status acc) # acc_content acc), w3)))
        = (Inr [TextContent (?status acc)], w')"
    and s: "savedFiles acc = []"
    by blast
  have "generateImage_try pf w (prompt (arguments request))
          (default_to (aspectRatio (arguments request)) ''4:3'')
          (default_to (imageSize (arguments request)) ''1K'')
        = (Inr [TextContent (?status acc)], w')"
    using client answer t
    unfolding generateImage_try_def models_generateContent_def parts_of_def Let_def
      generate_parameters_def
    by simp
  with conf have "generateImage pf w request = (Inr [TextContent (?status acc)], w')"
    by (simp add: generateImage_def Let_def)
  with generate_statusText_no_image [OF s] show ?thesis
    by metis
qed

lemma editImage_no_image:
  assumes conf: "ensureConfigured (session w)"
    and client: "genAI (session w) = Some client"
    and rd: "fs_readFile w (imagePath (arguments request)) = Inr imageBuffer"
    and answer: "generateContent pf (ticks w) client (edit_parameters pf w request imageBuffer)
                   = Inr response"
    and none: "filter has_image (parts_of response) = []"
    and free: "mkdir_refused pf (getImagesDirectory pf) = None"
    and nofile: "\<forall>b m. nodes w (getImagesDirectory pf) \<noteq> Some (File b m)"
  shows "\<exists>status pre post w'.
           editImage pf w request = (Inr [TextContent status], w')
           \<and> status = pre @ ''Note: No edited image was generated.'' @ post"
proof -
  let ?params = "edit_parameters pf w request imageBuffer"
  let ?w1 = "w\<lparr>effects := effects w @ [Called client ?params], ticks := Suc (ticks w)\<rparr>"
  let ?status = "edit_statusText pf (imagePath (arguments request)) (prompt (arguments request))
                   (referenceImages (arguments request))
                   (default_to (aspectRatio (arguments request)) ''4:3'')
                   (default_to (imageSize (arguments request)) ''1K'')"
  have nofile1: "\<forall>b m. nodes ?w1 (getImagesDirectory pf) \<noteq> Some (File b m)"
    using nofile by simp
  have quiet: "\<And>part acc w. \<not> has_image part
       \<Longrightarrow> \<exists>acc' w'. edit_part pf (getImagesDirectory pf) part acc w = (Inr acc', w')
                      \<and> nodes w' = nodes w"
    using edit_part_no_image by blast
  from saved_response_no_image [OF edit_part_saving quiet none free nofile1, of ?status]
  obtain acc w' where
    t: "(case fs_mkdir pf ?w1 (getImagesDirectory pf) of
           (Inl e, w2) \<Rightarrow> (Inl e :: js_thrown + CallToolResult, w2)
         | (Inr u, w2) \<Rightarrow>
             (case for_each (edit_part pf (getImagesDirectory pf)) (parts_of response)
                     empty_acc w2 of
                (Inl e, w3) \<Rightarrow> (Inl e, w3)
              | (Inr acc, w3) \<Rightarrow> (Inr (TextContent (?status acc) # acc_content acc), w3)))
        = (Inr [TextContent (?status acc)], w')"
    and s: "savedFiles acc = []"
    by blast
  have "editImage_try pf w (imagePath (arguments request)) (prompt (arguments request))
          (referenceImages (arguments request))
          (default_to (aspectRatio (arguments request)) ''4:3'')
          (default_to (imageSize (arguments request)) ''1K'')
        = (Inr [TextContent (?status acc)], w')"
    using client rd answer t
    unfolding editImage_try_def models_generateContent_def parts_of_def Let_def
      edit_parameters_def
    by simp
  with conf have "editImage pf w request = (Inr [TextContent (?status acc)], w')"
    by (simp add: editImage_def Let_def)
  with edit_statusText_no_image [OF s] show ?thesis
    by metis
qed

text \<open>
  Claim C5. A successful \<open>generateImage\<close> or \<open>editImage\<close> made one upstream call, and
  its result is the status text followed by one image part for each part of the
  response that carries image data, in the order of the response. One file was written
  for each of these parts, in the same order, with the bytes decoded from the part. An
  image part of the result holds the base64 data of its upstream part as they came, and
  the MIME type the part declares (for a part that declares none, absent or empty, the
  code says \<^verbatim>\<open>image/png\<close>). When no file was saved the result is the status text alone,
  and the text contains the note that no image was generated. And that case is a
  success: when the upstream service answers a configured call (of \<open>editImage\<close>, with a
  readable main image) with parts that carry no image data, and the save directory can
  be made, the call returns the status text with the note and throws nothing.
\<close>

theorem successful_result_shape:
  "(generateImage pf w request = (Inr result, w') \<longrightarrow>
      (\<exists>client response acc.
         (\<exists>es. new_effects w w' = Called client (generate_parameters pf request) # es)
         \<and> generateContent pf (ticks w) client (generate_parameters pf request) = Inr response
         \<and> result = TextContent (generate_statusText pf (prompt (arguments request))
                                    (default_to (aspectRatio (arguments request)) ''4:3'')
                                    (default_to (imageSize (arguments request)) ''1K'') acc)
                      # map upstream_image (filter has_image (parts_of response))
         \<and> length (savedFiles acc) = length (filter has_image (parts_of response))
         \<and> writes_of (new_effects w w')
             = map (\<lambda>(f, part). (f, base64_decode pf (image_data part)))
                 (zip (savedFiles acc) (filter has_image (parts_of response)))
         \<and> (savedFiles acc = [] \<longrightarrow>
              (\<exists>status pre post. result = [TextContent status]
                 \<and> status = pre @ ''Note: No image was generated.'' @ post))))
   \<and> (editImage pf w request = (Inr result, w') \<longrightarrow>
      (\<exists>client imageBuffer response acc.
         (\<exists>es. new_effects w w'
                 = Called client (edit_parameters pf w request imageBuffer) # es)
         \<and> generateContent pf (ticks w) client (edit_parameters pf w request imageBuffer)
             = Inr response
         \<and> result = TextContent (edit_statusText pf (imagePath (arguments request))
                                    (prompt (arguments request))
                                    (referenceImages (arguments request))
                                    (default_to (aspectRatio (arguments request)) ''4:3'')
                                    (default_to (imageSize (arguments request)) ''1K'') acc)
                      # map upstream_image (filter has_image (parts_of response))
         \<and> length (savedFiles acc) = length (filter has_image (parts_of response))
         \<and> writes_of (new_effects w w')
             = map (\<lambda>(f, part). (f, base64_decode pf (image_data part)))
                 (zip (savedFiles acc) (filter has_image (parts_of response)))
         \<and> (savedFiles acc = [] \<longrightarrow>
              (\<exists>status pre post. result = [TextContent status]
                 \<and> status = pre @ ''Note: No edited image was generated.'' @ post))))
   \<and> (\<forall>part. \<exists>d m. upstream_image part = ImageContent d m
          \<and> d = image_data part
          \<and> (case declared_mimeType part of
                None \<Rightarrow> m = ''image/png''
              | Some t \<Rightarrow> m = (if t = [] then ''image/png'' else t)))
   \<and> (declared_mimeType part = Some t \<and> t \<noteq> [] \<longrightarrow>
        upstream_image part = ImageContent (image_data part) t)
   \<and> (ensureConfigured (session w) \<and> genAI (session w) = Some client
        \<and> generateContent pf (ticks w) client (generate_parameters pf request) = Inr response
        \<and> filter has_image (parts_of response) = []
        \<and> mkdir_refused pf (getImagesDirectory pf) = None
        \<and> (\<forall>b m. nodes w (getImagesDirectory pf) \<noteq> Some (File b m))
        \<longrightarrow> (\<exists>status pre post w''.
               generateImage pf w request = (Inr [TextContent status], w'')
               \<and> status = pre @ ''Note: No image was generated.'' @ post))
   \<and> (ensureConfigured (session w) \<and> genAI (session w) = Some client
        \<and> fs_readFile w (imagePath (arguments request)) = Inr imageBuffer
        \<and> generateContent pf (ticks w) client (edit_parameters pf w request imageBuffer)
            = Inr response
        \<and> filter has_image (parts_of response) = []
        \<and> mkdir_refused pf (getImagesDirectory pf) = None
        \<and> (\<forall>b m. nodes w (getImagesDirectory pf) \<noteq> Some (File b m))
        \<longrightarrow> (\<exists>status pre post w''.
               editImage pf w request = (Inr [TextContent status], w'')
               \<and> status = pre @ ''Note: No edited image was generated.'' @ post))"
proof (intro conjI impI)
  assume a: "generateImage pf w request = (Inr result, w')"
  from generateImage_done [OF a] obtain client response acc where
    a1: "generateContent pf (ticks w) client (generate_parameters pf request) = Inr response"
    and a2: "result = TextContent (generate_statusText pf (prompt (arguments request))
                                    (default_to (aspectRatio (arguments request)) ''4:3'')
                                    (default_to (imageSize (arguments request)) ''1K'') acc)
                      # map upstream_image (filter has_image (parts_of response))"
    and a3: "image_call_done pf w w' client (generate_parameters pf request)
               (parts_of response) acc"
    by blast
  from a3 have a4: "length (savedFiles acc) = length (filter has_image (parts_of response))"
    by (simp add: image_call_done_def)
  have a5: "savedFiles acc = [] \<longrightarrow>
              (\<exists>status pre post. result = [TextContent status]
                 \<and> status = pre @ ''Note: No image was generated.'' @ post)"
  proof
    assume e: "savedFiles acc = []"
    with a4 have "filter has_image (parts_of response) = []" by simp
    with a2 generate_statusText_no_image [OF e] show
      "\<exists>status pre post. result = [TextContent status]
         \<and> status = pre @ ''Note: No image was generated.'' @ post"
      by simp
  qed
  from a1 a2 a4 a5 image_call_done_effects [OF a3] show
    "\<exists>client response acc.
         (\<exists>es. new_effects w w' = Called client (generate_parameters pf request) # es)
         \<and> generateContent pf (ticks w) client (generate_parameters pf request) = Inr response
         \<and> result = TextContent (generate_statusText pf (prompt (arguments request))
                                    (default_to (aspectRatio (arguments request)) ''4:3'')
                                    (default_to (imageSize (arguments request)) ''1K'') acc)
                      # map upstream_image (filter has_image (parts_of response))
         \<and> length (savedFiles acc) = length (filter has_image (parts_of response))
         \<and> writes_of (new_effects w w')
             = map (\<lambda>(f, part). (f, base64_decode pf (image_data part)))
                 (zip (savedFiles acc) (filter has_image (parts_of response)))
         \<and> (savedFiles acc = [] \<longrightarrow>
              (\<exists>status pre post. result = [TextContent status]
                 \<and> status = pre @ ''Note: No image was generated.'' @ post))"
    by blast
next
  assume a: "editImage pf w request = (Inr result, w')"
  from editImage_done [OF a] obtain client imageBuffer response acc where
    a1: "generateContent pf (ticks w) client (edit_parameters pf w request imageBuffer)
           = Inr response"
    and a2: "result = TextContent (edit_statusText pf (imagePath (arguments request))
                                    (prompt (arguments request))
                                    (referenceImages (arguments request))
                                    (default_to (aspectRatio (arguments request)) ''4:3'')
                                    (default_to (imageSize (arguments request)) ''1K'') acc)
                      # map upstream_image (filter has_image (parts_of response))"
    and a3: "image_call_done pf w w' client (edit_parameters pf w request imageBuffer)
               (parts_of response) acc"
    by blast
  from a3 have a4: "length (savedFiles acc) = length (filter has_image (parts_of response))"
    by (simp add: image_call_done_def)
  have a5: "savedFiles acc = [] \<longrightarrow>
              (\<exists>status pre post. result = [TextContent status]
                 \<and> status = pre @ ''Note: No edited image was generated.'' @ post)"
  proof
    assume e: "savedFiles acc = []"
    with a4 have "filter has_image (parts_of response) = []" by simp
    with a2 edit_statusText_no_image [OF e] show
      "\<exists>status pre post. result = [TextContent status]
         \<and> status = pre @ ''Note: No edited image was generated.'' @ post"
      by simp
  qed
  from a1 a2 a4 a5 image_call_done_effects [OF a3] show
    "\<exists>client imageBuffer response acc.
         (\<exists>es. new_effects w w'
                 = Called client (edit_parameters pf w request imageBuffer) # es)
         \<and> generateContent pf (ticks w) client (edit_parameters pf w request imageBuffer)
             = Inr response
         \<and> result = TextContent (edit_statusText pf (imagePath (arguments request))
                                    (prompt (arguments request))
                                    (referenceImages (arguments request))
                                    (default_to (aspectRatio (arguments request)) ''4:3'')
                                    (default_to (imageSize (arguments request)) ''1K'') acc)
                      # map upstream_image (filter has_image (parts_of response))
         \<and> length (savedFiles acc) = length (filter has_image (parts_of response))
         \<and> writes_of (new_effects w w')
             = map (\<lambda>(f, part). (f, base64_decode pf (image_data part)))
                 (zip (savedFiles acc) (filter has_image (parts_of response)))
         \<and> (savedFiles acc = [] \<longrightarrow>
              (\<exists>status pre post. result = [TextContent status]
                 \<and> status = pre @ ''Note: No edited image was generated.'' @ post))"
    by blast
next
  show "\<forall>part. \<exists>d m. upstream_image part = ImageContent d m
          \<and> d = image_data part
          \<and> (case declared_mimeType part of
                None \<Rightarrow> m = ''image/png''
              | Some t \<Rightarrow> m = (if t = [] then ''image/png'' else t))"
    by (simp add: upstream_image_def or_else_def split: option.splits)
next
  assume "declared_mimeType part = Some t \<and> t \<noteq> []"
  then show "upstream_image part = ImageContent (image_data part) t"
    by (simp add: upstream_image_def or_else_def)
next
  assume "ensureConfigured (session w) \<and> genAI (session w) = Some client
        \<and> generateContent pf (ticks w) client (generate_parameters pf request) = Inr response
        \<and> filter has_image (parts_of response) = []
        \<and> mkdir_refused pf (getImagesDirectory pf) = None
        \<and> (\<forall>b m. nodes w (getImagesDirectory pf) \<noteq> Some (File b m))"
  then show "\<exists>status pre post w''.
               generateImage pf w request = (Inr [TextContent status], w'')
               \<and> status = pre @ ''Note: No image was generated.'' @ post"
    using generateImage_no_image [of w client pf request response] by blast
next
  assume "ensureConfigured (session w) \<and> genAI (session w) = Some client
        \<and> fs_readFile w (imagePath (arguments request)) = Inr imageBuffer
        \<and> generateContent pf (ticks w) client (edit_parameters pf w request imageBuffer)
            = Inr response
        \<and> filter has_image (parts_of response) = []
        \<and> mkdir_refused pf (getImagesDirectory pf) = None
        \<and> (\<forall>b m. nodes w (getImagesDirectory pf) \<noteq> Some (File b m))"
  then show "\<exists>status pre post w''.
               editImage pf w request = (Inr [TextContent status], w'')
               \<and> status = pre @ ''Note: No edited image was generated.'' @ post"
    using editImage_no_image [of w client request imageBuffer pf response] by blast
qed


lemma demo_generate_result:
  "\<exists>status. fst demo_generate
     = Inr [TextContent status, ImageContent ''UE5H'' ''image/webp'',
            ImageContent ''UE5H'' ''image/png'']"
  by (simp add: demo_generate_def handler_defs demo_defs)

lemma demo_edit_result:
  "\<exists>status. fst demo_edit
     = Inr [TextContent status, ImageContent ''UE5H'' ''image/webp'',
            ImageContent ''UE5H'' ''image/png'']"
  by (simp add: demo_edit_def handler_defs demo_defs getMimeType_defs)

lemma bare_generate_result: "\<exists>status. fst bare_generate = Inr [TextContent status]"
  by (simp add: bare_generate_def handler_defs demo_defs)

theorem successful_result_shape_witness:
  "(\<exists>status client response acc.
      fst demo_generate
        = Inr [TextContent status, ImageContent ''UE5H'' ''image/webp'',
               ImageContent ''UE5H'' ''image/png'']
      \<and> generateContent demo_platform (ticks ready_world) client
            (generate_parameters demo_platform (demo_request ''generate_image'')) = Inr response
      \<and> [TextContent status, ImageContent ''UE5H'' ''image/webp'',
          ImageContent ''UE5H'' ''image/png'']
          = TextContent (generate_statusText demo_platform ''a cat'' ''4:3'' ''1K'' acc)
            # map upstream_image (filter has_image (parts_of response))
      \<and> length (savedFiles acc) = length (filter has_image (parts_of response))
      \<and> writes_of (new_effects ready_world (snd demo_generate))
          = map (\<lambda>(f, part). (f, base64_decode demo_platform (image_data part)))
              (zip (savedFiles acc) (filter has_image (parts_of response))))
   \<and> writes_of (new_effects ready_world (snd demo_generate))
       = [(''/out/generated-2025-01-02T03-04-05-678Z-4fzyo8.png'', ''PNG''),
          (''/out/generated-2025-01-02T03-04-05-678Z-k3x9a1.png'', ''PNG'')]
   \<and> (\<exists>status client imageBuffer response acc.
      fst demo_edit
        = Inr [TextContent status, ImageContent ''UE5H'' ''image/webp'',
               ImageContent ''UE5H'' ''image/png'']
      \<and> generateContent demo_platform (ticks ready_world) client
            (edit_parameters demo_platform ready_world (demo_request ''edit_image'') imageBuffer)
          = Inr response
      \<and> [TextContent status, ImageContent ''UE5H'' ''image/webp'',
          ImageContent ''UE5H'' ''image/png'']
          = TextContent (edit_statusText demo_platform ''/in/a.png'' ''a cat''
                           (Some [''/in/missing.jpg'']) ''4:3'' ''1K'' acc)
            # map upstream_image (filter has_image (parts_of response))
      \<and> writes_of (new_effects ready_world (snd demo_edit))
          = map (\<lambda>(f, part). (f, base64_decode demo_platform (image_data part)))
              (zip (savedFiles acc) (filter has_image (parts_of response))))
   \<and> (\<exists>status pre post.
      fst bare_generate = Inr [TextContent status]
      \<and> status = pre @ ''Note: No image was generated.'' @ post)
   \<and> declared_mimeType image_part = Some ''image/webp''
   \<and> upstream_image image_part = ImageContent ''UE5H'' ''image/webp''
   \<and> ensureConfigured (session ready_world)
   \<and> genAI (session ready_world) = Some (GoogleGenAI ''k'')
   \<and> generateContent bare_platform (ticks ready_world) (GoogleGenAI ''k'')
         (generate_parameters bare_platform (demo_request ''generate_image'')) = Inr bare_response
   \<and> filter has_image (parts_of bare_response) = []
   \<and> mkdir_refused bare_platform (getImagesDirectory bare_platform) = None
   \<and> nodes ready_world (getImagesDirectory bare_platform) = None
   \<and> (\<exists>status pre post w''.
         generateImage bare_platform ready_world (demo_request ''generate_image'')
           = (Inr [TextContent status], w'')
         \<and> status = pre @ ''Note: No image was generated.'' @ post)
   \<and> fs_readFile ready_world (imagePath (arguments (demo_request ''edit_image''))) = Inr ''PNG''
   \<and> (\<exists>status pre post w''.
         editImage bare_platform ready_world (demo_request ''edit_image'')
           = (Inr [TextContent status], w'')
         \<and> status = pre @ ''Note: No edited image was generated.'' @ post)"
proof -
  from demo_generate_result obtain s1 where
    g: "fst demo_generate = Inr [TextContent s1, ImageContent ''UE5H'' ''image/webp'',
                                 ImageContent ''UE5H'' ''image/png'']"
    by blast
  then have g': "generateImage demo_platform ready_world (demo_request ''generate_image'')
      = (Inr [TextContent s1, ImageContent ''UE5H'' ''image/webp'',
              ImageContent ''UE5H'' ''image/png''], snd demo_generate)"
    by (metis demo_generate_def prod.collapse)
  from demo_edit_result obtain s2 where
    e: "fst demo_edit = Inr [TextContent s2, ImageContent ''UE5H'' ''image/webp'',
                             ImageContent ''UE5H'' ''image/png'']"
    by blast
  then have e': "editImage demo_platform ready_world (demo_request ''edit_image'')
      = (Inr [TextContent s2, ImageContent ''UE5H'' ''image/webp'',
              ImageContent ''UE5H'' ''image/png''], snd demo_edit)"
    by (metis demo_edit_def prod.collapse)
  from bare_generate_result obtain s3 where b: "fst bare_generate = Inr [TextContent s3]"
    by blast
  then have b': "generateImage bare_platform ready_world (demo_request ''generate_image'')
      = (Inr [TextContent s3], snd bare_generate)"
    by (metis bare_generate_def prod.collapse)
  have args: "prompt (arguments (demo_request n)) = ''a cat''"
    "default_to (aspectRatio (arguments (demo_request n))) ''4:3'' = ''4:3''"
    "default_to (imageSize (arguments (demo_request n))) ''1K'' = ''1K''"
    "imagePath (arguments (demo_request n)) = ''/in/a.png''"
    "referenceImages (arguments (demo_request n)) = Some [''/in/missing.jpg'']" for n
    by (simp_all add: demo_request_def default_to_def)
  have A: "\<exists>status client response acc.
      fst demo_generate
        = Inr [TextContent status, ImageContent ''UE5H'' ''image/webp'',
               ImageContent ''UE5H'' ''image/png'']
      \<and> generateContent demo_platform (ticks ready_world) client
            (generate_parameters demo_platform (demo_request ''generate_image'')) = Inr response
      \<and> [TextContent status, ImageContent ''UE5H'' ''image/webp'',
          ImageContent ''UE5H'' ''image/png'']
          = TextContent (generate_statusText demo_platform ''a cat'' ''4:3'' ''1K'' acc)
            # map upstream_image (filter has_image (parts_of response))
      \<and> length (savedFiles acc) = length (filter has_image (parts_of response))
      \<and> writes_of (new_effects ready_world (snd demo_generate))
          = map (\<lambda>(f, part). (f, base64_decode demo_platform (image_data part)))
              (zip (savedFiles acc) (filter has_image (parts_of response)))"
  proof -
    from successful_result_shape
      [where pf = demo_platform and w = ready_world
         and request = "demo_request ''generate_image''" and w' = "snd demo_generate"
         and result = "[TextContent s1, ImageContent ''UE5H'' ''image/webp'',
                        ImageContent ''UE5H'' ''image/png'']",
       THEN conjunct1, THEN mp, OF g', unfolded args]
    obtain client response acc where
      "generateContent demo_platform (ticks ready_world) client
         (generate_parameters demo_platform (demo_request ''generate_image'')) = Inr response"
      "[TextContent s1, ImageContent ''UE5H'' ''image/webp'', ImageContent ''UE5H'' ''image/png'']
         = TextContent (generate_statusText demo_platform ''a cat'' ''4:3'' ''1K'' acc)
           # map upstream_image (filter has_image (parts_of response))"
      "length (savedFiles acc) = length (filter has_image (parts_of response))"
      "writes_of (new_effects ready_world (snd demo_generate))
         = map (\<lambda>(f, part). (f, base64_decode demo_platform (image_data part)))
             (zip (savedFiles acc) (filter has_image (parts_of response)))"
      by (elim exE conjE) (rule that)
    with g show ?thesis by (intro exI conjI)
  qed
  have B: "writes_of (new_effects ready_world (snd demo_generate))
       = [(''/out/generated-2025-01-02T03-04-05-678Z-4fzyo8.png'', ''PNG''),
          (''/out/generated-2025-01-02T03-04-05-678Z-k3x9a1.png'', ''PNG'')]"
    by (simp add: new_effects_def demo_generate_def handler_defs demo_defs)
  have C: "\<exists>status client imageBuffer response acc.
      fst demo_edit
        = Inr [TextContent status, ImageContent ''UE5H'' ''image/webp'',
               ImageContent ''UE5H'' ''image/png'']
      \<and> generateContent demo_platform (ticks ready_world) client
            (edit_parameters demo_platform ready_world (demo_request ''edit_image'') imageBuffer)
          = Inr response
      \<and> [TextContent status, ImageContent ''UE5H'' ''image/webp'',
          ImageContent ''UE5H'' ''image/png'']
          = TextContent (edit_statusText demo_platform ''/in/a.png'' ''a cat''
                           (Some [''/in/missing.jpg'']) ''4:3'' ''1K'' acc)
            # map upstream_image (filter has_image (parts_of response))
      \<and> writes_of (new_effects ready_world (snd demo_edit))
          = map (\<lambda>(f, part). (f, base64_decode demo_platform (image_data part)))
              (zip (savedFiles acc) (filter has_image (parts_of response)))"
  proof -
    from successful_result_shape
      [where pf = demo_platform and w = ready_world
         and request = "demo_request ''edit_image''" and w' = "snd demo_edit"
         and result = "[TextContent s2, ImageContent ''UE5H'' ''image/webp'',
                        ImageContent ''UE5H'' ''image/png'']",
       THEN conjunct2, THEN conjunct1, THEN mp, OF e', unfolded args]
    obtain client imageBuffer response acc where
      "generateContent demo_platform (ticks ready_world) client
         (edit_parameters demo_platform ready_world (demo_request ''edit_image'') imageBuffer)
         = Inr response"
      "[TextContent s2, ImageContent ''UE5H'' ''image/webp'', ImageContent ''UE5H'' ''image/png'']
         = TextContent (edit_statusText demo_platform ''/in/a.png'' ''a cat''
                          (Some [''/in/missing.jpg'']) ''4:3'' ''1K'' acc)
           # map upstream_image (filter has_image (parts_of response))"
      "writes_of (new_effects ready_world (snd demo_edit))
         = map (\<lambda>(f, part). (f, base64_decode demo_platform (image_data part)))
             (zip (savedFiles acc) (filter has_image (parts_of response)))"
      by (elim exE conjE) (rule that)
    with e show ?thesis by (intro exI conjI)
  qed
  have D: "\<exists>status pre post.
      fst bare_generate = Inr [TextContent status]
      \<and> status = pre @ ''Note: No image was generated.'' @ post"
    using successful_result_shape
      [where pf = bare_platform and w = ready_world
         and request = "demo_request ''generate_image''" and w' = "snd bare_generate"
         and result = "[TextContent s3]", THEN conjunct1, THEN mp, OF b']
  proof (elim exE conjE)
    fix client response acc
    assume r: "generateContent bare_platform (ticks ready_world) client
                 (generate_parameters bare_platform (demo_request ''generate_image''))
               = Inr response"
      and n: "length (savedFiles acc) = length (filter has_image (parts_of response))"
      and z: "savedFiles acc = [] \<longrightarrow>
              (\<exists>status pre post. [TextContent s3] = [TextContent status]
                 \<and> status = pre @ ''Note: No image was generated.'' @ post)"
    from r have "response = bare_response"
      by (simp add: bare_platform_def demo_platform_def)
    then have "filter has_image (parts_of response) = []"
      by (simp add: bare_response_def parts_of_def response_parts_def has_image_def truthy_def)
    with n z b show ?thesis by auto
  qed
  have m: "declared_mimeType image_part = Some ''image/webp''"
    by (simp add: declared_mimeType_def image_part_def)
  have E: "upstream_image image_part = ImageContent ''UE5H'' ''image/webp''"
    using m successful_result_shape [where part = image_part and t = "''image/webp''"]
    by (simp add: image_data_def image_part_def default_to_def)
  have c: "ensureConfigured (session ready_world)"
    "genAI (session ready_world) = Some (GoogleGenAI ''k'')"
    by (simp_all add: ensureConfigured_def demo_defs)
  have u: "generateContent bare_platform t cl ps = Inr bare_response" for t cl ps
    by (simp add: demo_defs)
  have z: "filter has_image (parts_of bare_response) = []"
    by (simp add: bare_response_def parts_of_def response_parts_def has_image_def truthy_def)
  have k: "mkdir_refused bare_platform (getImagesDirectory bare_platform) = None"
    "nodes ready_world (getImagesDirectory bare_platform) = None"
    by (simp_all add: getImagesDirectory_def truthy_def default_to_def demo_defs)
  then have k': "\<forall>b m. nodes ready_world (getImagesDirectory bare_platform) \<noteq> Some (File b m)"
    by simp
  have rd: "fs_readFile ready_world (imagePath (arguments (demo_request ''edit_image'')))
              = Inr ''PNG''"
    by (simp add: fs_readFile_def demo_defs)
  have F: "\<exists>status pre post w''.
         generateImage bare_platform ready_world (demo_request ''generate_image'')
           = (Inr [TextContent status], w'')
         \<and> status = pre @ ''Note: No image was generated.'' @ post"
    using c u z k(1) k' successful_result_shape
      [where pf = bare_platform and w = ready_world and client = "GoogleGenAI ''k''"
         and request = "demo_request ''generate_image''" and response = bare_response]
    by blast
  have G: "\<exists>status pre post w''.
         editImage bare_platform ready_world (demo_request ''edit_image'')
           = (Inr [TextContent status], w'')
         \<and> status = pre @ ''Note: No edited image was generated.'' @ post"
    using c u z k(1) k' rd successful_result_shape
      [where pf = bare_platform and w = ready_world and client = "GoogleGenAI ''k''"
         and request = "demo_request ''edit_image''" and response = bare_response
         and imageBuffer = "''PNG''"]
    by blast
  from A B C D m E c u z k F rd G show ?thesis
    by (intro conjI)
qed

section \<open>Reference images that cannot be read\<close>

lemma read_references_map_filter:
  "read_references pf w refs imageParts
     = imageParts @ List.map_filter (reference_part pf w) refs"
  by (induction refs arbitrary: imageParts)
    (simp_all add: List.map_filter_simps reference_part_def split: sum.splits)

lemma map_filter_readable:
  "List.map_filter (reference_part pf w) (filter (readable w) refs)
     = List.map_filter (reference_part pf w) refs"
  by (induction refs)
    (simp_all add: List.map_filter_simps reference_part_def readable_def split: sum.splits)

lemma edit_imageParts_explicit:
  "edit_imageParts pf w imagePath' imageBuffer referenceImages' prompt'
     = InlineDataPart (base64_encode pf imageBuffer) (getMimeType imagePath')
       # List.map_filter (reference_part pf w)
           (case referenceImages' of None \<Rightarrow> [] | Some refs \<Rightarrow> refs)
       @ [TextPart prompt']"
  by (cases referenceImages')
    (auto simp add: edit_imageParts_def read_references_map_filter List.map_filter_simps Let_def)

lemma edit_imageParts_readable:
  "edit_imageParts pf w imagePath' imageBuffer (Some (filter (readable w) refs)) prompt'
     = edit_imageParts pf w imagePath' imageBuffer (Some refs) prompt'"
  by (simp add: edit_imageParts_explicit map_filter_readable)

lemma editImage_try_readable:
  "snd (editImage_try pf w imagePath' prompt' (Some (filter (readable w) refs)) aspectRatio'
          imageSize')
     = snd (editImage_try pf w imagePath' prompt' (Some refs) aspectRatio' imageSize')
   \<and> map_sum id tl (fst (editImage_try pf w imagePath' prompt' (Some (filter (readable w) refs))
                            aspectRatio' imageSize'))
     = map_sum id tl (fst (editImage_try pf w imagePath' prompt' (Some refs) aspectRatio'
                             imageSize'))"
  unfolding editImage_try_def Let_def edit_imageParts_readable
  by (simp split: sum.splits prod.splits)

lemma editImage_readable:
  assumes "referenceImages (arguments request) = Some refs"
  shows "snd (editImage pf w
                (request\<lparr>arguments := (arguments request)
                           \<lparr>referenceImages := Some (filter (readable w) refs)\<rparr>\<rparr>))
           = snd (editImage pf w request)
         \<and> images_of (fst (editImage pf w
                (request\<lparr>arguments := (arguments request)
                           \<lparr>referenceImages := Some (filter (readable w) refs)\<rparr>\<rparr>)))
           = images_of (fst (editImage pf w request))"
proof -
  let ?a = "editImage_try pf w (imagePath (arguments request)) (prompt (arguments request))
              (Some (filter (readable w) refs))
              (default_to (aspectRatio (arguments request)) ''4:3'')
              (default_to (imageSize (arguments request)) ''1K'')"
  let ?b = "editImage_try pf w (imagePath (arguments request)) (prompt (arguments request))
              (Some refs)
              (default_to (aspectRatio (arguments request)) ''4:3'')
              (default_to (imageSize (arguments request)) ''1K'')"
  obtain ra wa where a: "?a = (ra, wa)" by (cases ?a)
  obtain rb wb where b: "?b = (rb, wb)" by (cases ?b)
  from editImage_try_readable [of pf w "imagePath (arguments request)"
      "prompt (arguments request)" refs "default_to (aspectRatio (arguments request)) ''4:3''"
      "default_to (imageSize (arguments request)) ''1K''"] a b
  have same: "wa = wb" "map_sum id tl ra = map_sum id tl rb"
    by simp_all
  show ?thesis
  proof (cases "ensureConfigured (session w)")
    case False
    then show ?thesis by (simp add: editImage_def)
  next
    case True
    with a b same assms show ?thesis
      by (cases ra; cases rb) (simp_all add: editImage_def images_of_def Let_def)
  qed
qed

lemma editImage_upstream_call:
  assumes conf: "ensureConfigured (session w)"
    and rd: "fs_readFile w (imagePath (arguments request)) = Inr imageBuffer"
  shows "\<exists>client es. genAI (session w) = Some client
           \<and> new_effects w (snd (editImage pf w request))
               = Called client (edit_parameters pf w request imageBuffer) # es"
proof -
  from conf obtain client where c: "genAI (session w) = Some client"
    by (auto simp add: ensureConfigured_def)
  let ?params = "edit_parameters pf w request imageBuffer"
  let ?w1 = "w\<lparr>effects := effects w @ [Called client ?params], ticks := Suc (ticks w)\<rparr>"
  let ?rest = "case fs_mkdir pf ?w1 (getImagesDirectory pf) of
                 (Inl e, w2) \<Rightarrow> (Inl e :: js_thrown + CallToolResult, w2)
               | (Inr u, w2) \<Rightarrow>
                   (case for_each (edit_part pf (getImagesDirectory pf))
                           (case response_parts
                                   (projr (generateContent pf (ticks w) client ?params)) of
                              None \<Rightarrow> [] | Some ps \<Rightarrow> ps)
                           empty_acc w2 of
                      (Inl e, w3) \<Rightarrow> (Inl e, w3)
                    | (Inr acc, w3) \<Rightarrow>
                        (Inr (TextContent
                                (edit_statusText pf (imagePath (arguments request))
                                   (prompt (arguments request))
                                   (referenceImages (arguments request))
                                   (default_to (aspectRatio (arguments request)) ''4:3'')
                                   (default_to (imageSize (arguments request)) ''1K'') acc)
                              # acc_content acc), w3))"
  have k: "keeps_or_sets ?w1 (snd ?rest)"
    by (rule saved_response_keeps_or_sets [OF edit_part_saving])
  then obtain es where es: "effects (snd ?rest) = effects ?w1 @ es"
    unfolding keeps_or_sets_def by blast
  have "snd (editImage pf w request) = ?w1 \<or> snd (editImage pf w request) = snd ?rest"
    using conf rd c
    by (cases "generateContent pf (ticks w) client ?params")
      (simp_all add: editImage_def editImage_try_def models_generateContent_def
        edit_parameters_def Let_def split: prod.splits sum.splits)
  then have "\<exists>es'. effects (snd (editImage pf w request))
               = effects w @ Called client ?params # es'"
    using es by auto
  then show ?thesis
    using c by (auto simp add: new_effects_def)
qed

text \<open>
  Claim C6. In \<open>editImage\<close> every reference path is read on its own. A path that cannot
  be read adds nothing to the request, a path that can be read adds its image: the one
  upstream call of a configured session with a readable main image carries the main
  image, the images of the readable references in their order, and the prompt. The
  unreadable references change nothing else: the call leaves the same world, and throws
  the same error or returns the same images, as the call without them; so it succeeds
  whenever that call does. When the main image cannot be read the call throws, an
  internal error with the text of the failure in a configured session, and the world is
  as before.
\<close>

theorem unreadable_references_skipped:
  "(ensureConfigured (session w) \<and> fs_readFile w (imagePath (arguments request)) = Inr imageBuffer
      \<longrightarrow> (\<exists>client es. new_effects w (snd (editImage pf w request))
                          = Called client (edit_parameters pf w request imageBuffer) # es)
          \<and> contents (edit_parameters pf w request imageBuffer)
              = PartsList (InlineDataPart (base64_encode pf imageBuffer)
                             (getMimeType (imagePath (arguments request)))
                           # List.map_filter (reference_part pf w)
                               (case referenceImages (arguments request) of
                                  None \<Rightarrow> [] | Some refs \<Rightarrow> refs)
                           @ [TextPart (prompt (arguments request))]))
   \<and> (fs_readFile w refPath = Inl e' \<longrightarrow> reference_part pf w refPath = None)
   \<and> (fs_readFile w refPath = Inr refBuffer \<longrightarrow>
        reference_part pf w refPath
          = Some (InlineDataPart (base64_encode pf refBuffer) (getMimeType refPath)))
   \<and> (referenceImages (arguments request) = Some refs \<longrightarrow>
        snd (editImage pf w
               (request\<lparr>arguments := (arguments request)
                          \<lparr>referenceImages := Some (filter (readable w) refs)\<rparr>\<rparr>))
          = snd (editImage pf w request)
        \<and> images_of (fst (editImage pf w
               (request\<lparr>arguments := (arguments request)
                          \<lparr>referenceImages := Some (filter (readable w) refs)\<rparr>\<rparr>)))
          = images_of (fst (editImage pf w request)))
   \<and> (fs_readFile w (imagePath (arguments request)) = Inl e \<longrightarrow>
        (\<exists>code message. editImage pf w request = (Inl (McpError code message), w))
        \<and> (ensureConfigured (session w) \<longrightarrow>
             editImage pf w request
               = (Inl (McpError InternalError (''Failed to edit image: '' @ error_text e)), w)))"
proof (intro conjI impI)
  assume "ensureConfigured (session w)
          \<and> fs_readFile w (imagePath (arguments request)) = Inr imageBuffer"
  then show "\<exists>client es. new_effects w (snd (editImage pf w request))
                          = Called client (edit_parameters pf w request imageBuffer) # es"
    using editImage_upstream_call [of w request imageBuffer pf] by blast
next
  show "contents (edit_parameters pf w request imageBuffer)
              = PartsList (InlineDataPart (base64_encode pf imageBuffer)
                             (getMimeType (imagePath (arguments request)))
                           # List.map_filter (reference_part pf w)
                               (case referenceImages (arguments request) of
                                  None \<Rightarrow> [] | Some refs \<Rightarrow> refs)
                           @ [TextPart (prompt (arguments request))])"
    by (simp add: edit_parameters_def edit_imageParts_explicit)
next
  assume "fs_readFile w refPath = Inl e'"
  then show "reference_part pf w refPath = None"
    by (simp add: reference_part_def)
next
  assume "fs_readFile w refPath = Inr refBuffer"
  then show "reference_part pf w refPath
          = Some (InlineDataPart (base64_encode pf refBuffer) (getMimeType refPath))"
    by (simp add: reference_part_def)
next
  assume r: "referenceImages (arguments request) = Some refs"
  from editImage_readable [OF r, of pf w]
  show "snd (editImage pf w
               (request\<lparr>arguments := (arguments request)
                          \<lparr>referenceImages := Some (filter (readable w) refs)\<rparr>\<rparr>))
          = snd (editImage pf w request)"
    by blast
  from editImage_readable [OF r, of pf w]
  show "images_of (fst (editImage pf w
               (request\<lparr>arguments := (arguments request)
                          \<lparr>referenceImages := Some (filter (readable w) refs)\<rparr>\<rparr>)))
          = images_of (fst (editImage pf w request))"
    by blast
next
  assume f: "fs_readFile w (imagePath (arguments request)) = Inl e"
  then show "\<exists>code message. editImage pf w request = (Inl (McpError code message), w)"
    by (simp add: editImage_def editImage_try_def)
  assume "ensureConfigured (session w)"
  with f show "editImage pf w request
               = (Inl (McpError InternalError (''Failed to edit image: '' @ error_text e)), w)"
    by (simp add: editImage_def editImage_try_def)
qed

theorem unreadable_references_skipped_witness:
  "ensureConfigured (session ready_world)
   \<and> fs_readFile ready_world (imagePath (arguments mixed_request)) = Inr ''PNG''
   \<and> fs_readFile ready_world ''/in/missing.jpg''
       = Inl (JsError (''ENOENT: no such file or directory, open ''
                       @ [CHR 0x27] @ ''/in/missing.jpg'' @ [CHR 0x27]))
   \<and> reference_part demo_platform ready_world ''/in/missing.jpg'' = None
   \<and> reference_part demo_platform ready_world ''/in/a.png''
       = Some (InlineDataPart ''UE5H'' ''image/png'')
   \<and> (\<exists>client es. new_effects ready_world (snd (editImage demo_platform ready_world mixed_request))
          = Called client (edit_parameters demo_platform ready_world mixed_request ''PNG'') # es)
   \<and> contents (edit_parameters demo_platform ready_world mixed_request ''PNG'')
       = PartsList [InlineDataPart ''UE5H'' ''image/png'', InlineDataPart ''UE5H'' ''image/png'',
                    TextPart ''a cat'']
   \<and> (\<exists>status. fst (editImage demo_platform ready_world mixed_request)
          = Inr [TextContent status, ImageContent ''UE5H'' ''image/webp'',
                 ImageContent ''UE5H'' ''image/png''])
   \<and> filter (readable ready_world) [''/in/missing.jpg'', ''/in/a.png''] = [''/in/a.png'']
   \<and> snd (editImage demo_platform ready_world
              (mixed_request\<lparr>arguments := (arguments mixed_request)
                               \<lparr>referenceImages := Some [''/in/a.png'']\<rparr>\<rparr>))
       = snd (editImage demo_platform ready_world mixed_request)
   \<and> fs_readFile ready_world (imagePath (arguments lost_request))
       = Inl (JsError (''ENOENT: no such file or directory, open ''
                       @ [CHR 0x27] @ ''/in/none.png'' @ [CHR 0x27]))
   \<and> editImage demo_platform ready_world lost_request
       = (Inl (McpError InternalError
                 (''Failed to edit image: ENOENT: no such file or directory, open ''
                  @ [CHR 0x27] @ ''/in/none.png'' @ [CHR 0x27])), ready_world)"
proof -
  have c: "ensureConfigured (session ready_world)"
    by (simp add: ensureConfigured_def demo_defs)
  have r: "fs_readFile ready_world (imagePath (arguments mixed_request)) = Inr ''PNG''"
    by (simp add: fs_readFile_def demo_defs)
  have m: "fs_readFile ready_world ''/in/missing.jpg''
       = Inl (JsError (''ENOENT: no such file or directory, open ''
                       @ [CHR 0x27] @ ''/in/missing.jpg'' @ [CHR 0x27]))"
    by (simp add: fs_readFile_def demo_defs)
  have a: "fs_readFile ready_world ''/in/a.png'' = Inr ''PNG''"
    by (simp add: fs_readFile_def demo_defs)
  have l: "fs_readFile ready_world (imagePath (arguments lost_request))
       = Inl (JsError (''ENOENT: no such file or directory, open ''
                       @ [CHR 0x27] @ ''/in/none.png'' @ [CHR 0x27]))"
    by (simp add: fs_readFile_def demo_defs)
  have refs: "referenceImages (arguments mixed_request) = Some [''/in/missing.jpg'', ''/in/a.png'']"
    by (simp add: mixed_request_def)
  have f: "filter (readable ready_world) [''/in/missing.jpg'', ''/in/a.png''] = [''/in/a.png'']"
    by (simp add: readable_def m a)
  have ok: "\<exists>status. fst (editImage demo_platform ready_world mixed_request)
          = Inr [TextContent status, ImageContent ''UE5H'' ''image/webp'',
                 ImageContent ''UE5H'' ''image/png'']"
    by (simp add: handler_defs demo_defs getMimeType_defs)
  note T1 = unreadable_references_skipped
    [where w = ready_world and pf = demo_platform and request = mixed_request
       and imageBuffer = "''PNG''" and refPath = "''/in/missing.jpg''"
       and refs = "[''/in/missing.jpg'', ''/in/a.png'']"]
  note T2 = unreadable_references_skipped
    [where w = ready_world and pf = demo_platform and request = mixed_request
       and imageBuffer = "''PNG''" and refPath = "''/in/a.png''" and refBuffer = "''PNG''"]
  note T3 = unreadable_references_skipped
    [where w = ready_world and pf = demo_platform and request = lost_request]
  have A: "reference_part demo_platform ready_world ''/in/missing.jpg'' = None"
    using T1 m by blast
  have B: "reference_part demo_platform ready_world ''/in/a.png''
       = Some (InlineDataPart (base64_encode demo_platform ''PNG'') (getMimeType ''/in/a.png''))"
    using T2 a by blast
  have C: "\<exists>client es. new_effects ready_world (snd (editImage demo_platform ready_world mixed_request))
          = Called client (edit_parameters demo_platform ready_world mixed_request ''PNG'') # es"
    using T1 c r by blast
  have D: "contents (edit_parameters demo_platform ready_world mixed_request ''PNG'')
       = PartsList (InlineDataPart (base64_encode demo_platform ''PNG'')
                      (getMimeType (imagePath (arguments mixed_request)))
                    # List.map_filter (reference_part demo_platform ready_world)
                        (case referenceImages (arguments mixed_request) of
                           None \<Rightarrow> [] | Some refs \<Rightarrow> refs)
                    @ [TextPart (prompt (arguments mixed_request))])"
    using T1 c r by blast
  have E: "snd (editImage demo_platform ready_world
              (mixed_request\<lparr>arguments := (arguments mixed_request)
                 \<lparr>referenceImages := Some (filter (readable ready_world)
                                            [''/in/missing.jpg'', ''/in/a.png''])\<rparr>\<rparr>))
       = snd (editImage demo_platform ready_world mixed_request)"
    using T1 refs by blast
  have F: "editImage demo_platform ready_world lost_request
       = (Inl (McpError InternalError
                 (''Failed to edit image: ''
                  @ error_text (JsError (''ENOENT: no such file or directory, open ''
                                         @ [CHR 0x27] @ ''/in/none.png'' @ [CHR 0x27])))),
          ready_world)"
    using T3 [where e = "JsError (''ENOENT: no such file or directory, open ''
                                  @ [CHR 0x27] @ ''/in/none.png'' @ [CHR 0x27])"] l c
    by blast
  have B': "reference_part demo_platform ready_world ''/in/a.png''
       = Some (InlineDataPart ''UE5H'' ''image/png'')"
    using B by (simp add: demo_platform_def getMimeType_defs)
  have D': "contents (edit_parameters demo_platform ready_world mixed_request ''PNG'')
       = PartsList [InlineDataPart ''UE5H'' ''image/png'', InlineDataPart ''UE5H'' ''image/png'',
                    TextPart ''a cat'']"
    using D A B' by (simp add: refs List.map_filter_simps mixed_request_def demo_platform_def
        getMimeType_defs)
  have F': "editImage demo_platform ready_world lost_request
       = (Inl (McpError InternalError
                 (''Failed to edit image: ENOENT: no such file or directory, open ''
                  @ [CHR 0x27] @ ''/in/none.png'' @ [CHR 0x27])), ready_world)"
    using F by (simp add: error_text_def)
  from c r m A B' C D' ok f E l F' show ?thesis
    unfolding f by (intro conjI)
qed

section \<open>The file a round of the loop saves\<close>

lemma generate_part_image:
  assumes "has_image part"
  shows "generate_part pf imagesDir part acc w
         = (case fs_writeFile pf (w\<lparr>ticks := Suc (ticks w)\<rparr>)
                   (saved_path pf ''generated'' imagesDir (ticks w))
                   (base64_decode pf (image_data part)) of
              (Inl e, w2) \<Rightarrow> (Inl e, w2)
            | (Inr u, w2) \<Rightarrow>
                (Inr ((if truthy (part_text part)
                       then acc\<lparr>textContent := textContent acc @ default_to (part_text part) []\<rparr>
                       else acc)
                      \<lparr>savedFiles := savedFiles acc
                                      @ [saved_path pf ''generated'' imagesDir (ticks w)],
                       acc_content := acc_content acc @ [upstream_image part]\<rparr>),
                 w2\<lparr>session := (session w2)
                       \<lparr>lastImagePath := Some (saved_path pf ''generated'' imagesDir (ticks w))\<rparr>\<rparr>))"
  using assms
  by (auto simp add: generate_part_def has_image_def image_data_def upstream_image_def
      declared_mimeType_def saved_path_def Let_def split: prod.splits sum.splits)

lemma edit_part_image:
  assumes "has_image part"
  shows "edit_part pf imagesDir part acc w
         = (case fs_writeFile pf (w\<lparr>ticks := Suc (ticks w)\<rparr>)
                   (saved_path pf ''edited'' imagesDir (ticks w))
                   (base64_decode pf (image_data part)) of
              (Inl e, w2) \<Rightarrow> (Inl e, w2)
            | (Inr u, w2) \<Rightarrow>
                (Inr ((if truthy (part_text part)
                       then acc\<lparr>textContent := textContent acc @ default_to (part_text part) []\<rparr>
                       else acc)
                      \<lparr>savedFiles := savedFiles acc
                                      @ [saved_path pf ''edited'' imagesDir (ticks w)],
                       acc_content := acc_content acc @ [upstream_image part]\<rparr>),
                 w2\<lparr>session := (session w2)
                       \<lparr>lastImagePath := Some (saved_path pf ''edited'' imagesDir (ticks w))\<rparr>\<rparr>))"
  using assms
  by (auto simp add: edit_part_def has_image_def image_data_def upstream_image_def
      declared_mimeType_def saved_path_def truthy_def Let_def
      split: option.splits prod.splits sum.splits)

lemma fs_writeFile_cases:
  "fs_writeFile pf w p b
     = (if writeFile_refused pf p = None \<and> (\<forall>n m. nodes w p \<noteq> Some (Directory n m))
        then (Inr (), w\<lparr>nodes := (nodes w)(p \<mapsto> File b (mtime_toLocaleString pf (ticks w))),
                        effects := effects w @ [Wrote p b]\<rparr>)
        else (Inl (case writeFile_refused pf p of
                     Some e \<Rightarrow> e
                   | None \<Rightarrow> JsError (''EISDIR: illegal operation on a directory, open ''
                                       @ [CHR 0x27] @ p @ [CHR 0x27])), w))"
  by (auto simp add: fs_writeFile_def split: option.splits Node.splits)

text \<open>
  Claim C7, as the code has it. For a part with image data, a round of the loop of
  \<open>generateImage\<close> makes the name \<^verbatim>\<open>generated-T-R.png\<close>, one of \<open>editImage\<close> the name
  \<^verbatim>\<open>edited-T-R.png\<close>: \<open>T\<close> is the ISO time stamp with every colon and dot replaced by a
  dash, \<open>R\<close> the characters 2 to 7 of the random number in base 36, six characters when
  that text has eight or more and fewer otherwise. The path is the join of the save
  directory and the name. Unless the file system refuses the write (or a directory is
  in the way), the round ends well: the bytes decoded from the part are at that path,
  the path is the last of the saved files, and it is the last image path of the session.
\<close>

theorem image_part_saved:
  "saved_path pf ''generated'' imagesDir t
     = path_join pf [imagesDir, ''generated-'' @ new_timestamp pf t @ ''-'' @ new_randomId pf t
                                @ ''.png'']
   \<and> saved_path pf ''edited'' imagesDir t
     = path_join pf [imagesDir, ''edited-'' @ new_timestamp pf t @ ''-'' @ new_randomId pf t
                                @ ''.png'']
   \<and> new_timestamp pf t
     = map (\<lambda>c. if c = CHR '':'' \<or> c = CHR ''.'' then CHR ''-'' else c) (toISOString pf t)
   \<and> CHR '':'' \<notin> set (new_timestamp pf t) \<and> CHR ''.'' \<notin> set (new_timestamp pf t)
   \<and> new_randomId pf t = take 6 (drop 2 (random_toString36 pf t))
   \<and> length (new_randomId pf t) \<le> 6
   \<and> (8 \<le> length (random_toString36 pf t) \<longrightarrow> length (new_randomId pf t) = 6)
   \<and> (has_image part
        \<and> (body = generate_part pf imagesDir \<and> p = saved_path pf ''generated'' imagesDir (ticks w)
            \<or> body = edit_part pf imagesDir \<and> p = saved_path pf ''edited'' imagesDir (ticks w))
        \<and> writeFile_refused pf p = None \<and> (\<forall>n m. nodes w p \<noteq> Some (Directory n m))
        \<longrightarrow> (\<exists>acc' w'. body part acc w = (Inr acc', w')
               \<and> savedFiles acc' = savedFiles acc @ [p]
               \<and> effects w' = effects w @ [Wrote p (base64_decode pf (image_data part))]
               \<and> (\<exists>m. nodes w' p = Some (File (base64_decode pf (image_data part)) m))
               \<and> lastImagePath (session w') = Some p))"
proof -
  have names: "saved_path pf ''generated'' imagesDir t
     = path_join pf [imagesDir, ''generated-'' @ new_timestamp pf t @ ''-'' @ new_randomId pf t
                                @ ''.png'']"
    "saved_path pf ''edited'' imagesDir t
     = path_join pf [imagesDir, ''edited-'' @ new_timestamp pf t @ ''-'' @ new_randomId pf t
                                @ ''.png'']"
    by (simp_all add: saved_path_def)
  have stamp: "new_timestamp pf t
     = map (\<lambda>c. if c = CHR '':'' \<or> c = CHR ''.'' then CHR ''-'' else c) (toISOString pf t)"
    "CHR '':'' \<notin> set (new_timestamp pf t)" "CHR ''.'' \<notin> set (new_timestamp pf t)"
    by (auto simp add: new_timestamp_def)
  have suffix: "new_randomId pf t = take 6 (drop 2 (random_toString36 pf t))"
    "length (new_randomId pf t) \<le> 6"
    "8 \<le> length (random_toString36 pf t) \<longrightarrow> length (new_randomId pf t) = 6"
    by (auto simp add: new_randomId_def substring_def)
  have round: "has_image part
        \<and> (body = generate_part pf imagesDir \<and> p = saved_path pf ''generated'' imagesDir (ticks w)
            \<or> body = edit_part pf imagesDir \<and> p = saved_path pf ''edited'' imagesDir (ticks w))
        \<and> writeFile_refused pf p = None \<and> (\<forall>n m. nodes w p \<noteq> Some (Directory n m))
        \<longrightarrow> (\<exists>acc' w'. body part acc w = (Inr acc', w')
               \<and> savedFiles acc' = savedFiles acc @ [p]
               \<and> effects w' = effects w @ [Wrote p (base64_decode pf (image_data part))]
               \<and> (\<exists>m. nodes w' p = Some (File (base64_decode pf (image_data part)) m))
               \<and> lastImagePath (session w') = Some p)"
    by (auto simp add: generate_part_image edit_part_image fs_writeFile_cases)
  from names stamp suffix round show ?thesis
    by (intro conjI)
qed

theorem image_part_saved_witness:
  "has_image image_part
   \<and> writeFile_refused demo_platform ''/out/generated-2025-01-02T03-04-05-678Z-4fzyo8.png'' = None
   \<and> writeFile_refused demo_platform ''/out/edited-2025-01-02T03-04-05-678Z-4fzyo8.png'' = None
   \<and> new_timestamp demo_platform 1 = ''2025-01-02T03-04-05-678Z''
   \<and> 8 \<le> length (random_toString36 demo_platform 1)
   \<and> new_randomId demo_platform 1 = ''4fzyo8''
   \<and> length (new_randomId demo_platform 1) = 6
   \<and> (\<exists>acc' w'. generate_part demo_platform ''/out'' image_part empty_acc ticking_world
                    = (Inr acc', w')
         \<and> savedFiles acc' = [''/out/generated-2025-01-02T03-04-05-678Z-4fzyo8.png'']
         \<and> effects w' = [Wrote ''/out/generated-2025-01-02T03-04-05-678Z-4fzyo8.png'' ''PNG'']
         \<and> (\<exists>m. nodes w' ''/out/generated-2025-01-02T03-04-05-678Z-4fzyo8.png''
                  = Some (File ''PNG'' m))
         \<and> lastImagePath (session w')
             = Some ''/out/generated-2025-01-02T03-04-05-678Z-4fzyo8.png'')
   \<and> (\<exists>acc' w'. edit_part demo_platform ''/out'' image_part empty_acc ticking_world
                    = (Inr acc', w')
         \<and> savedFiles acc' = [''/out/edited-2025-01-02T03-04-05-678Z-4fzyo8.png'']
         \<and> effects w' = [Wrote ''/out/edited-2025-01-02T03-04-05-678Z-4fzyo8.png'' ''PNG'']
         \<and> (\<exists>m. nodes w' ''/out/edited-2025-01-02T03-04-05-678Z-4fzyo8.png''
                  = Some (File ''PNG'' m))
         \<and> lastImagePath (session w')
             = Some ''/out/edited-2025-01-02T03-04-05-678Z-4fzyo8.png'')"
proof -
  have i: "has_image image_part"
    by (simp add: has_image_def image_part_def truthy_def)
  have d: "base64_decode demo_platform (image_data image_part) = ''PNG''"
    by (simp add: image_data_def image_part_def default_to_def demo_platform_def)
  have r: "8 \<le> length (random_toString36 demo_platform 1)"
    by (simp add: demo_platform_def)
  have g: "saved_path demo_platform ''generated'' ''/out'' (ticks ticking_world)
             = ''/out/generated-2025-01-02T03-04-05-678Z-4fzyo8.png''"
    and e: "saved_path demo_platform ''edited'' ''/out'' (ticks ticking_world)
             = ''/out/edited-2025-01-02T03-04-05-678Z-4fzyo8.png''"
    and t: "new_timestamp demo_platform 1 = ''2025-01-02T03-04-05-678Z''"
    and s: "new_randomId demo_platform 1 = ''4fzyo8''"
    by (simp_all add: saved_path_def new_timestamp_def new_randomId_def substring_def demo_defs)
  have free: "writeFile_refused demo_platform q = None"
    "\<forall>n m. nodes ticking_world ''/out/generated-2025-01-02T03-04-05-678Z-4fzyo8.png''
              \<noteq> Some (Directory n m)"
    "\<forall>n m. nodes ticking_world ''/out/edited-2025-01-02T03-04-05-678Z-4fzyo8.png''
              \<noteq> Some (Directory n m)" for q
    by (simp_all add: demo_defs)
  have none: "savedFiles empty_acc = []" "effects ticking_world = []"
    by (simp_all add: empty_acc_def demo_defs)
  note T = image_part_saved [where pf = demo_platform and imagesDir = "''/out''" and t = 1
      and part = image_part and acc = empty_acc and w = ticking_world]
  have G: "\<exists>acc' w'. generate_part demo_platform ''/out'' image_part empty_acc ticking_world
                    = (Inr acc', w')
         \<and> savedFiles acc' = [''/out/generated-2025-01-02T03-04-05-678Z-4fzyo8.png'']
         \<and> effects w' = [Wrote ''/out/generated-2025-01-02T03-04-05-678Z-4fzyo8.png'' ''PNG'']
         \<and> (\<exists>m. nodes w' ''/out/generated-2025-01-02T03-04-05-678Z-4fzyo8.png''
                  = Some (File ''PNG'' m))
         \<and> lastImagePath (session w')
             = Some ''/out/generated-2025-01-02T03-04-05-678Z-4fzyo8.png''"
    using T [where body = "generate_part demo_platform ''/out''"
        and p = "''/out/generated-2025-01-02T03-04-05-678Z-4fzyo8.png''"] i free
    unfolding g e d none by simp
  have E: "\<exists>acc' w'. edit_part demo_platform ''/out'' image_part empty_acc ticking_world
                    = (Inr acc', w')
         \<and> savedFiles acc' = [''/out/edited-2025-01-02T03-04-05-678Z-4fzyo8.png'']
         \<and> effects w' = [Wrote ''/out/edited-2025-01-02T03-04-05-678Z-4fzyo8.png'' ''PNG'']
         \<and> (\<exists>m. nodes w' ''/out/edited-2025-01-02T03-04-05-678Z-4fzyo8.png''
                  = Some (File ''PNG'' m))
         \<and> lastImagePath (session w')
             = Some ''/out/edited-2025-01-02T03-04-05-678Z-4fzyo8.png''"
    using T [where body = "edit_part demo_platform ''/out''"
        and p = "''/out/edited-2025-01-02T03-04-05-678Z-4fzyo8.png''"] i free
    unfolding g e d none by simp
  have L: "length (new_randomId demo_platform 1) = 6"
    using T r by blast
  from i free(1) t r s L G E show ?thesis
    by (intro conjI)
qed

text \<open>
  Claim C7 as the specification words it has the prefixes \<^verbatim>\<open>generate\<close> and \<^verbatim>\<open>edit\<close> and a
  suffix of exactly six characters. The names the handlers make start with
  \<^verbatim>\<open>generated-\<close> and \<^verbatim>\<open>edited-\<close>, and when the random number is one half the suffix is
  the one character \<^verbatim>\<open>i\<close>.
\<close>

theorem saved_name_differs:
  "lastImagePath (session (snd (generateImage half_platform ready_world
                                  (demo_request ''generate_image''))))
     = Some ''/out/generated-2025-01-02T03-04-05-678Z-i.png''
   \<and> lastImagePath (session (snd (editImage half_platform ready_world
                                    (demo_request ''edit_image''))))
     = Some ''/out/edited-2025-01-02T03-04-05-678Z-i.png''
   \<and> random_toString36 half_platform 2 = ''0.i''
   \<and> new_randomId half_platform 2 = ''i''
   \<and> \<not> startsWith ''generated-2025-01-02T03-04-05-678Z-i.png'' ''generate-''
   \<and> \<not> startsWith ''edited-2025-01-02T03-04-05-678Z-i.png'' ''edit-''"
  by (simp add: handler_defs demo_defs getMimeType_defs)

section \<open>The last image, after a save\<close>

lemma image_call_done_last:
  assumes d: "image_call_done pf w w' client params ps acc"
    and n: "writes_of (new_effects w w') \<noteq> []"
  shows "\<exists>p b m. last (writes_of (new_effects w w')) = (p, b)
           \<and> lastImagePath (session w') = Some p
           \<and> nodes w' p = Some (File b m)"
proof -
  let ?imgs = "filter has_image ps"
  from image_call_done_effects [OF d] have
    ws: "writes_of (new_effects w w')
           = map (\<lambda>(f, part). (f, base64_decode pf (image_data part)))
               (zip (savedFiles acc) ?imgs)"
    by blast
  from d have len: "length (savedFiles acc) = length ?imgs"
    by (simp add: image_call_done_def)
  from ws n have z: "zip (savedFiles acc) ?imgs \<noteq> []"
    by auto
  with len have ne: "savedFiles acc \<noteq> []" "?imgs \<noteq> []"
    by auto
  from ne len have lz: "last (zip (savedFiles acc) ?imgs) = (last (savedFiles acc), last ?imgs)"
    by (simp add: last_zip)
  from ws z lz have l: "last (writes_of (new_effects w w'))
      = (last (savedFiles acc), base64_decode pf (image_data (last ?imgs)))"
    by (simp add: last_map)
  from d ne obtain m where
    "session w' = (session w)\<lparr>lastImagePath := Some (last (savedFiles acc))\<rparr>"
    "nodes w' (last (savedFiles acc))
       = Some (File (base64_decode pf (image_data (last ?imgs))) m)"
    by (auto simp add: image_call_done_def)
  with l show ?thesis by simp
qed

text \<open>
  Claim C9, as the code has it. After a successful \<open>generateImage\<close> or \<open>editImage\<close> that
  wrote at least one file, and before anything else touches the file system, the last
  image path of the session is the path of the last file written, the file is on disk
  with the bytes written, and \<open>getLastImageInfo\<close> reports that path with the size of the
  file in kilobytes: the number of bytes written, divided by 1024 and rounded. (The path
  is taken to be a non-empty string, as every result of \<^verbatim>\<open>path.join\<close> is.)
\<close>

theorem last_image_info_after_save:
  assumes "generateImage pf w request = (Inr result, w')
           \<or> editImage pf w request = (Inr result, w')"
    and "writes_of (new_effects w w') \<noteq> []"
    and "fst (last (writes_of (new_effects w w'))) \<noteq> []"
  shows "\<exists>p b m. last (writes_of (new_effects w w')) = (p, b)
           \<and> lastImagePath (session w') = Some p
           \<and> nodes w' p = Some (File b m)
           \<and> fs_access w' p
           \<and> getLastImageInfo w'
               = (Inr [TextContent
                         (emoji_camera @ '' Last Image Information:''
                          @ ''\<newline>\<newline>Path: '' @ p
                          @ ''\<newline>File Size: '' @ decimal ((length b + 512) div 1024) @ '' KB''
                          @ ''\<newline>Last Modified: '' @ m
                          @ ''\<newline>\<newline>'' @ emoji_bulb
                          @ '' Use continue_editing to make further changes to this image.'')],
                  w')"
proof -
  from assms(1) have "\<exists>client params ps acc. image_call_done pf w w' client params ps acc"
  proof
    assume "generateImage pf w request = (Inr result, w')"
    from generateImage_done [OF this] show ?thesis by blast
  next
    assume "editImage pf w request = (Inr result, w')"
    from editImage_done [OF this] show ?thesis by blast
  qed
  then obtain client params ps acc where "image_call_done pf w w' client params ps acc"
    by blast
  from image_call_done_last [OF this assms(2)] obtain p b m where
    l: "last (writes_of (new_effects w w')) = (p, b)"
    and s: "lastImagePath (session w') = Some p"
    and f: "nodes w' p = Some (File b m)"
    by blast
  from l assms(3) have p: "p \<noteq> []"
    by simp
  have a: "fs_access w' p"
    using f by (simp add: fs_access_def)
  have "getLastImageInfo w'
               = (Inr [TextContent
                         (emoji_camera @ '' Last Image Information:''
                          @ ''\<newline>\<newline>Path: '' @ p
                          @ ''\<newline>File Size: '' @ decimal ((length b + 512) div 1024) @ '' KB''
                          @ ''\<newline>Last Modified: '' @ m
                          @ ''\<newline>\<newline>'' @ emoji_bulb
                          @ '' Use continue_editing to make further changes to this image.'')],
                  w')"
    using s f p
    by (simp add: getLastImageInfo_def truthy_def default_to_def fs_access_def fs_stat_def
        round_KB_def Let_def)
  with l s f a show ?thesis by blast
qed

lemma big_generate_result:
  "\<exists>status. fst big_generate
     = Inr [TextContent status, ImageContent ''UE5H'' ''image/webp'',
            ImageContent ''UE5H'' ''image/png'']"
  by (simp add: big_generate_def handler_defs demo_defs)

lemma big_generate_writes:
  "writes_of (new_effects ready_world (snd big_generate))
     = [(''/out/generated-2025-01-02T03-04-05-678Z-4fzyo8.png'', replicate 1536 (CHR 0x00)),
        (''/out/generated-2025-01-02T03-04-05-678Z-k3x9a1.png'', replicate 1536 (CHR 0x00))]"
  by (simp add: new_effects_def big_generate_def handler_defs demo_defs)

theorem last_image_info_after_save_witness:
  "(\<exists>result. generateImage big_platform ready_world (demo_request ''generate_image'')
               = (Inr result, snd big_generate))
   \<and> writes_of (new_effects ready_world (snd big_generate)) \<noteq> []
   \<and> fst (last (writes_of (new_effects ready_world (snd big_generate)))) \<noteq> []
   \<and> last (writes_of (new_effects ready_world (snd big_generate)))
       = (''/out/generated-2025-01-02T03-04-05-678Z-k3x9a1.png'', replicate 1536 (CHR 0x00))
   \<and> lastImagePath (session (snd big_generate))
       = Some ''/out/generated-2025-01-02T03-04-05-678Z-k3x9a1.png''
   \<and> fs_access (snd big_generate) ''/out/generated-2025-01-02T03-04-05-678Z-k3x9a1.png''
   \<and> (\<exists>m. nodes (snd big_generate) ''/out/generated-2025-01-02T03-04-05-678Z-k3x9a1.png''
              = Some (File (replicate 1536 (CHR 0x00)) m)
          \<and> getLastImageInfo (snd big_generate)
              = (Inr [TextContent
                        (emoji_camera @ '' Last Image Information:''
                         @ ''\<newline>\<newline>Path: /out/generated-2025-01-02T03-04-05-678Z-k3x9a1.png''
                         @ ''\<newline>File Size: 2 KB''
                         @ ''\<newline>Last Modified: '' @ m
                         @ ''\<newline>\<newline>'' @ emoji_bulb
                         @ '' Use continue_editing to make further changes to this image.'')],
                 snd big_generate))"
proof -
  from big_generate_result obtain status where
    "fst big_generate = Inr [TextContent status, ImageContent ''UE5H'' ''image/webp'',
                             ImageContent ''UE5H'' ''image/png'']"
    by blast
  then have g: "generateImage big_platform ready_world (demo_request ''generate_image'')
      = (Inr [TextContent status, ImageContent ''UE5H'' ''image/webp'',
              ImageContent ''UE5H'' ''image/png''], snd big_generate)"
    by (metis big_generate_def prod.collapse)
  have n: "writes_of (new_effects ready_world (snd big_generate)) \<noteq> []"
    and p: "fst (last (writes_of (new_effects ready_world (snd big_generate)))) \<noteq> []"
    and l: "last (writes_of (new_effects ready_world (snd big_generate)))
       = (''/out/generated-2025-01-02T03-04-05-678Z-k3x9a1.png'', replicate 1536 (CHR 0x00))"
    by (simp_all add: big_generate_writes)
  have k: "decimal ((length (replicate 1536 (CHR 0x00)) + 512) div 1024) = ''2''"
    by (simp add: decimal.simps)
  from last_image_info_after_save [OF disjI1, OF g n p] obtain q b m where
    "last (writes_of (new_effects ready_world (snd big_generate))) = (q, b)"
    and s: "lastImagePath (session (snd big_generate)) = Some q"
    and f: "nodes (snd big_generate) q = Some (File b m)"
    and a: "fs_access (snd big_generate) q"
    and i: "getLastImageInfo (snd big_generate)
               = (Inr [TextContent
                         (emoji_camera @ '' Last Image Information:''
                          @ ''\<newline>\<newline>Path: '' @ q
                          @ ''\<newline>File Size: '' @ decimal ((length b + 512) div 1024) @ '' KB''
                          @ ''\<newline>Last Modified: '' @ m
                          @ ''\<newline>\<newline>'' @ emoji_bulb
                          @ '' Use continue_editing to make further changes to this image.'')],
                  snd big_generate)"
    by blast
  with l have q: "q = ''/out/generated-2025-01-02T03-04-05-678Z-k3x9a1.png''"
    and b: "b = replicate 1536 (CHR 0x00)"
    by simp_all
  from i have "getLastImageInfo (snd big_generate)
              = (Inr [TextContent
                        (emoji_camera @ '' Last Image Information:''
                         @ ''\<newline>\<newline>Path: /out/generated-2025-01-02T03-04-05-678Z-k3x9a1.png''
                         @ ''\<newline>File Size: 2 KB''
                         @ ''\<newline>Last Modified: '' @ m
                         @ ''\<newline>\<newline>'' @ emoji_bulb
                         @ '' Use continue_editing to make further changes to this image.'')],
                 snd big_generate)"
    unfolding q b k by simp
  with f have "\<exists>m. nodes (snd big_generate) ''/out/generated-2025-01-02T03-04-05-678Z-k3x9a1.png''
              = Some (File (replicate 1536 (CHR 0x00)) m)
          \<and> getLastImageInfo (snd big_generate)
              = (Inr [TextContent
                        (emoji_camera @ '' Last Image Information:''
                         @ ''\<newline>\<newline>Path: /out/generated-2025-01-02T03-04-05-678Z-k3x9a1.png''
                         @ ''\<newline>File Size: 2 KB''
                         @ ''\<newline>Last Modified: '' @ m
                         @ ''\<newline>\<newline>'' @ emoji_bulb
                         @ '' Use continue_editing to make further changes to this image.'')],
                 snd big_generate)"
    unfolding q b by blast
  with g n p l s a show ?thesis
    unfolding q by blast
qed

text \<open>
  Claim C9 as the specification words it has the reported size equal the number of bytes
  written. Here the last file written has three bytes, and the report says
  \<^verbatim>\<open>File Size: 0 KB\<close>.
\<close>

theorem reported_size_is_in_kilobytes:
  "last (writes_of (new_effects ready_world (snd demo_generate)))
     = (''/out/generated-2025-01-02T03-04-05-678Z-k3x9a1.png'', ''PNG'')
   \<and> length ''PNG'' = 3
   \<and> fst (getLastImageInfo (snd demo_generate))
       = Inr [TextContent
                (emoji_camera @ '' Last Image Information:''
                 @ ''\<newline>\<newline>Path: /out/generated-2025-01-02T03-04-05-678Z-k3x9a1.png''
                 @ ''\<newline>File Size: 0 KB''
                 @ ''\<newline>Last Modified: 1/2/2025, 3:04:05 AM''
                 @ ''\<newline>\<newline>'' @ emoji_bulb
                 @ '' Use continue_editing to make further changes to this image.'')]"
  by (simp add: new_effects_def demo_generate_def getLastImageInfo_def round_KB_def
      decimal.simps handler_defs demo_defs)

section \<open>The last image path over the life of a session\<close>

lemma generateImage_keeps_or_sets: "keeps_or_sets w (snd (generateImage pf w request))"
proof (cases "ensureConfigured (session w)")
  case False
  then show ?thesis
    by (simp add: generateImage_def keeps_or_sets_refl)
next
  case True
  then obtain client where c: "genAI (session w) = Some client"
    by (auto simp add: ensureConfigured_def)
  let ?params = "generate_parameters pf request"
  let ?w1 = "w\<lparr>effects := effects w @ [Called client ?params], ticks := Suc (ticks w)\<rparr>"
  let ?answer = "generateContent pf (ticks w) client ?params"
  let ?rest = "case fs_mkdir pf ?w1 (getImagesDirectory pf) of
                 (Inl e, w2) \<Rightarrow> (Inl e :: js_thrown + CallToolResult, w2)
               | (Inr u, w2) \<Rightarrow>
                   (case for_each (generate_part pf (getImagesDirectory pf))
                           (case response_parts (projr ?answer) of
                              None \<Rightarrow> [] | Some ps \<Rightarrow> ps)
                           empty_acc w2 of
                      (Inl e, w3) \<Rightarrow> (Inl e, w3)
                    | (Inr acc, w3) \<Rightarrow>
                        (Inr (TextContent
                                (generate_statusText pf (prompt (arguments request))
                                   (default_to (aspectRatio (arguments request)) ''4:3'')
                                   (default_to (imageSize (arguments request)) ''1K'') acc)
                              # acc_content acc), w3))"
  have k1: "keeps_or_sets w ?w1"
    by (rule keeps_or_sets_same_session [where es = "[Called client ?params]"]) simp_all
  have "keeps_or_sets ?w1 (snd ?rest)"
    by (rule saved_response_keeps_or_sets [OF generate_part_saving])
  with k1 have k2: "keeps_or_sets w (snd ?rest)"
    by (rule keeps_or_sets_trans)
  have try_is: "generateImage_try pf w (prompt (arguments request))
                  (default_to (aspectRatio (arguments request)) ''4:3'')
                  (default_to (imageSize (arguments request)) ''1K'')
                = (case ?answer of Inl e \<Rightarrow> (Inl e, ?w1) | Inr response \<Rightarrow> ?rest)"
    using c
    by (cases ?answer)
      (simp_all add: generateImage_try_def models_generateContent_def generate_parameters_def
        Let_def split: prod.splits sum.splits)
  obtain r v where t: "generateImage_try pf w (prompt (arguments request))
                  (default_to (aspectRatio (arguments request)) ''4:3'')
                  (default_to (imageSize (arguments request)) ''1K'') = (r, v)"
    by (cases "generateImage_try pf w (prompt (arguments request))
                  (default_to (aspectRatio (arguments request)) ''4:3'')
                  (default_to (imageSize (arguments request)) ''1K'')")
  from try_is t have "v = snd (case ?answer of Inl e \<Rightarrow> (Inl e, ?w1) | Inr response \<Rightarrow> ?rest)"
    by (metis snd_conv)
  then have "v = ?w1 \<or> v = snd ?rest"
    by (cases ?answer) simp_all
  with k1 k2 have kv: "keeps_or_sets w v"
    by auto
  have "session (snd (generateImage pf w request)) = session v
        \<and> (\<exists>es. effects (snd (generateImage pf w request)) = effects v @ es)"
    using True t by (cases r) (simp_all add: generateImage_def Let_def)
  then have "keeps_or_sets v (snd (generateImage pf w request))"
    by (auto intro: keeps_or_sets_same_session)
  with kv show ?thesis
    by (rule keeps_or_sets_trans)
qed

lemma editImage_keeps_or_sets: "keeps_or_sets w (snd (editImage pf w request))"
proof (cases "ensureConfigured (session w)")
  case False
  then show ?thesis
    by (simp add: editImage_def keeps_or_sets_refl)
next
  case True
  show ?thesis
  proof (cases "fs_readFile w (imagePath (arguments request))")
    case (Inl e)
    with True show ?thesis
      by (simp add: editImage_def editImage_try_def keeps_or_sets_refl)
  next
    case (Inr imageBuffer)
    show ?thesis
    proof -
      from True obtain client where c: "genAI (session w) = Some client"
        by (auto simp add: ensureConfigured_def)
      let ?params = "edit_parameters pf w request imageBuffer"
      let ?w1 = "w\<lparr>effects := effects w @ [Called client ?params], ticks := Suc (ticks w)\<rparr>"
      let ?answer = "generateContent pf (ticks w) client ?params"
      let ?rest = "case fs_mkdir pf ?w1 (getImagesDirectory pf) of
                     (Inl e, w2) \<Rightarrow> (Inl e :: js_thrown + CallToolResult, w2)
                   | (Inr u, w2) \<Rightarrow>
                       (case for_each (edit_part pf (getImagesDirectory pf))
                               (case response_parts (projr ?answer) of
                                  None \<Rightarrow> [] | Some ps \<Rightarrow> ps)
                               empty_acc w2 of
                          (Inl e, w3) \<Rightarrow> (Inl e, w3)
                        | (Inr acc, w3) \<Rightarrow>
                            (Inr (TextContent
                                    (edit_statusText pf (imagePath (arguments request))
                                       (prompt (arguments request))
                                       (referenceImages (arguments request))
                                       (default_to (aspectRatio (arguments request)) ''4:3'')
                                       (default_to (imageSize (arguments request)) ''1K'') acc)
                                  # acc_content acc), w3))"
      have k1: "keeps_or_sets w ?w1"
        by (rule keeps_or_sets_same_session [where es = "[Called client ?params]"]) simp_all
      have "keeps_or_sets ?w1 (snd ?rest)"
        by (rule saved_response_keeps_or_sets [OF edit_part_saving])
      with k1 have k2: "keeps_or_sets w (snd ?rest)"
        by (rule keeps_or_sets_trans)
      have "snd (editImage pf w request) = ?w1 \<or> snd (editImage pf w request) = snd ?rest"
        using True Inr c
        by (cases ?answer)
          (simp_all add: editImage_def editImage_try_def models_generateContent_def
            edit_parameters_def Let_def split: prod.splits sum.splits)
      with k1 k2 show ?thesis by auto
    qed
  qed
qed

lemma configureGeminiToken_keeps_or_sets:
  "keeps_or_sets w (snd (configureGeminiToken pf w request))"
  by (auto simp add: configureGeminiToken_def ConfigSchema_parse_def saveConfig_def
      fs_writeFile_def keeps_or_sets_def Let_def split: option.splits Node.splits)

lemma continueEditing_keeps_or_sets: "keeps_or_sets w (snd (continueEditing pf w request))"
  by (simp add: continueEditing_def keeps_or_sets_refl editImage_keeps_or_sets Let_def)

lemma call_tool_snd: "snd (call_tool pf w request) = snd (call_tool_switch pf w request)"
  by (simp add: call_tool_def split: prod.splits sum.splits exn.splits)

lemma call_tool_keeps_or_sets: "keeps_or_sets w (snd (call_tool pf w request))"
  by (simp add: call_tool_snd call_tool_switch_def keeps_or_sets_refl
      configureGeminiToken_keeps_or_sets generateImage_keeps_or_sets editImage_keeps_or_sets
      continueEditing_keeps_or_sets getConfigurationStatus_def getLastImageInfo_def Let_def
      split: option.splits)

lemma keeps_or_sets_not_reset:
  assumes "keeps_or_sets w w'" and "lastImagePath (session w) \<noteq> None"
  shows "lastImagePath (session w') \<noteq> None"
  using assms unfolding keeps_or_sets_def by auto

lemma serve_not_reset:
  assumes "lastImagePath (session w) \<noteq> None"
  shows "lastImagePath (session (serve pf w requests)) \<noteq> None"
  using assms
proof (induction requests arbitrary: w)
  case Nil
  then show ?case by simp
next
  case (Cons request rest)
  from call_tool_keeps_or_sets Cons.prems
  have "lastImagePath (session (snd (call_tool pf w request))) \<noteq> None"
    by (rule keeps_or_sets_not_reset)
  then show ?case
    by (simp add: Cons.IH)
qed

lemma loadConfig_lastImagePath:
  "lastImagePath (session (loadConfig pf w)) = lastImagePath (session w)"
  by (simp add: loadConfig_def Let_def split: option.splits sum.splits)

lemma other_tools_keep:
  assumes "name request \<noteq> ''generate_image''" and "name request \<noteq> ''edit_image''"
    and "lastImagePath (session w) = Some p" and "nodes w p = None"
  shows "lastImagePath (session (snd (call_tool pf w request))) = Some p"
proof -
  have conf: "lastImagePath (session (snd (configureGeminiToken pf w request))) = Some p"
    using assms(3)
    by (auto simp add: configureGeminiToken_def ConfigSchema_parse_def saveConfig_def
        fs_writeFile_def Let_def split: option.splits Node.splits)
  have cont: "snd (continueEditing pf w request) = w"
    using assms(3,4)
    by (simp add: continueEditing_def truthy_def default_to_def fs_access_def Let_def)
  show ?thesis
    using assms conf cont
    by (simp add: call_tool_snd call_tool_switch_def getConfigurationStatus_def
        getLastImageInfo_def Let_def split: option.splits)
qed

lemma follows_writes_refl: "follows_writes w w"
  by (simp add: follows_writes_def)

lemma follows_writes_trans:
  assumes "follows_writes w w1" and "follows_writes w1 w2"
  shows "follows_writes w w2"
proof -
  from assms(1) obtain es1 where e1: "effects w1 = effects w @ es1"
    and l1: "if writes_of es1 = []
             then lastImagePath (session w1) = lastImagePath (session w)
             else lastImagePath (session w1) = Some (fst (last (writes_of es1)))"
    unfolding follows_writes_def by blast
  from assms(2) obtain es2 where e2: "effects w2 = effects w1 @ es2"
    and l2: "if writes_of es2 = []
             then lastImagePath (session w2) = lastImagePath (session w1)
             else lastImagePath (session w2) = Some (fst (last (writes_of es2)))"
    unfolding follows_writes_def by blast
  have e: "effects w2 = effects w @ (es1 @ es2)"
    using e1 e2 by simp
  have "if writes_of (es1 @ es2) = []
        then lastImagePath (session w2) = lastImagePath (session w)
        else lastImagePath (session w2) = Some (fst (last (writes_of (es1 @ es2))))"
    using l1 l2 by (cases "writes_of es2 = []") (auto simp add: writes_of_append)
  with e show ?thesis
    unfolding follows_writes_def by blast
qed

lemma follows_writes_quiet:
  assumes "effects w' = effects w @ es" and "writes_of es = []"
    and "lastImagePath (session w') = lastImagePath (session w)"
  shows "follows_writes w w'"
  using assms unfolding follows_writes_def by auto

lemma round_done_follows_writes:
  assumes "round_done pf part acc w acc' w'"
  shows "follows_writes w w'"
proof (cases "has_image part")
  case True
  with assms obtain f where
    "effects w' = effects w @ [Wrote f (base64_decode pf (image_data part))]"
    "session w' = (session w)\<lparr>lastImagePath := Some f\<rparr>"
    unfolding round_done_def by auto
  then show ?thesis
    unfolding follows_writes_def
    by (intro exI [of _ "[Wrote f (base64_decode pf (image_data part))]"]) simp
next
  case False
  with assms have "effects w' = effects w @ []" "session w' = session w"
    unfolding round_done_def by simp_all
  then show ?thesis
    by (intro follows_writes_quiet [where es = "[]"]) simp_all
qed

lemma round_thrown_follows_writes:
  assumes "round_thrown w w'"
  shows "follows_writes w w'"
  using assms unfolding round_thrown_def
  by (intro follows_writes_quiet [where es = "[]"]) simp_all

lemma for_each_follows_writes:
  assumes "saving_round pf body"
  shows "follows_writes w (snd (for_each body ps acc w))"
proof (induction ps arbitrary: acc w)
  case Nil
  show ?case by (simp add: follows_writes_refl)
next
  case (Cons part rest)
  obtain r w1 where b: "body part acc w = (r, w1)"
    by (cases "body part acc w")
  show ?case
  proof (cases r)
    case (Inl e)
    with b assms have "round_thrown w w1"
      unfolding saving_round_def by (metis (mono_tags, lifting) old.prod.case sum.case(1))
    with b Inl show ?thesis
      by (simp add: round_thrown_follows_writes)
  next
    case (Inr acc1)
    with b assms have "round_done pf part acc w acc1 w1"
      by (simp add: saving_round_Inr)
    then have "follows_writes w w1"
      by (rule round_done_follows_writes)
    moreover have "follows_writes w1 (snd (for_each body rest acc1 w1))"
      by (rule Cons.IH)
    ultimately show ?thesis
      using b Inr by (simp add: follows_writes_trans)
  qed
qed

lemma saved_response_follows_writes:
  assumes body: "saving_round pf body"
  shows "follows_writes w1
           (snd (case fs_mkdir pf w1 imagesDir of
                   (Inl e, w2) \<Rightarrow> (Inl e :: js_thrown + CallToolResult, w2)
                 | (Inr u, w2) \<Rightarrow>
                     (case for_each body ps empty_acc w2 of
                        (Inl e, w3) \<Rightarrow> (Inl e, w3)
                      | (Inr acc, w3) \<Rightarrow> (Inr (TextContent (status acc) # acc_content acc), w3))))"
proof -
  obtain r2 w2 where m: "fs_mkdir pf w1 imagesDir = (r2, w2)"
    by (cases "fs_mkdir pf w1 imagesDir")
  from fs_mkdir_done [OF m] have k1: "follows_writes w1 w2"
    by (auto intro: follows_writes_quiet)
  show ?thesis
  proof (cases r2)
    case (Inl e)
    with m k1 show ?thesis by simp
  next
    case (Inr u)
    obtain r3 w3 where l: "for_each body ps empty_acc w2 = (r3, w3)"
      by (cases "for_each body ps empty_acc w2")
    from for_each_follows_writes [OF body, of w2 ps empty_acc] l have "follows_writes w2 w3"
      by simp
    with k1 have "follows_writes w1 w3"
      by (rule follows_writes_trans)
    with m Inr l show ?thesis
      by (cases r3) simp_all
  qed
qed

lemma generateImage_follows_writes: "follows_writes w (snd (generateImage pf w request))"
proof (cases "ensureConfigured (session w)")
  case False
  then show ?thesis
    by (simp add: generateImage_def follows_writes_refl)
next
  case True
  then obtain client where c: "genAI (session w) = Some client"
    by (auto simp add: ensureConfigured_def)
  let ?params = "generate_parameters pf request"
  let ?w1 = "w\<lparr>effects := effects w @ [Called client ?params], ticks := Suc (ticks w)\<rparr>"
  let ?answer = "generateContent pf (ticks w) client ?params"
  let ?rest = "case fs_mkdir pf ?w1 (getImagesDirectory pf) of
                 (Inl e, w2) \<Rightarrow> (Inl e :: js_thrown + CallToolResult, w2)
               | (Inr u, w2) \<Rightarrow>
                   (case for_each (generate_part pf (getImagesDirectory pf))
                           (case response_parts (projr ?answer) of
                              None \<Rightarrow> [] | Some ps \<Rightarrow> ps)
                           empty_acc w2 of
                      (Inl e, w3) \<Rightarrow> (Inl e, w3)
                    | (Inr acc, w3) \<Rightarrow>
                        (Inr (TextContent
                                (generate_statusText pf (prompt (arguments request))
                                   (default_to (aspectRatio (arguments request)) ''4:3'')
                                   (default_to (imageSize (arguments request)) ''1K'') acc)
                              # acc_content acc), w3))"
  have k1: "follows_writes w ?w1"
    by (rule follows_writes_quiet [where es = "[Called client ?params]"]) simp_all
  have "follows_writes ?w1 (snd ?rest)"
    by (rule saved_response_follows_writes [OF generate_part_saving])
  with k1 have k2: "follows_writes w (snd ?rest)"
    by (rule follows_writes_trans)
  have try_is: "generateImage_try pf w (prompt (arguments request))
                  (default_to (aspectRatio (arguments request)) ''4:3'')
                  (default_to (imageSize (arguments request)) ''1K'')
                = (case ?answer of Inl e \<Rightarrow> (Inl e, ?w1) | Inr response \<Rightarrow> ?rest)"
    using c
    by (cases ?answer)
      (simp_all add: generateImage_try_def models_generateContent_def generate_parameters_def
        Let_def split: prod.splits sum.splits)
  obtain r v where t: "generateImage_try pf w (prompt (arguments request))
                  (default_to (aspectRatio (arguments request)) ''4:3'')
                  (default_to (imageSize (arguments request)) ''1K'') = (r, v)"
    by (cases "generateImage_try pf w (prompt (arguments request))
                  (default_to (aspectRatio (arguments request)) ''4:3'')
                  (default_to (imageSize (arguments request)) ''1K'')")
  from try_is t have "v = snd (case ?answer of Inl e \<Rightarrow> (Inl e, ?w1) | Inr response \<Rightarrow> ?rest)"
    by (metis snd_conv)
  then have "v = ?w1 \<or> v = snd ?rest"
    by (cases ?answer) simp_all
  with k1 k2 have kv: "follows_writes w v"
    by auto
  have "session (snd (generateImage pf w request)) = session v
        \<and> (\<exists>es. effects (snd (generateImage pf w request)) = effects v @ es
                 \<and> writes_of es = [])"
    using True t by (cases r) (simp_all add: generateImage_def Let_def)
  then have "follows_writes v (snd (generateImage pf w request))"
    by (auto intro: follows_writes_quiet)
  with kv show ?thesis
    by (rule follows_writes_trans)
qed

lemma editImage_follows_writes: "follows_writes w (snd (editImage pf w request))"
proof (cases "ensureConfigured (session w)")
  case False
  then show ?thesis
    by (simp add: editImage_def follows_writes_refl)
next
  case True
  show ?thesis
  proof (cases "fs_readFile w (imagePath (arguments request))")
    case (Inl e)
    with True show ?thesis
      by (simp add: editImage_def editImage_try_def follows_writes_refl)
  next
    case (Inr imageBuffer)
    from True obtain client where c: "genAI (session w) = Some client"
      by (auto simp add: ensureConfigured_def)
    let ?params = "edit_parameters pf w request imageBuffer"
    let ?w1 = "w\<lparr>effects := effects w @ [Called client ?params], ticks := Suc (ticks w)\<rparr>"
    let ?answer = "generateContent pf (ticks w) client ?params"
    let ?rest = "case fs_mkdir pf ?w1 (getImagesDirectory pf) of
                   (Inl e, w2) \<Rightarrow> (Inl e :: js_thrown + CallToolResult, w2)
                 | (Inr u, w2) \<Rightarrow>
                     (case for_each (edit_part pf (getImagesDirectory pf))
                             (case response_parts (projr ?answer) of
                                None \<Rightarrow> [] | Some ps \<Rightarrow> ps)
                             empty_acc w2 of
                        (Inl e, w3) \<Rightarrow> (Inl e, w3)
                      | (Inr acc, w3) \<Rightarrow>
                          (Inr (TextContent
                                  (edit_statusText pf (imagePath (arguments request))
                                     (prompt (arguments request))
                                     (referenceImages (arguments request))
                                     (default_to (aspectRatio (arguments request)) ''4:3'')
                                     (default_to (imageSize (arguments request)) ''1K'') acc)
                                # acc_content acc), w3))"
    have k1: "follows_writes w ?w1"
      by (rule follows_writes_quiet [where es = "[Called client ?params]"]) simp_all
    have "follows_writes ?w1 (snd ?rest)"
      by (rule saved_response_follows_writes [OF edit_part_saving])
    with k1 have k2: "follows_writes w (snd ?rest)"
      by (rule follows_writes_trans)
    have "snd (editImage pf w request) = ?w1 \<or> snd (editImage pf w request) = snd ?rest"
      using True Inr c
      by (cases ?answer)
        (simp_all add: editImage_def editImage_try_def models_generateContent_def
          edit_parameters_def Let_def split: prod.splits sum.splits)
    with k1 k2 show ?thesis by auto
  qed
qed

lemma continueEditing_follows_writes: "follows_writes w (snd (continueEditing pf w request))"
  by (simp add: continueEditing_def follows_writes_refl editImage_follows_writes Let_def)

lemma image_tools_follow_writes:
  assumes "name request \<in> {''generate_image'', ''edit_image'', ''continue_editing''}"
  shows "follows_writes w (snd (call_tool pf w request))"
  using assms
  by (auto simp add: call_tool_snd call_tool_switch_def generateImage_follows_writes
      editImage_follows_writes continueEditing_follows_writes)

lemma other_tools_keep_path:
  assumes "name request \<notin> {''generate_image'', ''edit_image'', ''continue_editing''}"
  shows "lastImagePath (session (snd (call_tool pf w request))) = lastImagePath (session w)"
proof -
  have "lastImagePath (session (snd (configureGeminiToken pf w request)))
          = lastImagePath (session w)"
    by (auto simp add: configureGeminiToken_def ConfigSchema_parse_def saveConfig_def
        fs_writeFile_def Let_def split: option.splits Node.splits)
  with assms show ?thesis
    by (simp add: call_tool_snd call_tool_switch_def getConfigurationStatus_def
        getLastImageInfo_def Let_def split: option.splits)
qed

lemma follows_writes_new_effects:
  assumes "follows_writes w w'"
  shows "if writes_of (new_effects w w') = []
         then lastImagePath (session w') = lastImagePath (session w)
         else lastImagePath (session w') = Some (fst (last (writes_of (new_effects w w'))))"
proof -
  from assms obtain es where e: "effects w' = effects w @ es"
    and l: "if writes_of es = []
            then lastImagePath (session w') = lastImagePath (session w)
            else lastImagePath (session w') = Some (fst (last (writes_of es)))"
    unfolding follows_writes_def by blast
  from e have "new_effects w w' = es"
    by (rule new_effects_append)
  with l show ?thesis by simp
qed

text \<open>
  Claim C10, as the code has it. The last image path is absent in a fresh session and
  after the start-up \<open>run\<close>. A tool call, whatever it returns or throws, leaves the path as
  it was or sets it to the path of a file that this call wrote; so no call, and no
  sequence of calls, makes a present path absent. The path is not looked after between
  calls: when its file has been deleted the session still holds the path, and every tool
  other than \<^verbatim>\<open>generate_image\<close> and \<^verbatim>\<open>edit_image\<close> leaves it there. The loops of
  \<open>generateImage\<close> and \<open>editImage\<close> set the path at each file they write, before the call is
  known to succeed: after a call of an image tool that wrote files the path is that of the
  last file written, whether the call returned or threw, and after one that wrote none it
  is as before; the other tools never change it. So a path whose file has been deleted
  stays until a \<^verbatim>\<open>generate_image\<close> or \<^verbatim>\<open>edit_image\<close> call writes an image file, successful
  or not.
\<close>

theorem lastImagePath_monotone:
  "lastImagePath new_session = None
   \<and> lastImagePath (session (run pf disk)) = None
   \<and> (lastImagePath (session (snd (call_tool pf w request))) = lastImagePath (session w)
       \<or> (\<exists>p b. lastImagePath (session (snd (call_tool pf w request))) = Some p
                 \<and> Wrote p b \<in> set (new_effects w (snd (call_tool pf w request)))))
   \<and> (lastImagePath (session w) \<noteq> None \<longrightarrow>
        lastImagePath (session (snd (call_tool pf w request))) \<noteq> None
        \<and> lastImagePath (session (serve pf w requests)) \<noteq> None)
   \<and> (lastImagePath (session w) = Some p \<longrightarrow>
        lastImagePath (session (w\<lparr>nodes := (nodes w)(p := None)\<rparr>)) = Some p
        \<and> (name request \<noteq> ''generate_image'' \<and> name request \<noteq> ''edit_image'' \<longrightarrow>
             lastImagePath (session (snd (call_tool pf (w\<lparr>nodes := (nodes w)(p := None)\<rparr>)
                                            request))) = Some p))
   \<and> (name request \<in> {''generate_image'', ''edit_image'', ''continue_editing''} \<longrightarrow>
        (if writes_of (new_effects w (snd (call_tool pf w request))) = []
         then lastImagePath (session (snd (call_tool pf w request))) = lastImagePath (session w)
         else lastImagePath (session (snd (call_tool pf w request)))
                = Some (fst (last (writes_of (new_effects w (snd (call_tool pf w request))))))))
   \<and> (name request \<notin> {''generate_image'', ''edit_image'', ''continue_editing''} \<longrightarrow>
        lastImagePath (session (snd (call_tool pf w request))) = lastImagePath (session w))
   \<and> (lastImagePath (session w) = Some p \<longrightarrow>
        (let deleted = w\<lparr>nodes := (nodes w)(p := None)\<rparr>;
             after = snd (call_tool pf deleted request)
         in if name request \<in> {''generate_image'', ''edit_image''}
               \<and> writes_of (new_effects deleted after) \<noteq> []
            then lastImagePath (session after)
                   = Some (fst (last (writes_of (new_effects deleted after))))
            else lastImagePath (session after) = Some p))"
proof -
  have start: "lastImagePath new_session = None" "lastImagePath (session (run pf disk)) = None"
    by (simp_all add: run_def loadConfig_lastImagePath new_session_def)
  from call_tool_keeps_or_sets [of w pf request] obtain es where
    e: "effects (snd (call_tool pf w request)) = effects w @ es"
    and l: "lastImagePath (session (snd (call_tool pf w request))) = lastImagePath (session w)
            \<or> (\<exists>p b. lastImagePath (session (snd (call_tool pf w request))) = Some p
                      \<and> Wrote p b \<in> set es)"
    unfolding keeps_or_sets_def by blast
  from e have "new_effects w (snd (call_tool pf w request)) = es"
    by (rule new_effects_append)
  with l have step:
    "lastImagePath (session (snd (call_tool pf w request))) = lastImagePath (session w)
     \<or> (\<exists>p b. lastImagePath (session (snd (call_tool pf w request))) = Some p
               \<and> Wrote p b \<in> set (new_effects w (snd (call_tool pf w request))))"
    by simp
  have never: "lastImagePath (session w) \<noteq> None \<longrightarrow>
        lastImagePath (session (snd (call_tool pf w request))) \<noteq> None
        \<and> lastImagePath (session (serve pf w requests)) \<noteq> None"
    using keeps_or_sets_not_reset [OF call_tool_keeps_or_sets, of w pf request]
      serve_not_reset [of w pf requests]
    by blast
  have deleted: "lastImagePath (session w) = Some p \<longrightarrow>
        lastImagePath (session (w\<lparr>nodes := (nodes w)(p := None)\<rparr>)) = Some p
        \<and> (name request \<noteq> ''generate_image'' \<and> name request \<noteq> ''edit_image'' \<longrightarrow>
             lastImagePath (session (snd (call_tool pf (w\<lparr>nodes := (nodes w)(p := None)\<rparr>)
                                            request))) = Some p)"
    using other_tools_keep [of request "w\<lparr>nodes := (nodes w)(p := None)\<rparr>" p pf]
    by simp
  have image: "name request \<in> {''generate_image'', ''edit_image'', ''continue_editing''} \<longrightarrow>
        (if writes_of (new_effects w (snd (call_tool pf w request))) = []
         then lastImagePath (session (snd (call_tool pf w request))) = lastImagePath (session w)
         else lastImagePath (session (snd (call_tool pf w request)))
                = Some (fst (last (writes_of (new_effects w (snd (call_tool pf w request)))))))"
  proof
    assume "name request \<in> {''generate_image'', ''edit_image'', ''continue_editing''}"
    then have "follows_writes w (snd (call_tool pf w request))"
      by (rule image_tools_follow_writes)
    then show "if writes_of (new_effects w (snd (call_tool pf w request))) = []
         then lastImagePath (session (snd (call_tool pf w request))) = lastImagePath (session w)
         else lastImagePath (session (snd (call_tool pf w request)))
                = Some (fst (last (writes_of (new_effects w (snd (call_tool pf w request))))))"
      by (rule follows_writes_new_effects)
  qed
  have other: "name request \<notin> {''generate_image'', ''edit_image'', ''continue_editing''} \<longrightarrow>
        lastImagePath (session (snd (call_tool pf w request))) = lastImagePath (session w)"
    using other_tools_keep_path [of request pf w] by blast
  have stale: "lastImagePath (session w) = Some p \<longrightarrow>
        (let deleted = w\<lparr>nodes := (nodes w)(p := None)\<rparr>;
             after = snd (call_tool pf deleted request)
         in if name request \<in> {''generate_image'', ''edit_image''}
               \<and> writes_of (new_effects deleted after) \<noteq> []
            then lastImagePath (session after)
                   = Some (fst (last (writes_of (new_effects deleted after))))
            else lastImagePath (session after) = Some p)"
  proof
    assume p: "lastImagePath (session w) = Some p"
    let ?deleted = "w\<lparr>nodes := (nodes w)(p := None)\<rparr>"
    let ?after = "snd (call_tool pf ?deleted request)"
    have pd: "lastImagePath (session ?deleted) = Some p"
      using p by simp
    have gone: "nodes ?deleted p = None"
      by simp
    have "if name request \<in> {''generate_image'', ''edit_image''}
               \<and> writes_of (new_effects ?deleted ?after) \<noteq> []
            then lastImagePath (session ?after)
                   = Some (fst (last (writes_of (new_effects ?deleted ?after))))
            else lastImagePath (session ?after) = Some p"
    proof (cases "name request \<in> {''generate_image'', ''edit_image''}")
      case True
      then have "name request \<in> {''generate_image'', ''edit_image'', ''continue_editing''}"
        by auto
      then have "follows_writes ?deleted ?after"
        by (rule image_tools_follow_writes)
      then have "if writes_of (new_effects ?deleted ?after) = []
         then lastImagePath (session ?after) = lastImagePath (session ?deleted)
         else lastImagePath (session ?after)
                = Some (fst (last (writes_of (new_effects ?deleted ?after))))"
        by (rule follows_writes_new_effects)
      with pd True show ?thesis
        by (cases "writes_of (new_effects ?deleted ?after) = []") simp_all
    next
      case False
      then have "name request \<noteq> ''generate_image''" "name request \<noteq> ''edit_image''"
        by auto
      then have "lastImagePath (session ?after) = Some p"
        using pd gone by (rule other_tools_keep)
      with False show ?thesis
        by simp
    qed
    then show "let deleted = w\<lparr>nodes := (nodes w)(p := None)\<rparr>;
             after = snd (call_tool pf deleted request)
         in if name request \<in> {''generate_image'', ''edit_image''}
               \<and> writes_of (new_effects deleted after) \<noteq> []
            then lastImagePath (session after)
                   = Some (fst (last (writes_of (new_effects deleted after))))
            else lastImagePath (session after) = Some p"
      unfolding Let_def .
  qed
  from start step never deleted image other stale show ?thesis
    by (intro conjI)
qed

theorem lastImagePath_monotone_witness:
  "lastImagePath (session (run demo_platform Map.empty)) = None
   \<and> lastImagePath (session ready_world) = None
   \<and> lastImagePath (session (snd (call_tool demo_platform ready_world
                                    (demo_request ''generate_image''))))
       = Some ''/out/generated-2025-01-02T03-04-05-678Z-k3x9a1.png''
   \<and> Wrote ''/out/generated-2025-01-02T03-04-05-678Z-k3x9a1.png'' ''PNG''
       \<in> set (new_effects ready_world
                 (snd (call_tool demo_platform ready_world (demo_request ''generate_image''))))
   \<and> lastImagePath (session (ready_world_after ''/in/a.png'')) = Some ''/in/a.png''
   \<and> lastImagePath (session (serve demo_platform (ready_world_after ''/in/a.png'')
                               [demo_request ''get_last_image_info'',
                                demo_request ''frobnicate''])) \<noteq> None
   \<and> lastImagePath (session deleted_world) = Some ''/in/a.png''
   \<and> nodes deleted_world ''/in/a.png'' = None
   \<and> name (demo_request ''continue_editing'') \<noteq> ''generate_image''
   \<and> name (demo_request ''continue_editing'') \<noteq> ''edit_image''
   \<and> lastImagePath (session (snd (call_tool demo_platform deleted_world
                                    (demo_request ''continue_editing'')))) = Some ''/in/a.png''
   \<and> fst (call_tool demo_platform deleted_world (demo_request ''continue_editing''))
       = Inl (McpError InvalidRequest
                ''Last image file not found at: /in/a.png. Please generate a new image first.'')
   \<and> name (demo_request ''generate_image'') = ''generate_image''
   \<and> writes_of (new_effects deleted_world
                   (snd (call_tool second_refused_platform deleted_world
                           (demo_request ''generate_image''))))
       = [(''/out/generated-2025-01-02T03-04-05-678Z-4fzyo8.png'', ''PNG'')]
   \<and> fst (call_tool second_refused_platform deleted_world (demo_request ''generate_image''))
       = Inl (McpError InternalError ''Failed to generate image: EACCES: permission denied'')
   \<and> lastImagePath (session (snd (call_tool second_refused_platform deleted_world
                                    (demo_request ''generate_image''))))
       = Some ''/out/generated-2025-01-02T03-04-05-678Z-4fzyo8.png''
   \<and> name (demo_request ''get_last_image_info'') = ''get_last_image_info''
   \<and> lastImagePath (session (snd (call_tool demo_platform (ready_world_after ''/in/a.png'')
                                    (demo_request ''get_last_image_info'')))) = Some ''/in/a.png''
   \<and> writes_of (new_effects deleted_world
                   (snd (call_tool demo_platform deleted_world
                           (demo_request ''continue_editing'')))) = []"
proof -
  have s0: "lastImagePath (session ready_world) = None"
    by (simp add: demo_defs)
  have s1: "lastImagePath (session (ready_world_after ''/in/a.png'')) = Some ''/in/a.png''"
    by (simp add: demo_defs)
  have s2: "lastImagePath (session (ready_world_after ''/in/a.png'')) \<noteq> None"
    using s1 by simp
  have d: "deleted_world = (ready_world_after ''/in/a.png'')
             \<lparr>nodes := (nodes (ready_world_after ''/in/a.png''))(''/in/a.png'' := None)\<rparr>"
    by (simp add: deleted_world_def)
  have n: "name (demo_request ''continue_editing'') \<noteq> ''generate_image''"
    "name (demo_request ''continue_editing'') \<noteq> ''edit_image''"
    by (simp_all add: demo_request_def)
  have ng: "name (demo_request ''generate_image'') = ''generate_image''"
    by (simp add: demo_request_def)
  have ni: "name (demo_request ''get_last_image_info'') = ''get_last_image_info''"
    by (simp add: demo_request_def)
  have gone: "nodes deleted_world ''/in/a.png'' = None"
    by (simp add: demo_defs)
  note T1 = lastImagePath_monotone [where pf = demo_platform and disk = Map.empty
      and w = ready_world and request = "demo_request ''generate_image''"]
  note T2 = lastImagePath_monotone [where pf = demo_platform
      and w = "ready_world_after ''/in/a.png''" and p = "''/in/a.png''"
      and request = "demo_request ''continue_editing''"
      and requests = "[demo_request ''get_last_image_info'', demo_request ''frobnicate'']"]
  note T3 = lastImagePath_monotone [where pf = second_refused_platform
      and w = "ready_world_after ''/in/a.png''" and p = "''/in/a.png''"
      and request = "demo_request ''generate_image''"]
  note T4 = lastImagePath_monotone [where pf = demo_platform
      and w = "ready_world_after ''/in/a.png''"
      and request = "demo_request ''get_last_image_info''"]
  have A: "lastImagePath (session (run demo_platform Map.empty)) = None"
    using T1 by blast
  have B: "lastImagePath (session (snd (call_tool demo_platform ready_world
                                    (demo_request ''generate_image''))))
       = Some ''/out/generated-2025-01-02T03-04-05-678Z-k3x9a1.png''"
    by (simp add: call_tool_snd call_tool_switch_def handler_defs demo_defs)
  from T1 s0 B have "\<exists>p b. lastImagePath (session (snd (call_tool demo_platform ready_world
                                    (demo_request ''generate_image'')))) = Some p
       \<and> Wrote p b \<in> set (new_effects ready_world
                 (snd (call_tool demo_platform ready_world (demo_request ''generate_image''))))"
    by auto
  then obtain b where "Wrote ''/out/generated-2025-01-02T03-04-05-678Z-k3x9a1.png'' b
       \<in> set (new_effects ready_world
                 (snd (call_tool demo_platform ready_world (demo_request ''generate_image''))))"
    using B by auto
  moreover have "new_effects ready_world
                 (snd (call_tool demo_platform ready_world (demo_request ''generate_image'')))
      = [Called (GoogleGenAI ''k'')
           \<lparr>model = ''gemini-2.5-flash-image'', contents = PromptString ''a cat'',
            imageConfig = \<lparr>cfg_aspectRatio = ''4:3'', cfg_imageSize = None\<rparr>\<rparr>,
         MadeDir ''/out'',
         Wrote ''/out/generated-2025-01-02T03-04-05-678Z-4fzyo8.png'' ''PNG'',
         Wrote ''/out/generated-2025-01-02T03-04-05-678Z-k3x9a1.png'' ''PNG'']"
    by (simp add: new_effects_def call_tool_snd call_tool_switch_def handler_defs demo_defs)
  ultimately have C: "Wrote ''/out/generated-2025-01-02T03-04-05-678Z-k3x9a1.png'' ''PNG''
       \<in> set (new_effects ready_world
                 (snd (call_tool demo_platform ready_world (demo_request ''generate_image''))))"
    by simp
  have D: "lastImagePath (session (serve demo_platform (ready_world_after ''/in/a.png'')
                               [demo_request ''get_last_image_info'',
                                demo_request ''frobnicate''])) \<noteq> None"
    using T2 s2 by blast
  have E: "lastImagePath (session deleted_world) = Some ''/in/a.png''"
    using T2 s1 unfolding d by blast
  have F: "lastImagePath (session (snd (call_tool demo_platform deleted_world
                                    (demo_request ''continue_editing'')))) = Some ''/in/a.png''"
    using T2 s1 n unfolding d by blast
  have G: "fst (call_tool demo_platform deleted_world (demo_request ''continue_editing''))
       = Inl (McpError InvalidRequest
                ''Last image file not found at: /in/a.png. Please generate a new image first.'')"
    by (simp add: call_tool_def call_tool_switch_def continueEditing_def handler_defs demo_defs)
  have H: "writes_of (new_effects deleted_world
                   (snd (call_tool second_refused_platform deleted_world
                           (demo_request ''generate_image''))))
       = [(''/out/generated-2025-01-02T03-04-05-678Z-4fzyo8.png'', ''PNG'')]"
    by (simp add: new_effects_def call_tool_snd call_tool_switch_def handler_defs demo_defs)
  have I: "fst (call_tool second_refused_platform deleted_world (demo_request ''generate_image''))
       = Inl (McpError InternalError ''Failed to generate image: EACCES: permission denied'')"
    by (simp add: call_tool_def call_tool_switch_def error_text_def handler_defs demo_defs)
  from T3 s1 have "let deleted = deleted_world;
             after = snd (call_tool second_refused_platform deleted
                            (demo_request ''generate_image''))
         in if name (demo_request ''generate_image'') \<in> {''generate_image'', ''edit_image''}
               \<and> writes_of (new_effects deleted after) \<noteq> []
            then lastImagePath (session after)
                   = Some (fst (last (writes_of (new_effects deleted after))))
            else lastImagePath (session after) = Some ''/in/a.png''"
    unfolding d by blast
  then have J: "lastImagePath (session (snd (call_tool second_refused_platform deleted_world
                                    (demo_request ''generate_image''))))
       = Some ''/out/generated-2025-01-02T03-04-05-678Z-4fzyo8.png''"
    unfolding Let_def H ng by simp
  have "name (demo_request ''get_last_image_info'')
          \<notin> {''generate_image'', ''edit_image'', ''continue_editing''}"
    unfolding ni by simp
  with T4 s1 have K: "lastImagePath (session (snd (call_tool demo_platform
                                    (ready_world_after ''/in/a.png'')
                                    (demo_request ''get_last_image_info'')))) = Some ''/in/a.png''"
    by simp
  have L: "writes_of (new_effects deleted_world
                   (snd (call_tool demo_platform deleted_world
                           (demo_request ''continue_editing'')))) = []"
    by (simp add: new_effects_def call_tool_snd call_tool_switch_def continueEditing_def
        handler_defs demo_defs)
  from A s0 B C s1 D E gone n F G ng H I J ni K L show ?thesis
    by (intro conjI)
qed

text \<open>
  Claim C10 as the specification words it has a path whose file has been deleted stay
  until a later successful generate or edit overwrites it. Here the session holds the
  path of a deleted file, the response carries two images and the file system refuses the
  second: \<^verbatim>\<open>generate_image\<close> fails, and the session now holds the path of the first image,
  which the failed call wrote.
\<close>

theorem failed_generate_overwrites:
  "lastImagePath (session deleted_world) = Some ''/in/a.png''
   \<and> nodes deleted_world ''/in/a.png'' = None
   \<and> fst (call_tool second_refused_platform deleted_world (demo_request ''generate_image''))
       = Inl (McpError InternalError ''Failed to generate image: EACCES: permission denied'')
   \<and> writes_of (new_effects deleted_world
                   (snd (call_tool second_refused_platform deleted_world
                           (demo_request ''generate_image''))))
       = [(''/out/generated-2025-01-02T03-04-05-678Z-4fzyo8.png'', ''PNG'')]
   \<and> lastImagePath (session (snd (call_tool second_refused_platform deleted_world
                                    (demo_request ''generate_image''))))
       = Some ''/out/generated-2025-01-02T03-04-05-678Z-4fzyo8.png''"
  by (simp add: new_effects_def call_tool_def call_tool_switch_def error_text_def
      handler_defs demo_defs)

end
